theory Spec2Isabelle
  imports Main "HOL-Library.Word"
begin

section \<open>The tensor converter element of nnstreamer (gsttensor\_converter.c)\<close>

text \<open>
  A shallow embedding of the negotiation functions (\<open>gst_tensor_converter_parse_*\<close>,
  \<open>gst_tensor_converter_update_caps\<close>) and of the chain function with its private
  routines. C integers are machine words: \<open>guint\<close> and \<open>gint\<close> are 32 bits
  (\<open>gint\<close> is read with \<open>sint\<close>), \<open>gsize\<close>, \<open>guint64\<close> and \<open>GstClockTime\<close> are
  64 bits. Identifiers keep the names of the source; a leading underscore is dropped
  (\<open>_NNS_VIDEO\<close> is \<open>NNS_VIDEO\<close>).
\<close>

subsection \<open>Machine integers\<close>

type_synonym guint = "32 word"
type_synonym gint = "32 word"
type_synonym gsize = "64 word"
type_synonym guint64 = "64 word"
type_synonym GstClockTime = "64 word"
type_synonym byte = "8 word"

definition GST_CLOCK_TIME_NONE :: GstClockTime where
  "GST_CLOCK_TIME_NONE = - 1"

definition GST_CLOCK_TIME_IS_VALID :: "GstClockTime \<Rightarrow> bool" where
  "GST_CLOCK_TIME_IS_VALID t = (t \<noteq> GST_CLOCK_TIME_NONE)"

definition GST_SECOND :: guint64 where
  "GST_SECOND = 1000000000"

definition GST_MSECOND :: guint64 where
  "GST_MSECOND = 1000000"

text \<open>
  \<open>gst_util_uint64_scale_int (val, num, denom)\<close> of GStreamer: \<open>val * num / denom\<close>
  rounded down, computed without intermediate overflow; \<open>G_MAXUINT64\<close> when the result
  does not fit, and also when \<open>denom > 0\<close> or \<open>num >= 0\<close> fails.
\<close>

definition gst_util_uint64_scale_int :: "guint64 \<Rightarrow> gint \<Rightarrow> gint \<Rightarrow> guint64" where
  "gst_util_uint64_scale_int val num denom =
     (if sint denom \<le> 0 then - 1
      else if sint num < 0 then - 1
      else (let r = (unat val * nat (sint num)) div nat (sint denom)
            in if r < 2 ^ 64 then of_nat r else - 1))"

subsection \<open>Tensor descriptors\<close>

datatype tensor_type =
  NNS_INT32 | NNS_UINT32 | NNS_INT16 | NNS_UINT16 | NNS_INT8 | NNS_UINT8
  | NNS_FLOAT64 | NNS_FLOAT32 | NNS_INT64 | NNS_UINT64 | NNS_FLOAT16 | NNS_END

datatype tensor_format =
  NNS_TENSOR_FORMAT_STATIC | NNS_TENSOR_FORMAT_FLEXIBLE | NNS_TENSOR_FORMAT_SPARSE
  | NNS_TENSOR_FORMAT_END

datatype media_type =
  NNS_MEDIA_INVALID | NNS_VIDEO | NNS_AUDIO | NNS_TEXT | NNS_OCTET | NNS_TENSOR
  | NNS_MEDIA_ANY

text \<open>
  Modelled from the spec: the limits of the descriptor model are declared in
  tensor\_typedef.h, which is not among the sources. The spec speaks of a rank "\<open>\<le>\<close> a
  fixed limit" and a count "\<open>\<le>\<close> a fixed limit"; the parsers of the source write the
  dimension slots 0 to 3 and clear the slots from 4 on, so the rank limit exceeds 4.
  Both limits are 16 in the nnstreamer release this element belongs to.
\<close>

definition NNS_TENSOR_RANK_LIMIT :: nat where
  "NNS_TENSOR_RANK_LIMIT = 16"

definition NNS_TENSOR_SIZE_LIMIT :: nat where
  "NNS_TENSOR_SIZE_LIMIT = 16"

text \<open>
  Modelled from the spec: the element size table of tensor\_typedef.h is not among the
  sources. The element types are "signed/unsigned integers of width 8/16/32/64,
  float16/32/64"; an element takes width/8 bytes, the sentinel none.
\<close>

fun gst_tensor_get_element_size :: "tensor_type \<Rightarrow> gsize" where
  "gst_tensor_get_element_size NNS_INT32 = 4"
| "gst_tensor_get_element_size NNS_UINT32 = 4"
| "gst_tensor_get_element_size NNS_INT16 = 2"
| "gst_tensor_get_element_size NNS_UINT16 = 2"
| "gst_tensor_get_element_size NNS_INT8 = 1"
| "gst_tensor_get_element_size NNS_UINT8 = 1"
| "gst_tensor_get_element_size NNS_FLOAT64 = 8"
| "gst_tensor_get_element_size NNS_FLOAT32 = 4"
| "gst_tensor_get_element_size NNS_INT64 = 8"
| "gst_tensor_get_element_size NNS_UINT64 = 8"
| "gst_tensor_get_element_size NNS_FLOAT16 = 2"
| "gst_tensor_get_element_size NNS_END = 0"

text \<open>
  The structures \<open>GstTensorInfo\<close>, \<open>GstTensorsInfo\<close> and \<open>GstTensorsConfig\<close>. The array
  member \<open>info[]\<close> of \<open>GstTensorsInfo\<close> is the field \<open>info_arr\<close> here, since
  \<open>GstTensorsConfig\<close> has a member \<open>info\<close> of its own. The arrays \<open>dimension[]\<close>
  and \<open>info[]\<close> are functions of the index: \<open>dimension[i]\<close> is \<open>dimension t i\<close>, and
  \<open>gst_tensors_info_get_nth_info (info, i)\<close> is \<open>info_arr info i\<close> (the source reaches
  the tensors beyond the static array through that accessor). \<open>dims\<close> lists the
  slots of a dimension array.
\<close>

record GstTensorInfo =
  name :: "string option"
  type :: tensor_type
  dimension :: "nat \<Rightarrow> guint"

record GstTensorsInfo =
  num_tensors :: guint
  info_arr :: "nat \<Rightarrow> GstTensorInfo"
  format :: tensor_format

record GstTensorsConfig =
  info :: GstTensorsInfo
  rate_n :: gint
  rate_d :: gint

text \<open>
  Modelled from the spec: \<open>gst_tensors_config_init\<close> is not among the sources. A
  descriptor is "created empty": no tensor, static format, every element type the
  sentinel "unset", every dimension 0 (the parsers of the source rely on both: they
  return \<open>type != _NNS_END\<close>), and an unknown frame rate.
\<close>

definition gst_tensor_info_init :: GstTensorInfo where
  "gst_tensor_info_init =
     \<lparr> name = None, type = NNS_END, dimension = (\<lambda>i. 0) \<rparr>"

definition gst_tensors_info_init :: GstTensorsInfo where
  "gst_tensors_info_init =
     \<lparr> num_tensors = 0,
       info_arr = (\<lambda>i. gst_tensor_info_init),
       format = NNS_TENSOR_FORMAT_STATIC \<rparr>"

definition gst_tensors_config_init :: GstTensorsConfig where
  "gst_tensors_config_init =
     \<lparr> info = gst_tensors_info_init, rate_n = - 1, rate_d = - 1 \<rparr>"

definition gst_tensors_config_is_flexible :: "GstTensorsConfig \<Rightarrow> bool" where
  "gst_tensors_config_is_flexible c = (format (info c) = NNS_TENSOR_FORMAT_FLEXIBLE)"

text \<open>Assignments to \<open>config->info.info[0]\<close>, as the parsers write them.\<close>

definition set_info0_type :: "tensor_type \<Rightarrow> GstTensorsConfig \<Rightarrow> GstTensorsConfig" where
  "set_info0_type t c =
     c\<lparr> info := (info c)\<lparr> info_arr :=
          (info_arr (info c))(0 := (info_arr (info c) 0)\<lparr> type := t \<rparr>) \<rparr> \<rparr>"

definition set_info0_dim :: "nat \<Rightarrow> guint \<Rightarrow> GstTensorsConfig \<Rightarrow> GstTensorsConfig" where
  "set_info0_dim i v c =
     c\<lparr> info := (info c)\<lparr> info_arr :=
          (info_arr (info c))(0 := (info_arr (info c) 0)
             \<lparr> dimension := (dimension (info_arr (info c) 0))(i := v) \<rparr>) \<rparr> \<rparr>"

text \<open>\<open>for (i = k; i < NNS_TENSOR_RANK_LIMIT; i++) config->info.info[0].dimension[i] = 0;\<close>\<close>

definition clear_info0_dims_from :: "nat \<Rightarrow> GstTensorsConfig \<Rightarrow> GstTensorsConfig" where
  "clear_info0_dims_from k c =
     fold (\<lambda>i. set_info0_dim i 0) [k ..< NNS_TENSOR_RANK_LIMIT] c"

definition set_num_tensors :: "guint \<Rightarrow> GstTensorsConfig \<Rightarrow> GstTensorsConfig" where
  "set_num_tensors n c = c\<lparr> info := (info c)\<lparr> num_tensors := n \<rparr> \<rparr>"

definition set_format :: "tensor_format \<Rightarrow> GstTensorsConfig \<Rightarrow> GstTensorsConfig" where
  "set_format f c = c\<lparr> info := (info c)\<lparr> format := f \<rparr> \<rparr>"

definition info0 :: "GstTensorsConfig \<Rightarrow> GstTensorInfo" where
  "info0 c = info_arr (info c) 0"

definition dims :: "(nat \<Rightarrow> guint) \<Rightarrow> guint list" where
  "dims d = map d [0 ..< NNS_TENSOR_RANK_LIMIT]"


subsection \<open>Media capabilities, as the element reads them\<close>

datatype GstVideoFormat =
  GST_VIDEO_FORMAT_UNKNOWN
  | GST_VIDEO_FORMAT_GRAY8 | GST_VIDEO_FORMAT_GRAY16_BE | GST_VIDEO_FORMAT_GRAY16_LE
  | GST_VIDEO_FORMAT_RGB | GST_VIDEO_FORMAT_BGR
  | GST_VIDEO_FORMAT_RGBx | GST_VIDEO_FORMAT_BGRx | GST_VIDEO_FORMAT_xRGB
  | GST_VIDEO_FORMAT_xBGR | GST_VIDEO_FORMAT_RGBA | GST_VIDEO_FORMAT_BGRA
  | GST_VIDEO_FORMAT_ARGB | GST_VIDEO_FORMAT_ABGR
  | GST_VIDEO_FORMAT_RGBP | GST_VIDEO_FORMAT_BGRP
  | GST_VIDEO_FORMAT_I420
  | GST_VIDEO_FORMAT_OTHER

datatype GstAudioFormat =
  GST_AUDIO_FORMAT_UNKNOWN
  | GST_AUDIO_FORMAT_S8 | GST_AUDIO_FORMAT_U8 | GST_AUDIO_FORMAT_S16
  | GST_AUDIO_FORMAT_U16 | GST_AUDIO_FORMAT_S32 | GST_AUDIO_FORMAT_U32
  | GST_AUDIO_FORMAT_F32 | GST_AUDIO_FORMAT_F64
  | GST_AUDIO_FORMAT_OTHER

text \<open>
  What \<open>gst_video_info_from_caps\<close> and \<open>gst_audio_info_from_caps\<close> of GStreamer fill
  in, read by the source through the macros \<open>GST_VIDEO_INFO_*\<close> and
  \<open>GST_AUDIO_INFO_*\<close>.
\<close>

record GstVideoInfo =
  GST_VIDEO_INFO_FORMAT :: GstVideoFormat
  GST_VIDEO_INFO_WIDTH :: gint
  GST_VIDEO_INFO_HEIGHT :: gint
  GST_VIDEO_INFO_VIEWS :: gint
  GST_VIDEO_INFO_FPS_N :: gint
  GST_VIDEO_INFO_FPS_D :: gint
  GST_VIDEO_INFO_SIZE :: gsize

record GstAudioInfo =
  GST_AUDIO_INFO_FORMAT :: GstAudioFormat
  GST_AUDIO_INFO_CHANNELS :: gint
  GST_AUDIO_INFO_RATE :: gint
  GST_AUDIO_INFO_BPF :: gint

text \<open>
  A capability (\<open>GstCaps\<close>) is seen only through GStreamer's accessors. The record has
  one field for each accessor the source calls on the caps or on their first structure:
  \<open>None\<close> is the accessor's failure (\<open>gst_video_info_from_caps\<close> returning FALSE, a
  missing field). \<open>gst_structure_has_framerate\<close> is
  \<open>gst_structure_has_field (structure, "framerate")\<close>, and
  \<open>gst_structure_get_framerate\<close> is what \<open>gst_structure_get_fraction\<close> reads from that
  field.
\<close>

record GstCaps =
  gst_caps_is_fixed :: bool
  gst_structure_get_name :: string
  gst_structure_get_media_type :: media_type
  gst_video_info_from_caps :: "GstVideoInfo option"
  gst_audio_info_from_caps :: "GstAudioInfo option"
  gst_structure_get_format :: "string option"
  gst_structure_has_framerate :: bool
  gst_structure_get_framerate :: "(gint \<times> gint) option"

subsection \<open>Buffers, adapters, pads\<close>

record GstBuffer =
  memories :: "byte list list"
  pts :: GstClockTime
  dts :: GstClockTime
  duration :: GstClockTime
  meta_query_client_id :: "64 word option"
  mappable :: bool

definition gst_buffer_get_size :: "GstBuffer \<Rightarrow> gsize" where
  "gst_buffer_get_size b = of_nat (length (concat (memories b)))"

definition gst_buffer_n_memory :: "GstBuffer \<Rightarrow> nat" where
  "gst_buffer_n_memory b = length (memories b)"

record GstAdapter =
  ad_queue :: "GstBuffer list"
  ad_size :: gsize
  ad_skip :: gsize
  ad_pts :: GstClockTime
  ad_pts_distance :: guint64
  ad_dts :: GstClockTime
  ad_dts_distance :: guint64

datatype GstFormat = GST_FORMAT_UNDEFINED | GST_FORMAT_BYTES | GST_FORMAT_TIME | GST_FORMAT_OTHER

record GstSegment =
  seg_format :: GstFormat
  seg_start :: guint64
  seg_time :: guint64

datatype GstFlowReturn =
  GST_FLOW_OK | GST_FLOW_NOT_LINKED | GST_FLOW_FLUSHING | GST_FLOW_EOS
  | GST_FLOW_NOT_NEGOTIATED | GST_FLOW_ERROR | GST_FLOW_NOT_SUPPORTED

text \<open>
  The source pad: its current caps and, in order, everything the element has sent
  through it (\<open>gst_pad_push\<close>, \<open>gst_pad_push_event\<close> of a segment, \<open>gst_pad_set_caps\<close>).
  The type of the outbound caps is a parameter.
\<close>

datatype 'caps pad_item =
  Pushed_Buffer GstBuffer | Pushed_Segment GstSegment | Set_Caps 'caps

record 'caps GstPad =
  current_caps :: "'caps option"
  sent :: "'caps pad_item list"

subsection \<open>The element\<close>

datatype converter_mode =
  CONVERTER_MODE_NONE | CONVERTER_MODE_CUSTOM_CODE | CONVERTER_MODE_CUSTOM_SCRIPT

text \<open>
  \<open>NNStreamerExternalConverter\<close>: a callback that is NULL is \<open>None\<close>. \<open>ex_query_caps\<close>
  gives the structure names of the caps that \<open>query_caps (NULL)\<close> returns;
  \<open>ex_get_out_config\<close> gives \<open>None\<close> where the callback returns FALSE; \<open>ex_convert\<close>
  gives \<open>None\<close> where the callback returns a NULL buffer; \<open>ex_open\<close> returns the status
  and the private data it stores.
\<close>

record NNStreamerExternalConverter =
  ex_name :: string
  ex_query_caps :: "string list option"
  ex_get_out_config :: "(GstCaps \<Rightarrow> GstTensorsConfig \<Rightarrow> GstTensorsConfig option) option"
  ex_convert :: "(GstBuffer \<Rightarrow> nat \<Rightarrow> (GstBuffer \<times> GstTensorsConfig) option) option"
  ex_open :: "(string option \<Rightarrow> nat \<Rightarrow> gint \<times> nat) option"

record 'caps GstTensorConverter =
  srcpad :: "'caps GstPad"
  silent :: bool
  set_timestamp :: bool
  frames_per_tensor :: guint
  in_media_type :: media_type
  frame_size :: gsize
  remove_padding :: bool
  externalConverter :: "NNStreamerExternalConverter option"
  priv_data :: nat
  mode :: converter_mode
  mode_option :: "string option"
  ext_fw :: "string option"
  custom_func :: "(GstBuffer \<Rightarrow> (GstBuffer \<times> GstTensorsConfig) option) option"
  do_not_append_header :: bool
  tensors_info :: GstTensorsInfo
  tensors_config :: GstTensorsConfig
  tensors_configured :: bool
  adapter_table :: "64 word \<Rightarrow> GstAdapter option"
  have_segment :: bool
  need_segment :: bool
  segment :: GstSegment
  old_timestamp :: GstClockTime

text \<open>
  \<open>GstTensorMetaInfo\<close>, the header of a flexible tensor: "element type, rank,
  dimensions, media-kind tag" (and the format).
\<close>

record GstTensorMetaInfo =
  meta_type :: tensor_type
  meta_dimension :: "nat \<Rightarrow> guint"
  meta_format :: tensor_format
  meta_media_type :: media_type

text \<open>
  What \<open>gst_tensors_config_from_peer (self->srcpad, &config, &is_fixed)\<close> yields: its
  return value, the config it fills in, and whether the peer's caps are fixed.
\<close>

record peer_result =
  peer_ok :: bool
  peer_config :: GstTensorsConfig
  peer_is_fixed :: bool

text \<open>
  Everything the element calls that is not among the sources is a parameter of the
  model: the build configuration (the macros \<open>GST_CHECK_VERSION (1, 20, 0)\<close>,
  \<open>is_video_supported\<close>, \<open>is_audio_supported\<close>), the tensor utility functions of
  nnstreamer, and the pipeline around the element (the peer of the source pad, the
  registered converter subplugins, the clock, the flow return of the downstream
  element for a pushed buffer).
\<close>

record 'caps nns_env =
  gst_check_version_1_20 :: bool
  is_video_supported :: bool
  is_audio_supported :: bool
  gst_tensors_info_validate :: "GstTensorsInfo \<Rightarrow> bool"
  gst_tensors_config_validate :: "GstTensorsConfig \<Rightarrow> bool"
  gst_tensors_info_is_equal :: "GstTensorsInfo \<Rightarrow> GstTensorsInfo \<Rightarrow> bool"
  gst_tensors_config_is_equal :: "GstTensorsConfig \<Rightarrow> GstTensorsConfig \<Rightarrow> bool"
  gst_tensor_info_get_size :: "GstTensorInfo \<Rightarrow> gsize"
  gst_tensors_info_get_size :: "GstTensorsInfo \<Rightarrow> gsize"
  gst_tensor_info_convert_to_meta :: "GstTensorInfo \<Rightarrow> GstTensorMetaInfo"
  gst_tensor_meta_info_append_header :: "GstTensorMetaInfo \<Rightarrow> byte list \<Rightarrow> byte list"
  gst_tensor_meta_info_parse_memory :: "byte list \<Rightarrow> GstTensorMetaInfo"
  gst_tensor_meta_info_convert :: "GstTensorMetaInfo \<Rightarrow> GstTensorInfo"
  gst_tensor_meta_info_get_header_size :: "GstTensorMetaInfo \<Rightarrow> gsize"
  gst_tensor_buffer_from_config :: "GstBuffer \<Rightarrow> GstTensorsConfig \<Rightarrow> GstBuffer"
  gst_tensor_pad_caps_from_config :: "GstTensorsConfig \<Rightarrow> 'caps"
  gst_tensor_caps_is_flexible :: "'caps \<Rightarrow> bool"
  gst_tensors_config_from_peer :: peer_result
  get_all_subplugins :: "(string \<times> NNStreamerExternalConverter option) list"
  gst_element_get_clock :: "(GstClockTime \<times> GstClockTime) option"
  gst_pad_push :: "GstBuffer \<Rightarrow> GstFlowReturn"

subsection \<open>The video parser\<close>

text \<open>
  \<open>gst_tensor_converter_video_stride\<close>. The cases \<open>RGBP\<close> and \<open>BGRP\<close> exist only
  under \<open>GST_CHECK_VERSION (1, 20, 0)\<close>. \<open>width % 4\<close> is non-zero exactly when 4 does
  not divide the signed width.
\<close>

definition gst_tensor_converter_video_stride :: "bool \<Rightarrow> GstVideoFormat \<Rightarrow> gint \<Rightarrow> bool" where
  "gst_tensor_converter_video_stride v120 fmt width =
     (if fmt = GST_VIDEO_FORMAT_GRAY8 \<or> fmt = GST_VIDEO_FORMAT_RGB
         \<or> fmt = GST_VIDEO_FORMAT_BGR \<or> fmt = GST_VIDEO_FORMAT_I420
         \<or> (v120 \<and> (fmt = GST_VIDEO_FORMAT_RGBP \<or> fmt = GST_VIDEO_FORMAT_BGRP))
      then (if \<not> 4 dvd sint width then True else False)
      else False)"

text \<open>The \<open>switch (format)\<close> of \<open>gst_tensor_converter_parse_video\<close>.\<close>

definition parse_video_format ::
  "bool \<Rightarrow> GstVideoFormat \<Rightarrow> gint \<Rightarrow> gint \<Rightarrow> GstTensorsConfig \<Rightarrow> GstTensorsConfig" where
  "parse_video_format v120 fmt width height config =
     (if fmt = GST_VIDEO_FORMAT_GRAY8 then
        set_info0_dim 2 height (set_info0_dim 1 width (set_info0_dim 0 1
          (set_info0_type NNS_UINT8 config)))
      else if fmt = GST_VIDEO_FORMAT_GRAY16_BE \<or> fmt = GST_VIDEO_FORMAT_GRAY16_LE then
        set_info0_dim 2 height (set_info0_dim 1 width (set_info0_dim 0 1
          (set_info0_type NNS_UINT16 config)))
      else if fmt = GST_VIDEO_FORMAT_RGB \<or> fmt = GST_VIDEO_FORMAT_BGR then
        set_info0_dim 2 height (set_info0_dim 1 width (set_info0_dim 0 3
          (set_info0_type NNS_UINT8 config)))
      else if fmt = GST_VIDEO_FORMAT_RGBx \<or> fmt = GST_VIDEO_FORMAT_BGRx
           \<or> fmt = GST_VIDEO_FORMAT_xRGB \<or> fmt = GST_VIDEO_FORMAT_xBGR
           \<or> fmt = GST_VIDEO_FORMAT_RGBA \<or> fmt = GST_VIDEO_FORMAT_BGRA
           \<or> fmt = GST_VIDEO_FORMAT_ARGB \<or> fmt = GST_VIDEO_FORMAT_ABGR then
        set_info0_dim 2 height (set_info0_dim 1 width (set_info0_dim 0 4
          (set_info0_type NNS_UINT8 config)))
      else if v120 \<and> (fmt = GST_VIDEO_FORMAT_RGBP \<or> fmt = GST_VIDEO_FORMAT_BGRP) then
        set_info0_dim 2 3 (set_info0_dim 1 height (set_info0_dim 0 width
          (set_info0_type NNS_UINT8 config)))
      else config)"

text \<open>
  \<open>gst_tensor_converter_parse_video\<close>: the return value, the element (the parser
  writes \<open>remove_padding\<close> and \<open>frame_size\<close>) and the config it fills in.
\<close>

definition gst_tensor_converter_parse_video ::
  "'caps nns_env \<Rightarrow> 'caps GstTensorConverter \<Rightarrow> GstCaps
     \<Rightarrow> bool \<times> 'caps GstTensorConverter \<times> GstTensorsConfig" where
  "gst_tensor_converter_parse_video env self caps =
     (let config = gst_tensors_config_init in
      case gst_video_info_from_caps caps of
        None \<Rightarrow> (False, self, config)
      | Some vinfo \<Rightarrow>
         (let fmt = GST_VIDEO_INFO_FORMAT vinfo;
              width = GST_VIDEO_INFO_WIDTH vinfo;
              height = GST_VIDEO_INFO_HEIGHT vinfo;
              config = set_num_tensors 1 config;
              config = parse_video_format (gst_check_version_1_20 env) fmt width height config;
              config = set_info0_dim 3 1 config;
              config = clear_info0_dims_from 4 config;
              config = config\<lparr> rate_n := GST_VIDEO_INFO_FPS_N vinfo,
                                rate_d := GST_VIDEO_INFO_FPS_D vinfo \<rparr>
          in if gst_tensor_converter_video_stride (gst_check_version_1_20 env) fmt width then
               (let self = self\<lparr> remove_padding := True \<rparr> in
                if gst_check_version_1_20 env
                   \<and> (fmt = GST_VIDEO_FORMAT_RGBP \<or> fmt = GST_VIDEO_FORMAT_BGRP)
                   \<and> remove_padding self
                then (False, self, config)
                else (let self = self\<lparr> frame_size := GST_VIDEO_INFO_SIZE vinfo \<rparr>
                      in (type (info0 config) \<noteq> NNS_END, self, config)))
             else (let self = self\<lparr> frame_size := GST_VIDEO_INFO_SIZE vinfo \<rparr>
                   in (type (info0 config) \<noteq> NNS_END, self, config))))"

text \<open>
  The formats the element offers upstream for a downstream tensor, from
  \<open>gst_tensor_converter_get_possible_media_caps\<close>: for the colour-space count found in
  \<open>dimension[0]\<close> (1, 3 or 4) the interleaved formats, and for a count of 3 found in
  \<open>dimension[2]\<close> the planar formats \<open>RGBP\<close> and \<open>BGRP\<close>. This is the component count
  the source associates with a pixel format.
\<close>

definition supported_formats :: "guint \<Rightarrow> GstVideoFormat list" where
  "supported_formats colorspace =
     (if colorspace = 1 then
        [GST_VIDEO_FORMAT_GRAY8, GST_VIDEO_FORMAT_GRAY16_BE, GST_VIDEO_FORMAT_GRAY16_LE]
      else if colorspace = 3 then [GST_VIDEO_FORMAT_RGB, GST_VIDEO_FORMAT_BGR]
      else if colorspace = 4 then
        [GST_VIDEO_FORMAT_RGBx, GST_VIDEO_FORMAT_BGRx, GST_VIDEO_FORMAT_xRGB,
         GST_VIDEO_FORMAT_xBGR, GST_VIDEO_FORMAT_RGBA, GST_VIDEO_FORMAT_BGRA,
         GST_VIDEO_FORMAT_ARGB, GST_VIDEO_FORMAT_ABGR]
      else [])"

definition nchw_formats :: "bool \<Rightarrow> guint \<Rightarrow> GstVideoFormat list" where
  "nchw_formats v120 colorspace =
     (if v120 \<and> colorspace = 3 then [GST_VIDEO_FORMAT_RGBP, GST_VIDEO_FORMAT_BGRP] else [])"


subsection \<open>Construction and reset\<close>

text \<open>\<open>gst_segment_init (&seg, GST_FORMAT_TIME)\<close> of GStreamer.\<close>

definition gst_segment_init :: "GstFormat \<Rightarrow> GstSegment" where
  "gst_segment_init f = \<lparr> seg_format = f, seg_start = 0, seg_time = 0 \<rparr>"

text \<open>
  \<open>gst_tensor_converter_reset\<close>; \<open>gst_tensor_aggregation_clear_all\<close> clears every
  adapter of the table and keeps its keys.
\<close>

definition gst_adapter_new :: GstAdapter where
  "gst_adapter_new =
     \<lparr> ad_queue = [], ad_size = 0, ad_skip = 0,
       ad_pts = GST_CLOCK_TIME_NONE, ad_pts_distance = 0,
       ad_dts = GST_CLOCK_TIME_NONE, ad_dts_distance = 0 \<rparr>"

definition gst_tensor_converter_reset :: "'caps GstTensorConverter \<Rightarrow> 'caps GstTensorConverter" where
  "gst_tensor_converter_reset self =
     self\<lparr> adapter_table := (\<lambda>k. map_option (\<lambda>_. gst_adapter_new) (adapter_table self k)),
           have_segment := False,
           need_segment := False,
           segment := gst_segment_init GST_FORMAT_TIME,
           old_timestamp := GST_CLOCK_TIME_NONE \<rparr>"

text \<open>\<open>gst_tensor_converter_init\<close>: the element as constructed.\<close>

definition gst_tensor_converter_init :: "'caps GstTensorConverter" where
  "gst_tensor_converter_init =
     gst_tensor_converter_reset
       \<lparr> srcpad = \<lparr> current_caps = None, sent = [] \<rparr>,
         silent = True,
         set_timestamp = True,
         frames_per_tensor = 1,
         in_media_type = NNS_MEDIA_INVALID,
         frame_size = 0,
         remove_padding = False,
         externalConverter = None,
         priv_data = 0,
         mode = CONVERTER_MODE_NONE,
         mode_option = None,
         ext_fw = None,
         custom_func = None,
         do_not_append_header = False,
         tensors_info = gst_tensors_info_init,
         tensors_config = gst_tensors_config_init,
         tensors_configured = False,
         adapter_table = (\<lambda>k. None),
         have_segment = False,
         need_segment = False,
         segment = gst_segment_init GST_FORMAT_TIME,
         old_timestamp = GST_CLOCK_TIME_NONE \<rparr>"



subsection \<open>The audio, text, octet, tensor and custom parsers\<close>

text \<open>
  \<open>if (gst_structure_has_field (structure, "framerate")) gst_structure_get_fraction (...)
  else { rate_n = 0; rate_d = 1; }\<close>, shared by four parsers.
\<close>

definition set_framerate_from_structure :: "GstCaps \<Rightarrow> GstTensorsConfig \<Rightarrow> GstTensorsConfig" where
  "set_framerate_from_structure caps config =
     (if gst_structure_has_framerate caps then
        (case gst_structure_get_framerate caps of
           Some (n, d) \<Rightarrow> config\<lparr> rate_n := n, rate_d := d \<rparr>
         | None \<Rightarrow> config)
      else config\<lparr> rate_n := 0, rate_d := 1 \<rparr>)"

text \<open>The \<open>switch (format)\<close> of \<open>gst_tensor_converter_parse_audio\<close>.\<close>

fun parse_audio_format :: "GstAudioFormat \<Rightarrow> GstTensorsConfig \<Rightarrow> GstTensorsConfig" where
  "parse_audio_format GST_AUDIO_FORMAT_S8 config = set_info0_type NNS_INT8 config"
| "parse_audio_format GST_AUDIO_FORMAT_U8 config = set_info0_type NNS_UINT8 config"
| "parse_audio_format GST_AUDIO_FORMAT_S16 config = set_info0_type NNS_INT16 config"
| "parse_audio_format GST_AUDIO_FORMAT_U16 config = set_info0_type NNS_UINT16 config"
| "parse_audio_format GST_AUDIO_FORMAT_S32 config = set_info0_type NNS_INT32 config"
| "parse_audio_format GST_AUDIO_FORMAT_U32 config = set_info0_type NNS_UINT32 config"
| "parse_audio_format GST_AUDIO_FORMAT_F32 config = set_info0_type NNS_FLOAT32 config"
| "parse_audio_format GST_AUDIO_FORMAT_F64 config = set_info0_type NNS_FLOAT64 config"
| "parse_audio_format _ config = config"

definition gst_tensor_converter_parse_audio ::
  "'caps nns_env \<Rightarrow> 'caps GstTensorConverter \<Rightarrow> GstCaps
     \<Rightarrow> bool \<times> 'caps GstTensorConverter \<times> GstTensorsConfig" where
  "gst_tensor_converter_parse_audio env self caps =
     (let config = gst_tensors_config_init in
      case gst_audio_info_from_caps caps of
        None \<Rightarrow> (False, self, config)
      | Some ainfo \<Rightarrow>
         (let config = set_num_tensors 1 config;
              config = parse_audio_format (GST_AUDIO_INFO_FORMAT ainfo) config;
              config = set_info0_dim 0 (GST_AUDIO_INFO_CHANNELS ainfo) config;
              config = set_info0_dim 1 1 config;
              config = clear_info0_dims_from 2 config;
              config = config\<lparr> rate_n := GST_AUDIO_INFO_RATE ainfo, rate_d := 1 \<rparr>;
              self = self\<lparr> frame_size := scast (GST_AUDIO_INFO_BPF ainfo) \<rparr>
          in (type (info0 config) \<noteq> NNS_END, self, config)))"

text \<open>\<open>g_ascii_strcasecmp (format_string, "utf8") == 0\<close>.\<close>

definition g_ascii_tolower :: "char \<Rightarrow> char" where
  "g_ascii_tolower c =
     (if 65 \<le> (of_char c :: nat) \<and> (of_char c :: nat) \<le> 90
      then char_of ((of_char c :: nat) + 32) else c)"

definition g_ascii_strcasecmp_eq :: "string \<Rightarrow> string \<Rightarrow> bool" where
  "g_ascii_strcasecmp_eq a b = (map g_ascii_tolower a = map g_ascii_tolower b)"

definition gst_tensor_converter_parse_text ::
  "'caps nns_env \<Rightarrow> 'caps GstTensorConverter \<Rightarrow> GstCaps
     \<Rightarrow> bool \<times> 'caps GstTensorConverter \<times> GstTensorsConfig" where
  "gst_tensor_converter_parse_text env self caps =
     (let config = gst_tensors_config_init;
          text_size = dimension (info_arr (tensors_info self) 0) 0
      in if text_size = 0 then (False, self, config)
         else (case (case gst_structure_get_format caps of
                       None \<Rightarrow> Some config
                     | Some format_string \<Rightarrow>
                         if g_ascii_strcasecmp_eq format_string ''utf8''
                         then Some (set_info0_type NNS_UINT8 config) else None) of
                 None \<Rightarrow> (False, self, config)
               | Some config \<Rightarrow>
                  (let config = set_num_tensors 1 config;
                       config = set_info0_dim 0 text_size config;
                       config = set_info0_dim 1 1 config;
                       config = clear_info0_dims_from 2 config;
                       config = set_framerate_from_structure caps config;
                       self = self\<lparr> frame_size := gst_tensor_info_get_size env (info0 config) \<rparr>
                   in (type (info0 config) \<noteq> NNS_END, self, config))))"

text \<open>
  \<open>gst_tensor_converter_parse_octet\<close>. \<open>octet_peer_info\<close> is its first block: the info
  in use and the flags \<open>flexible\<close> and \<open>configured\<close> after the peer has been asked.
\<close>

definition octet_peer_info ::
  "'caps nns_env \<Rightarrow> 'caps GstTensorConverter \<Rightarrow> GstTensorsInfo \<times> bool \<times> bool" where
  "octet_peer_info env self =
     (let peer = gst_tensors_config_from_peer env in
      if peer_ok peer then
        (let flexible = gst_tensors_config_is_flexible (peer_config peer);
             configured = gst_tensors_info_validate env (info (peer_config peer))
         in (if configured then info (peer_config peer) else tensors_info self,
             flexible, configured))
      else (tensors_info self, False, False))"

definition gst_tensor_converter_parse_octet ::
  "'caps nns_env \<Rightarrow> 'caps GstTensorConverter \<Rightarrow> GstCaps
     \<Rightarrow> bool \<times> 'caps GstTensorConverter \<times> GstTensorsConfig" where
  "gst_tensor_converter_parse_octet env self caps =
     (let config = gst_tensors_config_init;
          (tinfo, flexible, configured) =
             (if \<not> gst_tensors_info_validate env (tensors_info self)
              then octet_peer_info env self
              else (tensors_info self, False, False))
      in if \<not> gst_tensors_info_validate env (tensors_info self) \<and> \<not> flexible \<and> \<not> configured
         then (False, self, config)
         else if 1 < frames_per_tensor self \<and> 1 < num_tensors tinfo then (False, self, config)
         else if 1 < frames_per_tensor self \<and> flexible then (False, self, config)
         else
           (let config = set_framerate_from_structure caps config in
            if flexible then
              (let config = set_format NNS_TENSOR_FORMAT_FLEXIBLE config;
                   config = set_num_tensors 1 config;
                   config = set_info0_type NNS_UINT8 config;
                   config = set_info0_dim 0 1 config;
                   config = clear_info0_dims_from 1 config
               in (True, self, config))
            else
              (let config = config\<lparr> info := tinfo \<rparr>;
                   self = self\<lparr> frame_size := gst_tensors_info_get_size env (info config) \<rparr>
               in (True, self, config))))"

definition gst_tensor_converter_parse_tensor ::
  "'caps nns_env \<Rightarrow> 'caps GstTensorConverter \<Rightarrow> GstCaps
     \<Rightarrow> bool \<times> 'caps GstTensorConverter \<times> GstTensorsConfig" where
  "gst_tensor_converter_parse_tensor env self caps =
     (let config = gst_tensors_config_init in
      if 1 < frames_per_tensor self then (False, self, config)
      else
        (let (self, config) =
               (if gst_tensors_info_validate env (tensors_info self) then
                  (let config = config\<lparr> info := tensors_info self \<rparr>
                   in (self\<lparr> frame_size := gst_tensors_info_get_size env (info config) \<rparr>,
                       config))
                else
                  (self,
                   clear_info0_dims_from 1 (set_info0_dim 0 1 (set_info0_type NNS_UINT8
                     (set_num_tensors 1 config)))));
             config = set_framerate_from_structure caps config
         in (True, self, config)))"


text \<open>
  \<open>findExternalConverter\<close>: the registered subplugins in order of registration, each
  name with what \<open>nnstreamer_converter_find\<close> returns for it.
\<close>

fun findExternalConverter ::
  "(string \<times> NNStreamerExternalConverter option) list \<Rightarrow> string option
     \<Rightarrow> NNStreamerExternalConverter option" where
  "findExternalConverter [] media_type = None"
| "findExternalConverter ((str, ex) # rest) media_type =
     (if media_type = Some str then ex
      else (case ex of
              None \<Rightarrow> findExternalConverter rest media_type
            | Some e \<Rightarrow>
               (case ex_query_caps e of
                  None \<Rightarrow> findExternalConverter rest media_type
                | Some caps_names \<Rightarrow>
                    if list_ex (\<lambda>caps_name. media_type = Some caps_name) caps_names
                    then Some e
                    else findExternalConverter rest media_type)))"

text \<open>
  \<open>gst_tensor_converter_parse_custom\<close>. \<open>gst_tensor_parse_dimension ("1:1:1:1", dim)\<close>
  sets the first four slots to 1 and clears the others.
\<close>

definition gst_tensor_converter_parse_custom ::
  "'caps nns_env \<Rightarrow> 'caps GstTensorConverter \<Rightarrow> GstCaps
     \<Rightarrow> bool \<times> 'caps GstTensorConverter \<times> GstTensorsConfig" where
  "gst_tensor_converter_parse_custom env self caps =
     (if \<not> gst_caps_is_fixed caps then (False, self, gst_tensors_config_init)
      else
       (let config = peer_config (gst_tensors_config_from_peer env);
            is_fixed = peer_is_fixed (gst_tensors_config_from_peer env);
            mimetype = Some (gst_structure_get_name caps)
        in if mode self = CONVERTER_MODE_CUSTOM_CODE then
             (if \<not> is_fixed then
                (let config = gst_tensors_config_init;
                     config = set_num_tensors 1 config;
                     config = set_info0_type NNS_UINT8 config;
                     config = clear_info0_dims_from 4 (set_info0_dim 3 1 (set_info0_dim 2 1
                                (set_info0_dim 1 1 (set_info0_dim 0 1 config))));
                     config = set_framerate_from_structure caps config
                 in (True, self, config))
              else (True, self, config))
           else if externalConverter self = None then
             (let mimetype = (if mode self = CONVERTER_MODE_CUSTOM_SCRIPT
                              then ext_fw self else mimetype)
              in case findExternalConverter (get_all_subplugins env) mimetype of
                   None \<Rightarrow> (False, self, config)
                 | Some ex \<Rightarrow>
                    (case (if \<not> is_fixed then
                             (case ex_get_out_config ex of
                                None \<Rightarrow> None
                              | Some get_out_config \<Rightarrow> get_out_config caps config)
                           else Some config) of
                       None \<Rightarrow> (False, self, config)
                     | Some config \<Rightarrow>
                        (let self = self\<lparr> externalConverter := Some ex \<rparr> in
                         if mode self = CONVERTER_MODE_CUSTOM_SCRIPT then
                           (case ex_open ex of
                              None \<Rightarrow> (True, self, config)
                            | Some open_cb \<Rightarrow>
                               (let (ret, priv) = open_cb (mode_option self) (priv_data self);
                                    self = self\<lparr> priv_data := priv \<rparr>
                                in if sint ret < 0
                                   then (False, self\<lparr> externalConverter := None \<rparr>, config)
                                   else (True, self, config)))
                         else (True, self, config))))
           else (True, self, config)))"

subsection \<open>Negotiation\<close>

text \<open>
  The \<open>switch (in_type)\<close> of \<open>gst_tensor_converter_parse_caps\<close>: the parser's return
  value, the element, the config, the media type and \<open>frames_dim\<close> (\<open>None\<close> is -1).
\<close>

definition parse_caps_switch ::
  "'caps nns_env \<Rightarrow> 'caps GstTensorConverter \<Rightarrow> GstCaps \<Rightarrow> media_type
     \<Rightarrow> bool \<times> 'caps GstTensorConverter \<times> GstTensorsConfig \<times> media_type \<times> nat option" where
  "parse_caps_switch env self caps in_type =
     (if in_type = NNS_VIDEO then
        (if is_video_supported env then
           (let (ok, self, config) = gst_tensor_converter_parse_video env self caps
            in (ok, self, config, in_type, Some 3))
         else (False, self, gst_tensors_config_init, in_type, None))
      else if in_type = NNS_AUDIO then
        (if is_audio_supported env then
           (let (ok, self, config) = gst_tensor_converter_parse_audio env self caps
            in (ok, self, config, in_type, Some 1))
         else (False, self, gst_tensors_config_init, in_type, None))
      else if in_type = NNS_TEXT then
        (let (ok, self, config) = gst_tensor_converter_parse_text env self caps
         in (ok, self, config, in_type, Some 1))
      else if in_type = NNS_OCTET then
        (let (ok, self, config) = gst_tensor_converter_parse_octet env self caps
         in (ok, self, config, in_type, None))
      else if in_type = NNS_TENSOR then
        (let (ok, self, config) = gst_tensor_converter_parse_tensor env self caps
         in (ok, self, config, in_type, None))
      else
        (let (ok, self, config) = gst_tensor_converter_parse_custom env self caps
         in (ok, self, config, NNS_MEDIA_ANY, None)))"

definition gst_tensor_converter_parse_caps ::
  "'caps nns_env \<Rightarrow> 'caps GstTensorConverter \<Rightarrow> GstCaps
     \<Rightarrow> bool \<times> 'caps GstTensorConverter" where
  "gst_tensor_converter_parse_caps env self caps =
     (if \<not> gst_caps_is_fixed caps then (False, self)
      else
       (let in_type = (if mode self \<noteq> CONVERTER_MODE_NONE then NNS_MEDIA_ANY
                       else gst_structure_get_media_type caps);
            (ok, self, config, in_type, frames_dim) = parse_caps_switch env self caps in_type
        in if \<not> ok then (False, self)
           else
            (let config = (case frames_dim of
                             Some k \<Rightarrow> set_info0_dim k (frames_per_tensor self) config
                           | None \<Rightarrow> config)
             in if \<not> gst_tensors_config_validate env config then (False, self)
                else if gst_tensors_info_validate env (tensors_info self)
                        \<and> \<not> gst_tensors_info_is_equal env (tensors_info self) (info config)
                then (False, self)
                else (True, self\<lparr> in_media_type := in_type,
                                  tensors_configured := True,
                                  tensors_config := config \<rparr>))))"

text \<open>
  \<open>gst_tensor_converter_update_caps\<close>. \<open>gst_caps_is_equal\<close> is the equality of the
  outbound caps; \<open>gst_pad_set_caps\<close> makes its argument the current caps of the pad.
\<close>

definition gst_pad_set_caps :: "'caps GstPad \<Rightarrow> 'caps \<Rightarrow> 'caps GstPad" where
  "gst_pad_set_caps pad caps =
     pad\<lparr> current_caps := Some caps, sent := sent pad @ [Set_Caps caps] \<rparr>"

definition gst_tensor_converter_update_caps ::
  "'caps nns_env \<Rightarrow> 'caps GstTensorConverter \<Rightarrow> 'caps GstTensorConverter" where
  "gst_tensor_converter_update_caps env self =
     (let out_caps = gst_tensor_pad_caps_from_config env (tensors_config self);
          curr_caps = current_caps (srcpad self)
      in if curr_caps = None \<or> curr_caps \<noteq> Some out_caps
         then self\<lparr> srcpad := gst_pad_set_caps (srcpad self) out_caps \<rparr>
         else self)"

text \<open>The case \<open>GST_EVENT_CAPS\<close> of \<open>gst_tensor_converter_sink_event\<close>.\<close>

definition gst_tensor_converter_sink_event_caps ::
  "'caps nns_env \<Rightarrow> 'caps GstTensorConverter \<Rightarrow> GstCaps
     \<Rightarrow> bool \<times> 'caps GstTensorConverter" where
  "gst_tensor_converter_sink_event_caps env self in_caps =
     (case gst_tensor_converter_parse_caps env self in_caps of
        (True, self) \<Rightarrow> (True, gst_tensor_converter_update_caps env self)
      | (False, self) \<Rightarrow> (False, self))"

text \<open>The number of \<open>gst_pad_set_caps\<close> calls and the buffers pushed, read off the pad.\<close>

fun is_set_caps :: "'caps pad_item \<Rightarrow> bool" where
  "is_set_caps (Set_Caps c) = True"
| "is_set_caps _ = False"

fun pushed_buffer :: "'caps pad_item \<Rightarrow> GstBuffer option" where
  "pushed_buffer (Pushed_Buffer b) = Some b"
| "pushed_buffer _ = None"

definition caps_updates :: "'caps GstTensorConverter \<Rightarrow> nat" where
  "caps_updates self = length (filter is_set_caps (sent (srcpad self)))"

definition pushed_buffers :: "'caps GstTensorConverter \<Rightarrow> GstBuffer list" where
  "pushed_buffers self = List.map_filter pushed_buffer (sent (srcpad self))"


subsection \<open>GstAdapter\<close>

text \<open>
  The adapter of GStreamer, as far as the element uses it: \<open>gst_adapter_push\<close>,
  \<open>gst_adapter_available\<close>, \<open>gst_adapter_prev_pts\<close>, \<open>gst_adapter_prev_dts\<close> and
  \<open>gst_adapter_take_buffer\<close>. The adapter remembers the timestamp of the buffer its
  read position is in and the distance in bytes from the start of that buffer.
\<close>

definition update_timestamps_and_offset :: "GstAdapter \<Rightarrow> GstBuffer \<Rightarrow> GstAdapter" where
  "update_timestamps_and_offset a buf =
     (let a = (if GST_CLOCK_TIME_IS_VALID (pts buf)
               then a\<lparr> ad_pts := pts buf, ad_pts_distance := 0 \<rparr> else a)
      in if GST_CLOCK_TIME_IS_VALID (dts buf)
         then a\<lparr> ad_dts := dts buf, ad_dts_distance := 0 \<rparr> else a)"

definition gst_adapter_push :: "GstAdapter \<Rightarrow> GstBuffer \<Rightarrow> GstAdapter" where
  "gst_adapter_push a buf =
     (let a' = a\<lparr> ad_size := ad_size a + gst_buffer_get_size buf,
                  ad_queue := ad_queue a @ [buf] \<rparr>
      in if ad_queue a = [] then update_timestamps_and_offset a' buf else a')"

definition gst_adapter_available :: "GstAdapter \<Rightarrow> gsize" where
  "gst_adapter_available a = ad_size a"

definition gst_adapter_prev_pts :: "GstAdapter \<Rightarrow> GstClockTime \<times> guint64" where
  "gst_adapter_prev_pts a = (ad_pts a, ad_pts_distance a)"

definition gst_adapter_prev_dts :: "GstAdapter \<Rightarrow> GstClockTime \<times> guint64" where
  "gst_adapter_prev_dts a = (ad_dts a, ad_dts_distance a)"

text \<open>The \<open>while (flush >= size)\<close> loop of \<open>gst_adapter_flush_unchecked\<close>.\<close>

fun adapter_flush_loop :: "GstAdapter \<Rightarrow> GstBuffer list \<Rightarrow> gsize \<Rightarrow> GstAdapter \<times> gsize" where
  "adapter_flush_loop a [] flush = (a\<lparr> ad_queue := [] \<rparr>, flush)"
| "adapter_flush_loop a (cur # rest) flush =
     (if gst_buffer_get_size cur \<le> flush then
        (let a = a\<lparr> ad_pts_distance := ad_pts_distance a + gst_buffer_get_size cur,
                    ad_dts_distance := ad_dts_distance a + gst_buffer_get_size cur \<rparr>;
             flush = flush - gst_buffer_get_size cur
         in case rest of
              [] \<Rightarrow> (a\<lparr> ad_queue := [] \<rparr>, flush)
            | nxt # _ \<Rightarrow> adapter_flush_loop (update_timestamps_and_offset a nxt) rest flush)
      else (a\<lparr> ad_queue := cur # rest \<rparr>, flush))"

definition gst_adapter_flush_unchecked :: "GstAdapter \<Rightarrow> gsize \<Rightarrow> GstAdapter" where
  "gst_adapter_flush_unchecked a flush =
     (let a = a\<lparr> ad_size := ad_size a - flush \<rparr>;
          flush = flush + ad_skip a;
          a = a\<lparr> ad_pts_distance := ad_pts_distance a - ad_skip a,
                  ad_dts_distance := ad_dts_distance a - ad_skip a \<rparr>;
          (a, flush) = adapter_flush_loop a (ad_queue a) flush
      in a\<lparr> ad_skip := flush,
              ad_pts_distance := ad_pts_distance a + flush,
              ad_dts_distance := ad_dts_distance a + flush \<rparr>)"

text \<open>
  The memory blocks of the region of \<open>n\<close> bytes at offset \<open>off\<close>
  (\<open>gst_buffer_copy_region\<close> shares the blocks the region covers).
\<close>

fun mem_region :: "byte list list \<Rightarrow> nat \<Rightarrow> nat \<Rightarrow> byte list list" where
  "mem_region [] off n = []"
| "mem_region (m # ms) off n =
     (if n = 0 then []
      else if length m \<le> off then mem_region ms (off - length m) n
      else take n (drop off m) # mem_region ms 0 (n - (length m - off)))"

definition gst_adapter_get_buffer :: "GstAdapter \<Rightarrow> gsize \<Rightarrow> GstBuffer option" where
  "gst_adapter_get_buffer a nbytes =
     (if ad_size a < nbytes then None
      else case ad_queue a of
             [] \<Rightarrow> None
           | cur # rest \<Rightarrow>
              (if ad_skip a = 0 \<and> gst_buffer_get_size cur = nbytes then Some cur
               else if nbytes + ad_skip a \<le> gst_buffer_get_size cur then
                 Some (cur\<lparr> memories :=
                         mem_region (memories cur) (unat (ad_skip a)) (unat nbytes) \<rparr>)
               else
                 Some \<lparr> memories =
                          [take (unat nbytes) (drop (unat (ad_skip a))
                             (concat (map (\<lambda>b. concat (memories b)) (ad_queue a))))],
                        pts = GST_CLOCK_TIME_NONE,
                        dts = GST_CLOCK_TIME_NONE,
                        duration = GST_CLOCK_TIME_NONE,
                        meta_query_client_id = meta_query_client_id cur,
                        mappable = True \<rparr>))"

definition gst_adapter_take_buffer :: "GstAdapter \<Rightarrow> gsize \<Rightarrow> GstBuffer option \<times> GstAdapter" where
  "gst_adapter_take_buffer a nbytes =
     (if \<not> 0 < nbytes then (None, a)
      else case gst_adapter_get_buffer a nbytes of
             None \<Rightarrow> (None, a)
           | Some buffer \<Rightarrow> (Some buffer, gst_adapter_flush_unchecked a nbytes))"

text \<open>
  \<open>gst_tensor_converter_get_adapter\<close>: the adapter of the buffer's client
  (\<open>gst_tensor_aggregation_get_adapter\<close> creates it on first use).
\<close>

definition gst_tensor_converter_get_adapter ::
  "'caps GstTensorConverter \<Rightarrow> GstBuffer \<Rightarrow> 64 word \<times> GstAdapter" where
  "gst_tensor_converter_get_adapter self buf =
     (let key = (case meta_query_client_id buf of Some client_id \<Rightarrow> client_id | None \<Rightarrow> 0)
      in (key, case adapter_table self key of Some a \<Rightarrow> a | None \<Rightarrow> gst_adapter_new))"


subsection \<open>The private routines of the chain function\<close>

text \<open>
  Where the source stops the process, the model returns a fault: a failed \<open>g_assert\<close>,
  or behaviour that C leaves undefined (a division by zero, a copy outside a mapped
  buffer, the use of a NULL buffer or memory).
\<close>

datatype fault = Assertion_Failed | Undefined_Behaviour

definition gst_buffer_new :: GstBuffer where
  "gst_buffer_new =
     \<lparr> memories = [], pts = GST_CLOCK_TIME_NONE, dts = GST_CLOCK_TIME_NONE,
       duration = GST_CLOCK_TIME_NONE, meta_query_client_id = None, mappable = True \<rparr>"

text \<open>\<open>gst_buffer_copy_into (dest, src, GST_BUFFER_COPY_METADATA, 0, -1)\<close>.\<close>

definition gst_buffer_copy_metadata :: "GstBuffer \<Rightarrow> GstBuffer \<Rightarrow> GstBuffer" where
  "gst_buffer_copy_metadata dest src =
     dest\<lparr> pts := pts src, dts := dts src, duration := duration src,
            meta_query_client_id := meta_query_client_id src \<rparr>"

definition gst_pad_push_buffer :: "'caps GstPad \<Rightarrow> GstBuffer \<Rightarrow> 'caps GstPad" where
  "gst_pad_push_buffer pad buffer = pad\<lparr> sent := sent pad @ [Pushed_Buffer buffer] \<rparr>"

definition gst_pad_push_segment :: "'caps GstPad \<Rightarrow> GstSegment \<Rightarrow> 'caps GstPad" where
  "gst_pad_push_segment pad seg = pad\<lparr> sent := sent pad @ [Pushed_Segment seg] \<rparr>"

definition gst_tensor_pad_caps_is_flexible :: "'caps nns_env \<Rightarrow> 'caps GstPad \<Rightarrow> bool" where
  "gst_tensor_pad_caps_is_flexible env pad =
     (case current_caps pad of None \<Rightarrow> False | Some caps \<Rightarrow> gst_tensor_caps_is_flexible env caps)"

definition have_framerate :: "GstTensorsConfig \<Rightarrow> bool" where
  "have_framerate config = (0 < sint (rate_n config) \<and> 0 < sint (rate_d config))"

definition gst_tensor_converter_chain_segment ::
  "'caps GstTensorConverter \<Rightarrow> gsize \<Rightarrow> fault + 'caps GstTensorConverter" where
  "gst_tensor_converter_chain_segment self frame_sz =
     (if need_segment self then
        (if \<not> have_segment self then Inl Assertion_Failed
         else
          (let config = tensors_config self;
               start = seg_start (segment self);
               seg = gst_segment_init GST_FORMAT_TIME;
               seg = (if have_framerate config \<and> 0 < start then
                        (let start = gst_util_uint64_scale_int (start * scast (rate_d config))
                                       (ucast GST_SECOND) (ucast (frame_sz * scast (rate_n config)))
                         in seg\<lparr> seg_start := start, seg_time := start \<rparr>)
                      else seg)
           in Inr (self\<lparr> segment := seg, need_segment := False,
                         srcpad := gst_pad_push_segment (srcpad self) seg \<rparr>)))
      else Inr self)"

definition gst_tensor_converter_chain_timestamp ::
  "'caps nns_env \<Rightarrow> 'caps GstTensorConverter \<Rightarrow> GstBuffer \<Rightarrow> guint
     \<Rightarrow> 'caps GstTensorConverter \<times> GstBuffer" where
  "gst_tensor_converter_chain_timestamp env self inbuf frames_in =
     (let inbuf =
        (if set_timestamp self then
           (let config = tensors_config self;
                inbuf = (if \<not> GST_CLOCK_TIME_IS_VALID (duration inbuf) \<and> have_framerate config
                         then inbuf\<lparr> duration :=
                                gst_util_uint64_scale_int (ucast frames_in * scast (rate_d config))
                                  (ucast GST_SECOND) (rate_n config) \<rparr>
                         else inbuf)
            in if \<not> GST_CLOCK_TIME_IS_VALID (pts inbuf) then
                 inbuf\<lparr> pts :=
                   (if have_framerate config then
                      (if GST_CLOCK_TIME_IS_VALID (old_timestamp self)
                       then old_timestamp self + duration inbuf
                       else seg_start (segment self))
                    else (case gst_element_get_clock env of
                            None \<Rightarrow> seg_start (segment self)
                          | Some (base, now) \<Rightarrow> if base < now then now - base else 0)) \<rparr>
               else inbuf)
         else inbuf)
      in (self\<lparr> old_timestamp := pts inbuf \<rparr>, inbuf))"

text \<open>\<open>gst_memory_share (mem, offset, size)\<close>: the region, which must lie in the memory.\<close>

definition gst_memory_share :: "byte list \<Rightarrow> gsize \<Rightarrow> gsize \<Rightarrow> byte list option" where
  "gst_memory_share mem offset sz =
     (if unat offset + unat sz \<le> length mem
      then Some (take (unat sz) (drop (unat offset) mem)) else None)"

text \<open>The \<open>for\<close> loop of \<open>_gst_tensor_converter_chain_octet\<close> over the tensors.\<close>

fun chain_octet_loop ::
  "'caps nns_env \<Rightarrow> GstTensorsInfo \<Rightarrow> byte list \<Rightarrow> nat list \<Rightarrow> gsize \<Rightarrow> byte list list option" where
  "chain_octet_loop env tinfo mem [] offset = Some []"
| "chain_octet_loop env tinfo mem (i # rest) offset =
     (let size = gst_tensor_info_get_size env (info_arr tinfo i) in
      case gst_memory_share mem offset size of
        None \<Rightarrow> None
      | Some new_mem \<Rightarrow>
          map_option (\<lambda>mems. new_mem # mems)
            (chain_octet_loop env tinfo mem rest (offset + size)))"

definition gst_tensor_converter_chain_octet ::
  "'caps nns_env \<Rightarrow> 'caps GstTensorConverter \<Rightarrow> GstBuffer \<Rightarrow> fault + GstBuffer" where
  "gst_tensor_converter_chain_octet env self buf =
     (let tinfo = info (tensors_config self);
          multi = (1 < num_tensors tinfo)
      in if multi \<or> 1 < gst_buffer_n_memory buf then
           (if frames_per_tensor self \<noteq> 1 then Inl Assertion_Failed
            else
             (let mem = concat (memories buf) in
              if multi then
                (case chain_octet_loop env tinfo mem [0 ..< unat (num_tensors tinfo)] 0 of
                   None \<Rightarrow> Inl Undefined_Behaviour
                 | Some mems \<Rightarrow>
                     Inr (gst_buffer_copy_metadata (gst_buffer_new\<lparr> memories := mems \<rparr>) buf))
              else Inr (gst_buffer_copy_metadata (gst_buffer_new\<lparr> memories := [mem] \<rparr>) buf)))
         else Inr buf)"

text \<open>
  \<open>_gst_tensor_converter_chain_flex_tensor\<close>: one header-prefixed memory for each
  tensor of the config. The buffer must hold a memory for each tensor.
\<close>

definition flex_media_type :: "media_type \<Rightarrow> media_type" where
  "flex_media_type t =
     (if t = NNS_VIDEO \<or> t = NNS_AUDIO \<or> t = NNS_TEXT \<or> t = NNS_OCTET then t else NNS_TENSOR)"

definition gst_tensor_converter_chain_flex_tensor ::
  "'caps nns_env \<Rightarrow> 'caps GstTensorConverter \<Rightarrow> GstBuffer \<Rightarrow> fault + GstBuffer" where
  "gst_tensor_converter_chain_flex_tensor env self buf =
     (let tinfo = info (tensors_config self) in
      case those (map (\<lambda>i.
             if i < length (memories buf) then
               Some (gst_tensor_meta_info_append_header env
                       ((gst_tensor_info_convert_to_meta env (info_arr tinfo i))
                          \<lparr> meta_media_type := flex_media_type (in_media_type self) \<rparr>)
                       (memories buf ! i))
             else None) [0 ..< unat (num_tensors tinfo)]) of
        None \<Rightarrow> Inl Undefined_Behaviour
      | Some mems \<Rightarrow> Inr (gst_buffer_copy_metadata (gst_buffer_new\<lparr> memories := mems \<rparr>) buf))"

definition gst_tensor_converter_chain_push ::
  "'caps nns_env \<Rightarrow> 'caps GstTensorConverter \<Rightarrow> GstBuffer
     \<Rightarrow> fault + (GstFlowReturn \<times> 'caps GstTensorConverter)" where
  "gst_tensor_converter_chain_push env self buf =
     (case (if in_media_type self = NNS_OCTET
            then gst_tensor_converter_chain_octet env self buf else Inr buf) of
        Inl f \<Rightarrow> Inl f
      | Inr buffer \<Rightarrow>
         (case (if \<not> do_not_append_header self
                   \<and> gst_tensor_pad_caps_is_flexible env (srcpad self)
                then gst_tensor_converter_chain_flex_tensor env self buffer
                else Inr buffer) of
            Inl f \<Rightarrow> Inl f
          | Inr buffer \<Rightarrow>
              Inr (gst_pad_push env buffer,
                   self\<lparr> srcpad := gst_pad_push_buffer (srcpad self) buffer \<rparr>)))"


text \<open>
  The \<open>while\<close> loop of \<open>_gst_tensor_converter_chain_chunk\<close>. With \<open>out_size = 0\<close>
  \<open>gst_adapter_take_buffer\<close> returns NULL and the source writes the timestamps into
  it. Each turn takes \<open>out_size > 0\<close> bytes off the adapter, so the loop ends.
\<close>

function chain_chunk_loop ::
  "'caps nns_env \<Rightarrow> 'caps GstTensorConverter \<Rightarrow> GstAdapter \<Rightarrow> guint \<Rightarrow> gsize \<Rightarrow> gsize
     \<Rightarrow> GstClockTime \<Rightarrow> GstFlowReturn
     \<Rightarrow> fault + (GstFlowReturn \<times> 'caps GstTensorConverter \<times> GstAdapter)" where
  "chain_chunk_loop env self adapter frames_in frame_sz out_size dur ret =
     (if out_size \<le> gst_adapter_available adapter \<and> ret = GST_FLOW_OK then
        (let config = tensors_config self;
             (p, pts_dist) = gst_adapter_prev_pts adapter;
             (d, dts_dist) = gst_adapter_prev_dts adapter;
             p = (if 1 < frames_in \<and> have_framerate config \<and> GST_CLOCK_TIME_IS_VALID p
                  then p + gst_util_uint64_scale_int (pts_dist * scast (rate_d config))
                             (ucast GST_SECOND) (ucast (scast (rate_n config) * frame_sz))
                  else p);
             d = (if 1 < frames_in \<and> have_framerate config \<and> GST_CLOCK_TIME_IS_VALID d
                  then d + gst_util_uint64_scale_int (dts_dist * scast (rate_d config))
                             (ucast GST_SECOND) (ucast (scast (rate_n config) * frame_sz))
                  else d)
         in case gst_adapter_take_buffer adapter out_size of
              (None, _) \<Rightarrow> Inl Undefined_Behaviour
            | (Some outbuf, adapter') \<Rightarrow>
               (case gst_tensor_converter_chain_push env self
                       (outbuf\<lparr> pts := p, dts := d, duration := dur \<rparr>) of
                  Inl f \<Rightarrow> Inl f
                | Inr (ret', self') \<Rightarrow>
                    chain_chunk_loop env self' adapter' frames_in frame_sz out_size dur ret'))
      else Inr (ret, self, adapter))"
  by pat_completeness auto
termination
proof -
  have loop: "ad_size (fst (adapter_flush_loop a q fl)) = ad_size a" for a q fl
    by (induction a q fl rule: adapter_flush_loop.induct)
       (auto simp: Let_def update_timestamps_and_offset_def split: list.splits)
  have sz: "ad_size (gst_adapter_flush_unchecked a n) = ad_size a - n" for a n
    using loop [of "a\<lparr> ad_size := ad_size a - n,
                        ad_pts_distance := ad_pts_distance a - ad_skip a,
                        ad_dts_distance := ad_dts_distance a - ad_skip a \<rparr>" "ad_queue a"
                   "n + ad_skip a"]
    by (auto simp: gst_adapter_flush_unchecked_def Let_def split: prod.splits)
  have dec: "unat (ad_size adapter') < unat (ad_size adapter)"
    if tk: "gst_adapter_take_buffer adapter out_size = (Some outbuf, adapter')"
    for adapter adapter' out_size outbuf
  proof -
    from tk have pos: "0 < out_size" and le: "out_size \<le> ad_size adapter"
      and ad': "adapter' = gst_adapter_flush_unchecked adapter out_size"
      by (auto simp: gst_adapter_take_buffer_def gst_adapter_get_buffer_def
          split: if_splits option.splits list.splits)
    have "unat (ad_size adapter - out_size) < unat (ad_size adapter)"
      using pos le by (simp add: unat_sub word_less_nat_alt word_le_nat_alt)
    then show ?thesis by (simp add: ad' sz)
  qed
  show ?thesis
    by (relation "measure (\<lambda>(env, self, adapter, frames_in, frame_sz, out_size, dur, ret).
                    unat (ad_size adapter))")
       (auto dest: dec [OF sym] dec)
qed

definition gst_tensor_converter_chain_chunk ::
  "'caps nns_env \<Rightarrow> 'caps GstTensorConverter \<Rightarrow> GstBuffer \<Rightarrow> guint \<Rightarrow> guint \<Rightarrow> gsize
     \<Rightarrow> fault + (GstFlowReturn \<times> 'caps GstTensorConverter)" where
  "gst_tensor_converter_chain_chunk env self inbuf frames_in frames_out frame_sz =
     (let (key, adapter) = gst_tensor_converter_get_adapter self inbuf;
          dur = (if GST_CLOCK_TIME_IS_VALID (duration inbuf)
                 then gst_util_uint64_scale_int (duration inbuf) frames_out frames_in
                 else duration inbuf);
          adapter = gst_adapter_push adapter inbuf;
          out_size = ucast frames_out * frame_sz
      in case chain_chunk_loop env self adapter frames_in frame_sz out_size dur GST_FLOW_OK of
           Inl f \<Rightarrow> Inl f
         | Inr (ret, self, adapter) \<Rightarrow>
             Inr (ret, self\<lparr> adapter_table := (adapter_table self)(key \<mapsto> adapter) \<rparr>))"

subsection \<open>The chain function\<close>

text \<open>
  The row loop of the depadding path (\<open>for (d1 = 0; d1 < height; d1++)\<close>; the loop
  around it runs once, \<open>frames_in\<close> being 1): each \<open>memcpy\<close> must stay inside the
  mapped source and destination. \<open>src_idx\<close> and \<open>dest_idx\<close> are \<open>unsigned int\<close>.
\<close>

fun video_depad_loop ::
  "nat \<Rightarrow> byte list \<Rightarrow> byte list \<Rightarrow> gsize \<Rightarrow> gsize \<Rightarrow> guint \<Rightarrow> guint \<Rightarrow> byte list option" where
  "video_depad_loop 0 src dest sz offset src_idx dest_idx = Some dest"
| "video_depad_loop (Suc n) src dest sz offset src_idx dest_idx =
     (if unat src_idx + unat sz \<le> length src \<and> unat dest_idx + unat sz \<le> length dest then
        video_depad_loop n src
          (take (unat dest_idx) dest @ take (unat sz) (drop (unat src_idx) src)
             @ drop (unat dest_idx + unat sz) dest)
          sz offset (ucast (ucast src_idx + offset)) (ucast (ucast dest_idx + sz))
      else None)"

text \<open>
  Each case of the \<open>switch (self->in_media_type)\<close> gives a fault, or \<open>None\<close> for
  \<open>goto error\<close> (no case has written to the element by then), or the element, \<open>inbuf\<close>,
  \<open>frame_size\<close> and \<open>frames_in\<close>.
\<close>

type_synonym 'caps chain_case =
  "fault + ('caps GstTensorConverter \<times> GstBuffer \<times> gsize \<times> guint) option"

definition chain_case_video ::
  "'caps nns_env \<Rightarrow> 'caps GstTensorConverter \<Rightarrow> GstBuffer \<Rightarrow> gsize \<Rightarrow> 'caps chain_case" where
  "chain_case_video env self buf buf_size =
     (let config = tensors_config self;
          color = dimension (info0 config) 0;
          width = dimension (info0 config) 1;
          height = dimension (info0 config) 2;
          type_sz = gst_tensor_get_element_size (type (info0 config));
          frame_sz = type_sz * ucast color * ucast width * ucast height
      in if frame_size self = 0 then Inl Undefined_Behaviour
         else if buf_size div frame_size self \<noteq> 1 then Inl Assertion_Failed
         else if remove_padding self then
           (if \<not> mappable buf then Inr None
            else
             (let sz = type_sz * ucast color * ucast width in
              if sz mod 4 = 0 then Inl Assertion_Failed
              else
               (let offset = sz + (4 - sz mod 4) in
                case video_depad_loop (unat height) (concat (memories buf))
                       (replicate (unat frame_sz) 0) sz offset 0 0 of
                  None \<Rightarrow> Inl Undefined_Behaviour
                | Some dest \<Rightarrow>
                    Inr (Some (self,
                      gst_buffer_copy_metadata (gst_buffer_new\<lparr> memories := [dest] \<rparr>) buf,
                      frame_sz, 1)))))
         else Inr (Some (self, buf, frame_sz, 1)))"

definition chain_case_audio ::
  "'caps nns_env \<Rightarrow> 'caps GstTensorConverter \<Rightarrow> GstBuffer \<Rightarrow> gsize \<Rightarrow> 'caps chain_case" where
  "chain_case_audio env self buf buf_size =
     (if frame_size self = 0 then Inl Undefined_Behaviour
      else Inr (Some (self, buf, frame_size self, ucast (buf_size div frame_size self))))"

definition chain_case_text ::
  "'caps nns_env \<Rightarrow> 'caps GstTensorConverter \<Rightarrow> GstBuffer \<Rightarrow> gsize \<Rightarrow> 'caps chain_case" where
  "chain_case_text env self buf buf_size =
     (if buf_size \<noteq> frame_size self then
        (let block_size = min buf_size (frame_size self) in
         if \<not> mappable buf then Inr None
         else
          (let dest = take (unat block_size) (concat (memories buf))
                        @ replicate (unat (frame_size self) - unat block_size) 0
           in Inr (Some (self,
                gst_buffer_copy_metadata (gst_buffer_new\<lparr> memories := [dest] \<rparr>) buf,
                frame_size self, 1))))
      else Inr (Some (self, buf, frame_size self, 1)))"

definition chain_case_octet ::
  "'caps nns_env \<Rightarrow> 'caps GstTensorConverter \<Rightarrow> GstBuffer \<Rightarrow> gsize \<Rightarrow> 'caps chain_case" where
  "chain_case_octet env self buf buf_size =
     (if gst_tensors_config_is_flexible (tensors_config self) then
        Inr (Some (self\<lparr> tensors_config :=
                            set_info0_dim 0 (ucast buf_size) (tensors_config self) \<rparr>,
                   buf, buf_size, 1))
      else if frame_size self = 0 then Inl Undefined_Behaviour
      else if buf_size mod frame_size self \<noteq> 0 then Inl Assertion_Failed
      else Inr (Some (self, buf, frame_size self, ucast (buf_size div frame_size self))))"


text \<open>
  The \<open>for\<close> loop of the case \<open>_NNS_TENSOR\<close> over the memories of the buffer
  (\<open>gst_tensor_buffer_get_count\<close> is their number): \<open>n\<close> is the index, \<open>tmp\<close> the
  config being recovered and \<open>inbuf_mems\<close> the memories appended to \<open>inbuf\<close> so far.
  \<open>s1\<close> is the size of the memory less the header, \<open>s2\<close> the size of the tensor info
  recovered from the header into slot \<open>n\<close> of the static \<open>tmp\<close>.
\<close>

fun chain_tensor_loop ::
  "'caps nns_env \<Rightarrow> byte list list \<Rightarrow> nat \<Rightarrow> GstTensorsConfig \<Rightarrow> byte list list
     \<Rightarrow> fault + (GstTensorsConfig \<times> byte list list) option" where
  "chain_tensor_loop env [] n tmp inbuf_mems = Inr (Some (tmp, inbuf_mems))"
| "chain_tensor_loop env (mem # rest) n tmp inbuf_mems =
     (let meta = gst_tensor_meta_info_parse_memory env mem;
          tmp = tmp\<lparr> info := (info tmp)\<lparr> info_arr :=
                  (info_arr (info tmp))(n := gst_tensor_meta_info_convert env meta) \<rparr> \<rparr>;
          hsize = gst_tensor_meta_info_get_header_size env meta;
          s1 = of_nat (length mem) - hsize;
          s2 = gst_tensor_info_get_size env (info_arr (info tmp) n)
      in if s1 \<noteq> s2 then Inr None
         else (case gst_memory_share mem hsize s1 of
                 None \<Rightarrow> Inl Undefined_Behaviour
               | Some new_mem \<Rightarrow>
                   chain_tensor_loop env rest (Suc n) tmp (inbuf_mems @ [new_mem])))"

definition chain_case_tensor ::
  "'caps nns_env \<Rightarrow> 'caps GstTensorConverter \<Rightarrow> GstBuffer \<Rightarrow> gsize \<Rightarrow> 'caps chain_case" where
  "chain_case_tensor env self buf buf_size =
     (let config = tensors_config self;
          tmp = gst_tensors_config_init\<lparr> rate_n := rate_n config, rate_d := rate_d config \<rparr>;
          buf = gst_tensor_buffer_from_config env buf (set_format NNS_TENSOR_FORMAT_FLEXIBLE tmp);
          tmp = set_num_tensors (of_nat (length (memories buf)))
                  (set_format NNS_TENSOR_FORMAT_STATIC tmp)
      in case chain_tensor_loop env (memories buf) 0 tmp [] of
           Inl f \<Rightarrow> Inl f
         | Inr None \<Rightarrow> Inr None
         | Inr (Some (tmp, inbuf_mems)) \<Rightarrow>
            (let inbuf = gst_buffer_copy_metadata (gst_buffer_new\<lparr> memories := inbuf_mems \<rparr>) buf
             in if \<not> gst_tensors_config_is_equal env config tmp then
                  (if gst_tensors_info_validate env (tensors_info self) then Inr None
                   else Inr (Some (gst_tensor_converter_update_caps env
                                     (self\<lparr> tensors_config := tmp \<rparr>),
                                   inbuf, frame_size self, 1)))
                else Inr (Some (self, inbuf, frame_size self, 1))))"

text \<open>
  The case \<open>_NNS_MEDIA_ANY\<close>: the callback of the custom mode or the \<open>convert\<close> of
  the external converter gives the buffer and its config (\<open>None\<close> is a NULL buffer).
\<close>

definition chain_case_any ::
  "'caps nns_env \<Rightarrow> 'caps GstTensorConverter \<Rightarrow> GstBuffer \<Rightarrow> gsize \<Rightarrow> 'caps chain_case" where
  "chain_case_any env self buf buf_size =
     (case (if mode self = CONVERTER_MODE_CUSTOM_CODE then
              (case custom_func self of None \<Rightarrow> None | Some func \<Rightarrow> func buf)
            else (case externalConverter self of
                    None \<Rightarrow> None
                  | Some ex \<Rightarrow>
                     (case ex_convert ex of
                        None \<Rightarrow> None
                      | Some convert \<Rightarrow> convert buf (priv_data self)))) of
        None \<Rightarrow> Inr None
      | Some (inbuf, new_config) \<Rightarrow>
         (let self = self\<lparr> do_not_append_header :=
                             (format (info new_config) = NNS_TENSOR_FORMAT_FLEXIBLE) \<rparr>;
              self = (if \<not> gst_tensors_config_is_equal env (tensors_config self) new_config
                      then gst_tensor_converter_update_caps env
                             (self\<lparr> tensors_config := new_config \<rparr>)
                      else self)
          in Inr (Some (self, inbuf, gst_buffer_get_size inbuf, 1))))"

definition chain_switch ::
  "'caps nns_env \<Rightarrow> 'caps GstTensorConverter \<Rightarrow> GstBuffer \<Rightarrow> gsize \<Rightarrow> 'caps chain_case" where
  "chain_switch env self buf buf_size =
     (case in_media_type self of
        NNS_VIDEO \<Rightarrow> chain_case_video env self buf buf_size
      | NNS_AUDIO \<Rightarrow> chain_case_audio env self buf buf_size
      | NNS_TEXT \<Rightarrow> chain_case_text env self buf buf_size
      | NNS_OCTET \<Rightarrow> chain_case_octet env self buf buf_size
      | NNS_TENSOR \<Rightarrow> chain_case_tensor env self buf buf_size
      | NNS_MEDIA_ANY \<Rightarrow> chain_case_any env self buf buf_size
      | NNS_MEDIA_INVALID \<Rightarrow> Inr None)"

text \<open>
  \<open>gst_tensor_converter_chain\<close>: a fault, or the flow return and the element after the
  call. Everything sent downstream is in \<open>sent (srcpad self)\<close>.
\<close>

definition gst_tensor_converter_chain ::
  "'caps nns_env \<Rightarrow> 'caps GstTensorConverter \<Rightarrow> GstBuffer
     \<Rightarrow> fault + (GstFlowReturn \<times> 'caps GstTensorConverter)" where
  "gst_tensor_converter_chain env self buf =
     (let buf_size = gst_buffer_get_size buf in
      if \<not> 0 < buf_size then Inr (GST_FLOW_ERROR, self)
      else if \<not> tensors_configured self then Inl Assertion_Failed
      else
       (let frames_out = frames_per_tensor self in
        case chain_switch env self buf buf_size of
          Inl f \<Rightarrow> Inl f
        | Inr None \<Rightarrow> Inr (GST_FLOW_ERROR, self)
        | Inr (Some (self, inbuf, frame_sz, frames_in)) \<Rightarrow>
           (case gst_tensor_converter_chain_segment self frame_sz of
              Inl f \<Rightarrow> Inl f
            | Inr self \<Rightarrow>
               (let (self, inbuf) = gst_tensor_converter_chain_timestamp env self inbuf frames_in
                in if frames_in = frames_out
                   then gst_tensor_converter_chain_push env self inbuf
                   else gst_tensor_converter_chain_chunk env self inbuf frames_in frames_out
                          frame_sz))))"


subsection \<open>An example environment\<close>

text \<open>
  Modelled from the spec: the tensor utility functions of nnstreamer are not among the
  sources; the model takes them as parameters. To evaluate the model at concrete inputs
  they are instantiated as the spec describes them. A tensor is valid when its element
  type is set and its declared dimensions (those before the first 0) are at least one,
  with no dimension after them; a static set is valid when it has at least one tensor
  and each is valid; a config is valid when its rate has a non-negative numerator and a
  positive denominator. Two descriptors are equal when they are structurally equal. The
  size of a tensor is the product of its declared dimensions times the element size.
\<close>

definition ex_dimension_is_valid :: "(nat \<Rightarrow> guint) \<Rightarrow> bool" where
  "ex_dimension_is_valid d =
     (takeWhile (\<lambda>x. x \<noteq> 0) (dims d) \<noteq> []
      \<and> list_all (\<lambda>x. x = 0) (dropWhile (\<lambda>x. x \<noteq> 0) (dims d)))"

definition ex_tensor_info_validate :: "GstTensorInfo \<Rightarrow> bool" where
  "ex_tensor_info_validate i = (type i \<noteq> NNS_END \<and> ex_dimension_is_valid (dimension i))"

definition ex_tensors_info_validate :: "GstTensorsInfo \<Rightarrow> bool" where
  "ex_tensors_info_validate ti =
     (if format ti = NNS_TENSOR_FORMAT_END then False
      else if format ti \<noteq> NNS_TENSOR_FORMAT_STATIC then True
      else if num_tensors ti < 1 then False
      else list_all ex_tensor_info_validate (map (info_arr ti) [0 ..< unat (num_tensors ti)]))"

definition ex_tensors_config_validate :: "GstTensorsConfig \<Rightarrow> bool" where
  "ex_tensors_config_validate c =
     (0 \<le> sint (rate_n c) \<and> 0 < sint (rate_d c) \<and> ex_tensors_info_validate (info c))"

definition ex_tensor_info_is_equal :: "GstTensorInfo \<Rightarrow> GstTensorInfo \<Rightarrow> bool" where
  "ex_tensor_info_is_equal a b = (type a = type b \<and> dims (dimension a) = dims (dimension b))"

definition ex_tensors_info_is_equal :: "GstTensorsInfo \<Rightarrow> GstTensorsInfo \<Rightarrow> bool" where
  "ex_tensors_info_is_equal a b =
     (if format a \<noteq> format b \<or> format a = NNS_TENSOR_FORMAT_END then False
      else if format a \<noteq> NNS_TENSOR_FORMAT_STATIC then True
      else (ex_tensors_info_validate a \<and> ex_tensors_info_validate b
            \<and> num_tensors a = num_tensors b
            \<and> list_all (\<lambda>i. ex_tensor_info_is_equal (info_arr a i) (info_arr b i))
                 [0 ..< unat (num_tensors a)]))"

definition ex_tensors_config_is_equal :: "GstTensorsConfig \<Rightarrow> GstTensorsConfig \<Rightarrow> bool" where
  "ex_tensors_config_is_equal a b =
     (rate_n a = rate_n b \<and> rate_d a = rate_d b \<and> ex_tensors_info_is_equal (info a) (info b))"

definition ex_tensor_info_get_size :: "GstTensorInfo \<Rightarrow> gsize" where
  "ex_tensor_info_get_size i =
     (if takeWhile (\<lambda>x. x \<noteq> 0) (dims (dimension i)) = [] then 0
      else prod_list (map ucast (takeWhile (\<lambda>x. x \<noteq> 0) (dims (dimension i))))
             * gst_tensor_get_element_size (type i))"

definition ex_tensors_info_get_size :: "GstTensorsInfo \<Rightarrow> gsize" where
  "ex_tensors_info_get_size ti =
     sum_list (map (\<lambda>i. ex_tensor_info_get_size (info_arr ti i)) [0 ..< unat (num_tensors ti)])"

text \<open>
  Modelled from the spec: the header of a flexible tensor is "a fixed-size header
  encoding element type, rank, dimensions, media-kind tag"; its layout is not among the
  sources. The example environment uses a header of two bytes for one-dimensional
  tensors of bytes: a tag (5) and the length.
\<close>

definition ex_meta_parse_memory :: "byte list \<Rightarrow> GstTensorMetaInfo" where
  "ex_meta_parse_memory m =
     (case m of
        t # n # _ \<Rightarrow>
          \<lparr> meta_type = (if t = 5 then NNS_UINT8 else NNS_END),
            meta_dimension = (\<lambda>i. 0)(0 := ucast n),
            meta_format = NNS_TENSOR_FORMAT_FLEXIBLE,
            meta_media_type = NNS_TENSOR \<rparr>
      | _ \<Rightarrow>
          \<lparr> meta_type = NNS_END,
            meta_dimension = (\<lambda>i. 0),
            meta_format = NNS_TENSOR_FORMAT_FLEXIBLE,
            meta_media_type = NNS_TENSOR \<rparr>)"

definition ex_meta_convert :: "GstTensorMetaInfo \<Rightarrow> GstTensorInfo" where
  "ex_meta_convert m = \<lparr> name = None, type = meta_type m, dimension = meta_dimension m \<rparr>"

definition ex_convert_to_meta :: "GstTensorInfo \<Rightarrow> GstTensorMetaInfo" where
  "ex_convert_to_meta i =
     \<lparr> meta_type = type i, meta_dimension = dimension i,
       meta_format = NNS_TENSOR_FORMAT_FLEXIBLE, meta_media_type = NNS_TENSOR \<rparr>"

definition ex_meta_append_header :: "GstTensorMetaInfo \<Rightarrow> byte list \<Rightarrow> byte list" where
  "ex_meta_append_header m mem =
     (if meta_type m = NNS_UINT8 then 5 else 0) # ucast (meta_dimension m 0) # mem"

text \<open>
  The example environment: GStreamer from 1.20 on, video and audio support built in,
  no peer on the source pad, no converter subplugin, no clock, and a downstream element
  that accepts every buffer. The outbound caps are the config itself.
\<close>

definition example_env :: "GstTensorsConfig nns_env" where
  "example_env =
     \<lparr> gst_check_version_1_20 = True,
       is_video_supported = True,
       is_audio_supported = True,
       gst_tensors_info_validate = ex_tensors_info_validate,
       gst_tensors_config_validate = ex_tensors_config_validate,
       gst_tensors_info_is_equal = ex_tensors_info_is_equal,
       gst_tensors_config_is_equal = ex_tensors_config_is_equal,
       gst_tensor_info_get_size = ex_tensor_info_get_size,
       gst_tensors_info_get_size = ex_tensors_info_get_size,
       gst_tensor_info_convert_to_meta = ex_convert_to_meta,
       gst_tensor_meta_info_append_header = ex_meta_append_header,
       gst_tensor_meta_info_parse_memory = ex_meta_parse_memory,
       gst_tensor_meta_info_convert = ex_meta_convert,
       gst_tensor_meta_info_get_header_size = (\<lambda>m. 2),
       gst_tensor_buffer_from_config = (\<lambda>b c. b),
       gst_tensor_pad_caps_from_config = (\<lambda>c. c),
       gst_tensor_caps_is_flexible = gst_tensors_config_is_flexible,
       gst_tensors_config_from_peer =
         \<lparr> peer_ok = False, peer_config = gst_tensors_config_init, peer_is_fixed = False \<rparr>,
       get_all_subplugins = [],
       gst_element_get_clock = None,
       gst_pad_push = (\<lambda>b. GST_FLOW_OK) \<rparr>"

definition example_video_info :: "GstVideoFormat \<Rightarrow> gint \<Rightarrow> gint \<Rightarrow> gsize \<Rightarrow> GstVideoInfo" where
  "example_video_info fmt w h sz =
     \<lparr> GST_VIDEO_INFO_FORMAT = fmt, GST_VIDEO_INFO_WIDTH = w, GST_VIDEO_INFO_HEIGHT = h,
       GST_VIDEO_INFO_VIEWS = 1, GST_VIDEO_INFO_FPS_N = 30, GST_VIDEO_INFO_FPS_D = 1,
       GST_VIDEO_INFO_SIZE = sz \<rparr>"

definition example_video_caps :: "GstVideoFormat \<Rightarrow> gint \<Rightarrow> gint \<Rightarrow> gsize \<Rightarrow> GstCaps" where
  "example_video_caps fmt w h sz =
     \<lparr> gst_caps_is_fixed = True,
       gst_structure_get_name = ''video/x-raw'',
       gst_structure_get_media_type = NNS_VIDEO,
       gst_video_info_from_caps = Some (example_video_info fmt w h sz),
       gst_audio_info_from_caps = None,
       gst_structure_get_format = None,
       gst_structure_has_framerate = True,
       gst_structure_get_framerate = Some (30, 1) \<rparr>"

subsection \<open>What the parsers leave alone\<close>

text \<open>The fields of the element that no parser writes.\<close>

definition negotiated_eq :: "'caps GstTensorConverter \<Rightarrow> 'caps GstTensorConverter \<Rightarrow> bool" where
  "negotiated_eq a b =
     (tensors_info a = tensors_info b \<and> tensors_config a = tensors_config b
      \<and> in_media_type a = in_media_type b \<and> tensors_configured a = tensors_configured b
      \<and> frames_per_tensor a = frames_per_tensor b \<and> mode a = mode b
      \<and> srcpad a = srcpad b \<and> adapter_table a = adapter_table b)"

text \<open>
  The config that \<open>gst_tensor_converter_parse_caps\<close> derives from the capability: the
  config of the parser with the number of frames set in its dimension.
\<close>

definition parse_caps_derived ::
  "'caps nns_env \<Rightarrow> 'caps GstTensorConverter \<Rightarrow> GstCaps \<Rightarrow> GstTensorsConfig" where
  "parse_caps_derived env self caps =
     (let in_type = (if mode self \<noteq> CONVERTER_MODE_NONE then NNS_MEDIA_ANY
                     else gst_structure_get_media_type caps);
          (ok, self, config, in_type, frames_dim) = parse_caps_switch env self caps in_type
      in case frames_dim of
           Some k \<Rightarrow> set_info0_dim k (frames_per_tensor self) config
         | None \<Rightarrow> config)"

text \<open>Example inputs: a user-declared image tensor, and the element with it.\<close>

definition example_image_info :: "guint \<Rightarrow> guint \<Rightarrow> guint \<Rightarrow> GstTensorsInfo" where
  "example_image_info c w h =
     gst_tensors_info_init
       \<lparr> num_tensors := 1,
         info_arr := (\<lambda>i. gst_tensor_info_init)
           (0 := \<lparr> name = None, type = NNS_UINT8,
                   dimension = (\<lambda>i. 0)(0 := c, 1 := w, 2 := h, 3 := 1) \<rparr>) \<rparr>"

definition example_self :: "GstTensorsInfo \<Rightarrow> GstTensorsConfig GstTensorConverter" where
  "example_self ti = gst_tensor_converter_init\<lparr> tensors_info := ti \<rparr>"


text \<open>
  Example inputs: the element with the user-declared tensor \<open>3:640:480:1\<close> after the
  caps event of an \<open>RGB\<close> stream of 640 by 480, and a frame of that stream.
\<close>

definition example_negotiated :: "GstTensorsConfig GstTensorConverter" where
  "example_negotiated =
     snd (gst_tensor_converter_sink_event_caps example_env
            (example_self (example_image_info 3 640 480))
            (example_video_caps GST_VIDEO_FORMAT_RGB 640 480 921600))"

definition example_frame :: "nat \<Rightarrow> GstBuffer" where
  "example_frame n = gst_buffer_new\<lparr> memories := [replicate n 0], pts := 0 \<rparr>"

text \<open>The flow return of a chain call that returns.\<close>

definition chain_flow :: "fault + (GstFlowReturn \<times> 'caps GstTensorConverter) \<Rightarrow> GstFlowReturn option" where
  "chain_flow r = (case r of Inl f \<Rightarrow> None | Inr (ret, self) \<Rightarrow> Some ret)"


text \<open>
  Example inputs for an octet stream: the capability, user-declared tensors of bytes,
  and a peer of the source pad that accepts flexible tensors.
\<close>

definition example_octet_caps :: GstCaps where
  "example_octet_caps =
     \<lparr> gst_caps_is_fixed = True,
       gst_structure_get_name = ''application/octet-stream'',
       gst_structure_get_media_type = NNS_OCTET,
       gst_video_info_from_caps = None,
       gst_audio_info_from_caps = None,
       gst_structure_get_format = None,
       gst_structure_has_framerate = False,
       gst_structure_get_framerate = None \<rparr>"

definition example_bytes_info :: "guint \<Rightarrow> GstTensorsInfo" where
  "example_bytes_info n =
     gst_tensors_info_init
       \<lparr> num_tensors := 1,
         info_arr := (\<lambda>i. gst_tensor_info_init)
           (0 := \<lparr> name = None, type = NNS_UINT8, dimension = (\<lambda>i. 0)(0 := n) \<rparr>) \<rparr>"

definition example_two_bytes_info :: "guint \<Rightarrow> guint \<Rightarrow> GstTensorsInfo" where
  "example_two_bytes_info m n =
     gst_tensors_info_init
       \<lparr> num_tensors := 2,
         info_arr := (\<lambda>i. gst_tensor_info_init)
           (0 := \<lparr> name = None, type = NNS_UINT8, dimension = (\<lambda>i. 0)(0 := m) \<rparr>,
            1 := \<lparr> name = None, type = NNS_UINT8, dimension = (\<lambda>i. 0)(0 := n) \<rparr>) \<rparr>"

definition example_flexible_peer :: peer_result where
  "example_flexible_peer =
     \<lparr> peer_ok = True,
       peer_config = set_format NNS_TENSOR_FORMAT_FLEXIBLE gst_tensors_config_init,
       peer_is_fixed = False \<rparr>"

definition example_env_flexible :: "GstTensorsConfig nns_env" where
  "example_env_flexible = example_env\<lparr> gst_tensors_config_from_peer := example_flexible_peer \<rparr>"










text \<open>What the routines after the \<open>switch\<close> of the chain function leave alone.\<close>

definition config_eq :: "'caps GstTensorConverter \<Rightarrow> 'caps GstTensorConverter \<Rightarrow> bool" where
  "config_eq a b =
     (tensors_config a = tensors_config b \<and> tensors_info a = tensors_info b
      \<and> in_media_type a = in_media_type b \<and> tensors_configured a = tensors_configured b
      \<and> frames_per_tensor a = frames_per_tensor b
      \<and> do_not_append_header a = do_not_append_header b)"

text \<open>
  The invariant of a flexible octet stream: the element is configured for octet
  input, and its config is flexible with one tensor.
\<close>

definition flexible_octet :: "'caps GstTensorConverter \<Rightarrow> bool" where
  "flexible_octet self =
     (in_media_type self = NNS_OCTET \<and> tensors_configured self
      \<and> gst_tensors_config_is_flexible (tensors_config self)
      \<and> num_tensors (info (tensors_config self)) = 1)"

text \<open>
  Example inputs: the element after the caps event of an octet stream, with a peer
  that accepts flexible tensors, and a buffer of 7 bytes.
\<close>

definition example_octet_self :: "GstTensorsConfig GstTensorConverter" where
  "example_octet_self =
     snd (gst_tensor_converter_sink_event_caps example_env_flexible
            (example_self gst_tensors_info_init) example_octet_caps)"

definition example_octet_buffer :: GstBuffer where
  "example_octet_buffer =
     gst_buffer_new\<lparr> memories := [[1, 2, 3, 4, 5, 6, 7]], pts := 0 \<rparr>"


text \<open>
  Example inputs: the element after the caps event of a \<open>GRAY8\<close> stream of 5 by 2
  (frames of 16 bytes), and a frame of that stream whose padding bytes are 255.
\<close>

definition example_gray_self :: "GstTensorsConfig GstTensorConverter" where
  "example_gray_self =
     snd (gst_tensor_converter_sink_event_caps example_env
            (example_self gst_tensors_info_init)
            (example_video_caps GST_VIDEO_FORMAT_GRAY8 5 2 16))"

definition example_gray_frame :: GstBuffer where
  "example_gray_frame =
     gst_buffer_new\<lparr> memories := [[1, 2, 3, 4, 5, 255, 255, 255, 6, 7, 8, 9, 10, 255, 255, 255]],
                     pts := 0 \<rparr>"

definition example_gray_config :: GstTensorsConfig where
  "example_gray_config =
     set_info0_dim 3 1 ((clear_info0_dims_from 4 (set_info0_dim 3 1 (set_info0_dim 2 2
       (set_info0_dim 1 5 (set_info0_dim 0 1 (set_info0_type NNS_UINT8
          (set_num_tensors 1 gst_tensors_config_init)))))))\<lparr> rate_n := 30, rate_d := 1 \<rparr>)"


text \<open>
  Example inputs: a capability for one channel of 16-bit samples at 1000 Hz, the
  element with \<open>frames-per-tensor\<close> 2 after the caps event of that stream, and a chunk
  of four samples with the timestamp 5 ms.
\<close>

definition example_audio_caps :: GstCaps where
  "example_audio_caps =
     \<lparr> gst_caps_is_fixed = True,
       gst_structure_get_name = ''audio/x-raw'',
       gst_structure_get_media_type = NNS_AUDIO,
       gst_video_info_from_caps = None,
       gst_audio_info_from_caps =
         Some \<lparr> GST_AUDIO_INFO_FORMAT = GST_AUDIO_FORMAT_S16, GST_AUDIO_INFO_CHANNELS = 1,
                GST_AUDIO_INFO_RATE = 1000, GST_AUDIO_INFO_BPF = 2 \<rparr>,
       gst_structure_get_format = None,
       gst_structure_has_framerate = False,
       gst_structure_get_framerate = None \<rparr>"

definition example_audio_config :: GstTensorsConfig where
  "example_audio_config =
     set_info0_dim 1 2 ((clear_info0_dims_from 2 (set_info0_dim 1 1 (set_info0_dim 0 1
       (set_info0_type NNS_INT16 (set_num_tensors 1 gst_tensors_config_init)))))
          \<lparr> rate_n := 1000, rate_d := 1 \<rparr>)"

definition example_audio_self :: "GstTensorsConfig GstTensorConverter" where
  "example_audio_self =
     snd (gst_tensor_converter_sink_event_caps example_env
            ((example_self gst_tensors_info_init)\<lparr> frames_per_tensor := 2 \<rparr>)
            example_audio_caps)"

definition example_audio_chunk :: GstBuffer where
  "example_audio_chunk =
     gst_buffer_new\<lparr> memories := [[1, 2, 3, 4, 5, 6, 7, 8]], pts := 5000000 \<rparr>"


text \<open>A buffer of \<open>2^32\<close> bytes.\<close>

definition example_octet_large_buffer :: GstBuffer where
  "example_octet_large_buffer =
     gst_buffer_new\<lparr> memories := [replicate 4294967296 0], pts := 0 \<rparr>"







section \<open>Properties\<close>

subsection \<open>Reading a config after the assignments of a parser\<close>

lemma info0_set_info0_dim:
  "info0 (set_info0_dim i v c) = (info0 c)\<lparr> dimension := (dimension (info0 c))(i := v) \<rparr>"
  by (simp add: info0_def set_info0_dim_def)

lemma info0_set_info0_type:
  "info0 (set_info0_type t c) = (info0 c)\<lparr> type := t \<rparr>"
  by (simp add: info0_def set_info0_type_def)

lemma info0_set_num_tensors: "info0 (set_num_tensors n c) = info0 c"
  by (simp add: info0_def set_num_tensors_def)

lemma info0_set_format: "info0 (set_format f c) = info0 c"
  by (simp add: info0_def set_format_def)

lemma info0_rate_update:
  "info0 (c\<lparr> rate_n := n, rate_d := d \<rparr>) = info0 c"
  by (simp add: info0_def)

lemma info0_fold_clear:
  "info0 (fold (\<lambda>i. set_info0_dim i 0) ks c) =
     (info0 c)\<lparr> dimension := (\<lambda>i. if i \<in> set ks then 0 else dimension (info0 c) i) \<rparr>"
proof (induction ks arbitrary: c)
  case Nil
  then show ?case by simp
next
  case (Cons k ks)
  show ?case
    by (simp add: Cons info0_set_info0_dim fun_eq_iff)
qed

lemma info0_clear_info0_dims_from:
  "info0 (clear_info0_dims_from k c) =
     (info0 c)\<lparr> dimension :=
        (\<lambda>i. if k \<le> i \<and> i < NNS_TENSOR_RANK_LIMIT then 0 else dimension (info0 c) i) \<rparr>"
  by (simp add: clear_info0_dims_from_def info0_fold_clear)

lemmas info0_simps =
  info0_set_info0_dim info0_set_info0_type info0_set_num_tensors info0_set_format
  info0_rate_update info0_clear_info0_dims_from

lemma info0_init: "info0 gst_tensors_config_init = gst_tensor_info_init"
  by (simp add: info0_def gst_tensors_config_init_def gst_tensors_info_init_def)

lemma set_info0_dim_keeps:
  "num_tensors (info (set_info0_dim i v c)) = num_tensors (info c)"
  "format (info (set_info0_dim i v c)) = format (info c)"
  "rate_n (set_info0_dim i v c) = rate_n c"
  "rate_d (set_info0_dim i v c) = rate_d c"
  by (simp_all add: set_info0_dim_def)

lemma set_info0_type_keeps:
  "num_tensors (info (set_info0_type t c)) = num_tensors (info c)"
  "format (info (set_info0_type t c)) = format (info c)"
  "rate_n (set_info0_type t c) = rate_n c"
  "rate_d (set_info0_type t c) = rate_d c"
  by (simp_all add: set_info0_type_def)

lemma fold_set_info0_dim_keeps:
  "num_tensors (info (fold (\<lambda>i. set_info0_dim i v) ks c)) = num_tensors (info c)"
  "format (info (fold (\<lambda>i. set_info0_dim i v) ks c)) = format (info c)"
  "rate_n (fold (\<lambda>i. set_info0_dim i v) ks c) = rate_n c"
  "rate_d (fold (\<lambda>i. set_info0_dim i v) ks c) = rate_d c"
  by (induction ks arbitrary: c; simp add: set_info0_dim_keeps)+

lemma clear_info0_dims_from_keeps:
  "num_tensors (info (clear_info0_dims_from k c)) = num_tensors (info c)"
  "format (info (clear_info0_dims_from k c)) = format (info c)"
  "rate_n (clear_info0_dims_from k c) = rate_n c"
  "rate_d (clear_info0_dims_from k c) = rate_d c"
  by (simp_all add: clear_info0_dims_from_def fold_set_info0_dim_keeps)

lemma set_num_tensors_reads:
  "num_tensors (info (set_num_tensors n c)) = n"
  "format (info (set_num_tensors n c)) = format (info c)"
  "rate_n (set_num_tensors n c) = rate_n c"
  "rate_d (set_num_tensors n c) = rate_d c"
  by (simp_all add: set_num_tensors_def)

lemma set_format_reads:
  "num_tensors (info (set_format f c)) = num_tensors (info c)"
  "format (info (set_format f c)) = f"
  "rate_n (set_format f c) = rate_n c"
  "rate_d (set_format f c) = rate_d c"
  by (simp_all add: set_format_def)

lemmas config_keeps =
  set_info0_dim_keeps set_info0_type_keeps clear_info0_dims_from_keeps
  set_num_tensors_reads set_format_reads

lemma parse_video_format_keeps:
  "num_tensors (info (parse_video_format v f w h c)) = num_tensors (info c)"
  "format (info (parse_video_format v f w h c)) = format (info c)"
  "rate_n (parse_video_format v f w h c) = rate_n c"
  "rate_d (parse_video_format v f w h c) = rate_d c"
  by (simp_all add: parse_video_format_def config_keeps)

lemma upt_0_16: "[0 ..< 16] = [0, 1, 2, 3, 4, 5, 6, 7, 8, 9, 10, 11, 12, 13, 14, 15 :: nat]"
  by (simp add: upt_rec)

lemma dims_list:
  "dims d = [d 0, d 1, d 2, d 3, d 4, d 5, d 6, d 7, d 8, d 9, d 10, d 11, d 12, d 13, d 14, d 15]"
  by (simp add: dims_def NNS_TENSOR_RANK_LIMIT_def upt_0_16)

lemma replicate_12: "replicate 12 x = [x, x, x, x, x, x, x, x, x, x, x, x]"
  by (simp add: numeral_eq_Suc)

text \<open>The descriptor of the video parser in terms of the four leading slots.\<close>

lemma video_config_dims:
  "dims (dimension (info0 (clear_info0_dims_from 4 (set_info0_dim 3 d
      (set_info0_dim 2 c (set_info0_dim (Suc 0) b (set_info0_dim 0 a
        (set_info0_type t (set_num_tensors n gst_tensors_config_init)))))))))
   = [a, b, c, d] @ replicate 12 0"
  by (simp add: info0_simps info0_init gst_tensor_info_init_def dims_list replicate_12
      NNS_TENSOR_RANK_LIMIT_def)

lemma example_env_reads:
  "gst_check_version_1_20 example_env = True"
  "is_video_supported example_env = True"
  "is_audio_supported example_env = True"
  "gst_tensors_info_validate example_env = ex_tensors_info_validate"
  "gst_tensors_config_validate example_env = ex_tensors_config_validate"
  "gst_tensors_info_is_equal example_env = ex_tensors_info_is_equal"
  "gst_tensors_config_is_equal example_env = ex_tensors_config_is_equal"
  "gst_tensor_info_get_size example_env = ex_tensor_info_get_size"
  "gst_tensors_info_get_size example_env = ex_tensors_info_get_size"
  "gst_tensor_info_convert_to_meta example_env = ex_convert_to_meta"
  "gst_tensor_meta_info_append_header example_env = ex_meta_append_header"
  "gst_tensor_meta_info_parse_memory example_env = ex_meta_parse_memory"
  "gst_tensor_meta_info_convert example_env = ex_meta_convert"
  "gst_tensor_meta_info_get_header_size example_env = (\<lambda>m. 2)"
  "gst_tensor_buffer_from_config example_env = (\<lambda>b c. b)"
  "gst_tensor_pad_caps_from_config example_env = (\<lambda>c. c)"
  "gst_tensor_caps_is_flexible example_env = gst_tensors_config_is_flexible"
  "get_all_subplugins example_env = []"
  "gst_element_get_clock example_env = None"
  "gst_pad_push example_env = (\<lambda>b. GST_FLOW_OK)"
  by (simp_all add: example_env_def)

lemmas example_video_defs =
  gst_tensor_converter_parse_video_def example_video_caps_def example_video_info_def
  example_env_reads gst_tensor_converter_video_stride_def parse_video_format_def Let_def


subsection \<open>C1: the descriptor of the video parser\<close>

text \<open>
  C1, as amended. When \<open>gst_tensor_converter_parse_video\<close> accepts a video capability,
  the config has exactly one tensor, static format, and the frame rate of the
  capability. For an interleaved format offered for the colour-space count \<open>c\<close>
  (\<open>GRAY8\<close>, \<open>GRAY16\<close>: 1; \<open>RGB\<close>, \<open>BGR\<close>: 3; \<open>RGBx\<close> ... \<open>ABGR\<close>: 4) the dimension is
  \<open>[c, width, height, 1]\<close>; for the planar formats \<open>RGBP\<close> and \<open>BGRP\<close> (count 3,
  GStreamer from 1.20 on) it is \<open>[width, height, c, 1]\<close>. The remaining slots are 0.
\<close>

theorem parse_video_descriptor:
  assumes "gst_video_info_from_caps caps = Some vinfo"
    and "gst_tensor_converter_parse_video env self caps = (True, self', config)"
  shows "num_tensors (info config) = 1
     \<and> format (info config) = NNS_TENSOR_FORMAT_STATIC
     \<and> rate_n config = GST_VIDEO_INFO_FPS_N vinfo
     \<and> rate_d config = GST_VIDEO_INFO_FPS_D vinfo
     \<and> (GST_VIDEO_INFO_FORMAT vinfo \<in> set (supported_formats c) \<longrightarrow>
          dims (dimension (info0 config)) =
            [c, GST_VIDEO_INFO_WIDTH vinfo, GST_VIDEO_INFO_HEIGHT vinfo, 1] @ replicate 12 0)
     \<and> (GST_VIDEO_INFO_FORMAT vinfo \<in> set (nchw_formats (gst_check_version_1_20 env) c) \<longrightarrow>
          dims (dimension (info0 config)) =
            [GST_VIDEO_INFO_WIDTH vinfo, GST_VIDEO_INFO_HEIGHT vinfo, c, 1] @ replicate 12 0)"
proof -
  let ?v = "gst_check_version_1_20 env"
  let ?f = "GST_VIDEO_INFO_FORMAT vinfo"
  let ?w = "GST_VIDEO_INFO_WIDTH vinfo"
  let ?h = "GST_VIDEO_INFO_HEIGHT vinfo"
  define cfg where "cfg = clear_info0_dims_from 4 (set_info0_dim 3 1
     (parse_video_format ?v ?f ?w ?h (set_num_tensors 1 gst_tensors_config_init)))"
  have cfg: "config = cfg\<lparr> rate_n := GST_VIDEO_INFO_FPS_N vinfo,
                              rate_d := GST_VIDEO_INFO_FPS_D vinfo \<rparr>"
    using assms
    by (auto simp: gst_tensor_converter_parse_video_def Let_def cfg_def
        split: if_splits)
  have i0: "info0 config = info0 cfg"
    by (simp add: cfg info0_def)
  have n: "num_tensors (info config) = 1" "format (info config) = NNS_TENSOR_FORMAT_STATIC"
    by (simp_all add: cfg cfg_def config_keeps parse_video_format_keeps
        gst_tensors_config_init_def gst_tensors_info_init_def)
  have r: "rate_n config = GST_VIDEO_INFO_FPS_N vinfo" "rate_d config = GST_VIDEO_INFO_FPS_D vinfo"
    by (simp_all add: cfg)
  have d1: "dims (dimension (info0 config)) = [c, ?w, ?h, 1] @ replicate 12 0"
    if "?f \<in> set (supported_formats c)"
    using that unfolding i0 cfg_def
    by (auto simp: supported_formats_def parse_video_format_def video_config_dims
        split: if_splits)
  have d2: "dims (dimension (info0 config)) = [?w, ?h, c, 1] @ replicate 12 0"
    if "?f \<in> set (nchw_formats ?v c)"
    using that unfolding i0 cfg_def
    by (auto simp: nchw_formats_def parse_video_format_def video_config_dims
        split: if_splits)
  from n r d1 d2 show ?thesis by blast
qed



text \<open>The theorem at an \<open>RGB\<close> capability of 640 by 480.\<close>

theorem parse_video_descriptor_witness:
  "fst (gst_tensor_converter_parse_video example_env gst_tensor_converter_init
          (example_video_caps GST_VIDEO_FORMAT_RGB 640 480 921600)) = True
   \<and> GST_VIDEO_FORMAT_RGB \<in> set (supported_formats 3)
   \<and> dims (dimension (info0 (snd (snd (gst_tensor_converter_parse_video example_env
          gst_tensor_converter_init (example_video_caps GST_VIDEO_FORMAT_RGB 640 480 921600))))))
        = [3, 640, 480, 1] @ replicate 12 0
   \<and> num_tensors (info (snd (snd (gst_tensor_converter_parse_video example_env
          gst_tensor_converter_init (example_video_caps GST_VIDEO_FORMAT_RGB 640 480 921600)))))
        = 1"
proof -
  let ?caps = "example_video_caps GST_VIDEO_FORMAT_RGB 640 480 921600"
  let ?r = "gst_tensor_converter_parse_video example_env
              (gst_tensor_converter_init :: GstTensorsConfig GstTensorConverter) ?caps"
  have vi: "gst_video_info_from_caps ?caps =
              Some (example_video_info GST_VIDEO_FORMAT_RGB 640 480 921600)"
    by (simp add: example_video_caps_def)
  have ok: "fst ?r = True"
    by (simp add: example_video_defs info0_simps info0_init gst_tensor_info_init_def)
  then have eq: "?r = (True, fst (snd ?r), snd (snd ?r))"
    by (simp add: prod_eq_iff)
  have fm: "GST_VIDEO_FORMAT_RGB \<in> set (supported_formats 3)"
    by (simp add: supported_formats_def)
  from parse_video_descriptor [OF vi eq, of 3] ok fm show ?thesis
    by (simp add: example_video_info_def)
qed

text \<open>
  C1 as stated fails for the planar formats: an \<open>RGBP\<close> capability of width 4 and
  height 2 is accepted, its component count is 3, and the dimension is \<open>[4, 2, 3, 1]\<close>,
  not \<open>[3, 4, 2, 1]\<close>.
\<close>

theorem parse_video_rgbp_counterexample:
  "fst (gst_tensor_converter_parse_video example_env gst_tensor_converter_init
          (example_video_caps GST_VIDEO_FORMAT_RGBP 4 2 24)) = True
   \<and> GST_VIDEO_FORMAT_RGBP \<in> set (nchw_formats (gst_check_version_1_20 example_env) 3)
   \<and> dims (dimension (info0 (snd (snd (gst_tensor_converter_parse_video example_env
          gst_tensor_converter_init (example_video_caps GST_VIDEO_FORMAT_RGBP 4 2 24))))))
        = [4, 2, 3, 1] @ replicate 12 0
   \<and> dims (dimension (info0 (snd (snd (gst_tensor_converter_parse_video example_env
          gst_tensor_converter_init (example_video_caps GST_VIDEO_FORMAT_RGBP 4 2 24))))))
        \<noteq> [3, 4, 2, 1] @ replicate 12 0"
  by (simp add: example_video_defs info0_simps info0_init gst_tensor_info_init_def
      nchw_formats_def dims_list NNS_TENSOR_RANK_LIMIT_def replicate_12)

lemma parse_video_keeps:
  "negotiated_eq (fst (snd (gst_tensor_converter_parse_video env self caps))) self"
  by (simp add: gst_tensor_converter_parse_video_def negotiated_eq_def Let_def
      split: option.splits)

lemma parse_audio_keeps:
  "negotiated_eq (fst (snd (gst_tensor_converter_parse_audio env self caps))) self"
  by (simp add: gst_tensor_converter_parse_audio_def negotiated_eq_def Let_def
      split: option.splits)

lemma parse_text_keeps:
  "negotiated_eq (fst (snd (gst_tensor_converter_parse_text env self caps))) self"
  by (simp add: gst_tensor_converter_parse_text_def negotiated_eq_def Let_def
      split: option.splits)

lemma parse_octet_keeps:
  "negotiated_eq (fst (snd (gst_tensor_converter_parse_octet env self caps))) self"
  by (simp add: gst_tensor_converter_parse_octet_def negotiated_eq_def Let_def
      split: option.splits prod.splits)

lemma parse_tensor_keeps:
  "negotiated_eq (fst (snd (gst_tensor_converter_parse_tensor env self caps))) self"
  by (simp add: gst_tensor_converter_parse_tensor_def negotiated_eq_def Let_def
      split: option.splits prod.splits)


lemma parse_custom_keeps:
  "negotiated_eq (fst (snd (gst_tensor_converter_parse_custom env self caps))) self"
  unfolding gst_tensor_converter_parse_custom_def negotiated_eq_def Let_def
  by (auto split: option.splits prod.splits)


lemma negotiated_eq_refl: "negotiated_eq self self"
  by (simp add: negotiated_eq_def)

lemma parse_caps_switch_keeps:
  "negotiated_eq (fst (snd (parse_caps_switch env self caps t))) self"
proof -
  have tag: "fst (snd (case r of (ok, s, c) \<Rightarrow> (ok, s, c, t', fd))) = fst (snd r)"
    for r :: "bool \<times> 'a GstTensorConverter \<times> GstTensorsConfig" and t' :: media_type
      and fd :: "nat option"
    by (cases r) simp
  show ?thesis
    unfolding parse_caps_switch_def Let_def
    by (simp add: tag negotiated_eq_refl parse_video_keeps parse_audio_keeps parse_text_keeps
        parse_octet_keeps parse_tensor_keeps parse_custom_keeps)
qed


subsection \<open>The outcomes of a negotiation\<close>

lemma parse_caps_cases:
  obtains
    (not_fixed) "\<not> gst_caps_is_fixed caps"
      "gst_tensor_converter_parse_caps env self caps = (False, self)"
  | (rejected) self1 where "negotiated_eq self1 self"
      "gst_tensor_converter_parse_caps env self caps = (False, self1)"
  | (mismatch) self1 where "negotiated_eq self1 self"
      "gst_tensors_info_validate env (tensors_info self)"
      "\<not> gst_tensors_info_is_equal env (tensors_info self) (info (parse_caps_derived env self caps))"
      "gst_tensor_converter_parse_caps env self caps = (False, self1)"
  | (accepted) self1 in_type where "negotiated_eq self1 self"
      "gst_tensors_config_validate env (parse_caps_derived env self caps)"
      "gst_tensors_info_validate env (tensors_info self) \<longrightarrow>
         gst_tensors_info_is_equal env (tensors_info self) (info (parse_caps_derived env self caps))"
      "gst_tensor_converter_parse_caps env self caps =
         (True, self1\<lparr> in_media_type := in_type, tensors_configured := True,
                       tensors_config := parse_caps_derived env self caps \<rparr>)"
proof -
  let ?t = "if mode self \<noteq> CONVERTER_MODE_NONE then NNS_MEDIA_ANY
            else gst_structure_get_media_type caps"
  obtain ok self1 config in_type frames_dim
    where sw: "parse_caps_switch env self caps ?t = (ok, self1, config, in_type, frames_dim)"
    by (cases "parse_caps_switch env self caps ?t") auto
  have keep: "negotiated_eq self1 self"
    using parse_caps_switch_keeps [of env self caps ?t] by (simp add: sw)
  have ti: "tensors_info self1 = tensors_info self"
    using keep by (simp add: negotiated_eq_def)
  have der: "parse_caps_derived env self caps =
      (case frames_dim of Some k \<Rightarrow> set_info0_dim k (frames_per_tensor self1) config
                        | None \<Rightarrow> config)"
    by (simp add: parse_caps_derived_def sw)
  show thesis
  proof (cases "gst_caps_is_fixed caps")
    case False
    then show ?thesis
      using not_fixed by (simp add: gst_tensor_converter_parse_caps_def)
  next
    case fixed: True
    show ?thesis
    proof (cases ok)
      case False
      then have "gst_tensor_converter_parse_caps env self caps = (False, self1)"
        using fixed by (simp add: gst_tensor_converter_parse_caps_def sw)
      then show ?thesis using rejected keep by blast
    next
      case ok: True
      show ?thesis
      proof (cases "gst_tensors_config_validate env (parse_caps_derived env self caps)")
        case False
        then have "gst_tensor_converter_parse_caps env self caps = (False, self1)"
          using fixed ok by (simp add: gst_tensor_converter_parse_caps_def sw der)
        then show ?thesis using rejected keep by blast
      next
        case valid: True
        show ?thesis
        proof (cases "gst_tensors_info_validate env (tensors_info self)
            \<and> \<not> gst_tensors_info_is_equal env (tensors_info self)
                  (info (parse_caps_derived env self caps))")
          case True
          then have "gst_tensor_converter_parse_caps env self caps = (False, self1)"
            using fixed ok valid by (simp add: gst_tensor_converter_parse_caps_def sw der ti)
          then show ?thesis using mismatch keep True by blast
        next
          case False
          then have "gst_tensor_converter_parse_caps env self caps =
             (True, self1\<lparr> in_media_type := in_type, tensors_configured := True,
                           tensors_config := parse_caps_derived env self caps \<rparr>)"
            using fixed ok valid by (auto simp: gst_tensor_converter_parse_caps_def sw der ti)
          then show ?thesis using accepted keep valid False by blast
        qed
      qed
    qed
  qed
qed

subsection \<open>C7: a user-declared tensor info is authoritative\<close>

text \<open>
  C7. When the user-declared tensor info validates, \<open>gst_tensor_converter_parse_caps\<close>
  never changes it; it succeeds only with the derived config committed and equal
  (\<open>gst_tensors_info_is_equal\<close>) to the user-declared info, a derived config that is not
  equal makes it fail, and a failure leaves the negotiated config as it was.
\<close>

theorem parse_caps_user_info:
  assumes "gst_tensors_info_validate env (tensors_info self)"
  shows "tensors_info (snd (gst_tensor_converter_parse_caps env self caps)) = tensors_info self
     \<and> (fst (gst_tensor_converter_parse_caps env self caps) \<longrightarrow>
          tensors_config (snd (gst_tensor_converter_parse_caps env self caps))
            = parse_caps_derived env self caps
          \<and> gst_tensors_info_is_equal env (tensors_info self)
               (info (tensors_config (snd (gst_tensor_converter_parse_caps env self caps)))))
     \<and> (\<not> gst_tensors_info_is_equal env (tensors_info self)
              (info (parse_caps_derived env self caps)) \<longrightarrow>
          \<not> fst (gst_tensor_converter_parse_caps env self caps))
     \<and> (\<not> fst (gst_tensor_converter_parse_caps env self caps) \<longrightarrow>
          tensors_config (snd (gst_tensor_converter_parse_caps env self caps))
            = tensors_config self)"
  using assms
  by (cases rule: parse_caps_cases [of caps env self]) (auto simp: negotiated_eq_def)


lemma example_self_reads:
  "tensors_info (example_self ti) = ti"
  "frames_per_tensor (example_self ti) = 1"
  "mode (example_self ti) = CONVERTER_MODE_NONE"
  "remove_padding (example_self ti) = False"
  "frame_size (example_self ti) = 0"
  "tensors_configured (example_self ti) = False"
  "tensors_config (example_self ti) = gst_tensors_config_init"
  "in_media_type (example_self ti) = NNS_MEDIA_INVALID"
  "externalConverter (example_self ti) = None"
  "srcpad (example_self ti) = \<lparr> current_caps = None, sent = [] \<rparr>"
  by (simp_all add: example_self_def gst_tensor_converter_init_def gst_tensor_converter_reset_def)

lemma example_image_info_valid: "ex_tensors_info_validate (example_image_info 3 640 480)"
  by (simp add: example_image_info_def ex_tensors_info_validate_def gst_tensors_info_init_def
      ex_tensor_info_validate_def ex_dimension_is_valid_def dims_list)

lemma example_video_caps_reads:
  "gst_caps_is_fixed (example_video_caps f w h sz) = True"
  "gst_structure_get_media_type (example_video_caps f w h sz) = NNS_VIDEO"
  "gst_video_info_from_caps (example_video_caps f w h sz) = Some (example_video_info f w h sz)"
  by (simp_all add: example_video_caps_def)

lemma example_rgb_derived:
  "parse_caps_derived example_env (example_self ti)
     (example_video_caps GST_VIDEO_FORMAT_RGB w h sz) =
   set_info0_dim 3 1 ((clear_info0_dims_from 4 (set_info0_dim 3 1 (set_info0_dim 2 h
     (set_info0_dim 1 w (set_info0_dim 0 3 (set_info0_type NNS_UINT8
        (set_num_tensors 1 gst_tensors_config_init)))))))\<lparr> rate_n := 30, rate_d := 1 \<rparr>)"
  by (simp add: parse_caps_derived_def parse_caps_switch_def example_self_reads
      example_video_caps_reads example_env_reads gst_tensor_converter_parse_video_def
      gst_tensor_converter_video_stride_def parse_video_format_def example_video_info_def
      info0_simps info0_init gst_tensor_info_init_def Let_def)


subsection \<open>Evaluating the example negotiation\<close>

lemma unat_one_upt: "[0 ..< unat (1 :: 32 word)] = [0]"
  by simp

lemma example_rgb_derived_reads:
  "num_tensors (info (parse_caps_derived example_env (example_self ti)
      (example_video_caps GST_VIDEO_FORMAT_RGB w h sz))) = 1"
  "format (info (parse_caps_derived example_env (example_self ti)
      (example_video_caps GST_VIDEO_FORMAT_RGB w h sz))) = NNS_TENSOR_FORMAT_STATIC"
  "rate_n (parse_caps_derived example_env (example_self ti)
      (example_video_caps GST_VIDEO_FORMAT_RGB w h sz)) = 30"
  "rate_d (parse_caps_derived example_env (example_self ti)
      (example_video_caps GST_VIDEO_FORMAT_RGB w h sz)) = 1"
  "type (info0 (parse_caps_derived example_env (example_self ti)
      (example_video_caps GST_VIDEO_FORMAT_RGB w h sz))) = NNS_UINT8"
  "dims (dimension (info0 (parse_caps_derived example_env (example_self ti)
      (example_video_caps GST_VIDEO_FORMAT_RGB w h sz)))) = [3, w, h, 1] @ replicate 12 0"
  by (simp_all add: example_rgb_derived config_keeps info0_simps info0_init
      gst_tensors_config_init_def gst_tensors_info_init_def gst_tensor_info_init_def
      dims_list replicate_12 NNS_TENSOR_RANK_LIMIT_def)

lemma example_image_info_reads:
  "num_tensors (example_image_info c w h) = 1"
  "format (example_image_info c w h) = NNS_TENSOR_FORMAT_STATIC"
  "type (info_arr (example_image_info c w h) 0) = NNS_UINT8"
  "dims (dimension (info_arr (example_image_info c w h) 0)) = [c, w, h, 1] @ replicate 12 0"
  by (simp_all add: example_image_info_def gst_tensors_info_init_def dims_list replicate_12)

lemma example_rgb_640_accept:
  "gst_tensors_config_validate example_env (parse_caps_derived example_env (example_self ti)
      (example_video_caps GST_VIDEO_FORMAT_RGB 640 480 sz))"
  "gst_tensors_info_is_equal example_env (example_image_info 3 640 480)
     (info (parse_caps_derived example_env (example_self ti)
        (example_video_caps GST_VIDEO_FORMAT_RGB 640 480 sz)))"
  "\<not> gst_tensors_info_is_equal example_env (example_image_info 3 640 480)
     (info (parse_caps_derived example_env (example_self ti)
        (example_video_caps GST_VIDEO_FORMAT_RGB 320 240 sz)))"
  using example_image_info_valid
  by (simp_all add: example_env_reads ex_tensors_config_validate_def ex_tensors_info_validate_def
      ex_tensors_info_is_equal_def ex_tensor_info_is_equal_def ex_tensor_info_validate_def
      ex_dimension_is_valid_def example_rgb_derived_reads example_image_info_reads
      info0_def [symmetric] replicate_12)


lemma example_rgb_ok:
  "4 dvd sint w \<Longrightarrow>
   fst (parse_caps_switch example_env (example_self ti)
      (example_video_caps GST_VIDEO_FORMAT_RGB w h sz) NNS_VIDEO)"
  by (simp add: parse_caps_switch_def example_self_reads
      example_video_caps_reads example_env_reads gst_tensor_converter_parse_video_def
      gst_tensor_converter_video_stride_def parse_video_format_def example_video_info_def
      info0_simps info0_init gst_tensor_info_init_def Let_def)

lemma parse_caps_accepts:
  assumes "gst_caps_is_fixed caps"
    and "fst (parse_caps_switch env self caps
            (if mode self \<noteq> CONVERTER_MODE_NONE then NNS_MEDIA_ANY
             else gst_structure_get_media_type caps))"
    and "gst_tensors_config_validate env (parse_caps_derived env self caps)"
    and "gst_tensors_info_validate env (tensors_info self) \<longrightarrow>
           gst_tensors_info_is_equal env (tensors_info self) (info (parse_caps_derived env self caps))"
  shows "fst (gst_tensor_converter_parse_caps env self caps)"
proof -
  let ?t = "if mode self \<noteq> CONVERTER_MODE_NONE then NNS_MEDIA_ANY
            else gst_structure_get_media_type caps"
  obtain ok self1 config in_type frames_dim
    where sw: "parse_caps_switch env self caps ?t = (ok, self1, config, in_type, frames_dim)"
    by (cases "parse_caps_switch env self caps ?t") auto
  have ti: "tensors_info self1 = tensors_info self"
    using parse_caps_switch_keeps [of env self caps ?t] by (simp add: sw negotiated_eq_def)
  have der: "parse_caps_derived env self caps =
      (case frames_dim of Some k \<Rightarrow> set_info0_dim k (frames_per_tensor self1) config
                        | None \<Rightarrow> config)"
    by (simp add: parse_caps_derived_def sw)
  from assms show ?thesis
    by (auto simp: gst_tensor_converter_parse_caps_def sw der ti)
qed

text \<open>
  The theorem at a user-declared tensor \<open>3:640:480:1\<close> of bytes: an \<open>RGB\<close> capability
  of 640 by 480 is accepted, one of 320 by 240 is rejected.
\<close>

theorem parse_caps_user_info_witness:
  "gst_tensors_info_validate example_env (tensors_info (example_self (example_image_info 3 640 480)))
   \<and> fst (gst_tensor_converter_parse_caps example_env (example_self (example_image_info 3 640 480))
            (example_video_caps GST_VIDEO_FORMAT_RGB 640 480 921600))
   \<and> gst_tensors_info_is_equal example_env (example_image_info 3 640 480)
        (info (tensors_config (snd (gst_tensor_converter_parse_caps example_env
           (example_self (example_image_info 3 640 480))
           (example_video_caps GST_VIDEO_FORMAT_RGB 640 480 921600)))))
   \<and> \<not> fst (gst_tensor_converter_parse_caps example_env (example_self (example_image_info 3 640 480))
            (example_video_caps GST_VIDEO_FORMAT_RGB 320 240 230400))
   \<and> tensors_config (snd (gst_tensor_converter_parse_caps example_env
           (example_self (example_image_info 3 640 480))
           (example_video_caps GST_VIDEO_FORMAT_RGB 320 240 230400))) = gst_tensors_config_init"
proof -
  let ?self = "example_self (example_image_info 3 640 480)"
  have v: "gst_tensors_info_validate example_env (tensors_info ?self)"
    by (simp add: example_env_reads example_self_reads example_image_info_valid)
  have ok: "fst (gst_tensor_converter_parse_caps example_env ?self
            (example_video_caps GST_VIDEO_FORMAT_RGB 640 480 921600))"
    by (rule parse_caps_accepts)
       (simp_all add: example_video_caps_reads example_self_reads example_rgb_ok
          example_rgb_640_accept)
  from parse_caps_user_info [OF v, of "example_video_caps GST_VIDEO_FORMAT_RGB 640 480 921600"]
       parse_caps_user_info [OF v, of "example_video_caps GST_VIDEO_FORMAT_RGB 320 240 230400"]
       v ok
  show ?thesis
    by (simp add: example_self_reads example_rgb_640_accept)
qed

subsection \<open>C10: an empty buffer\<close>

text \<open>
  C10. For a buffer whose total size is zero, \<open>gst_tensor_converter_chain\<close> returns
  \<open>GST_FLOW_ERROR\<close> at once: the element is unchanged, so nothing went into an adapter
  and nothing was sent through the source pad.
\<close>

theorem chain_empty_buffer:
  assumes "concat (memories buf) = []"
  shows "gst_tensor_converter_chain env self buf = Inr (GST_FLOW_ERROR, self)"
proof -
  have "gst_buffer_get_size buf = 0"
    by (simp only: gst_buffer_get_size_def assms) simp
  then show ?thesis
    by (simp add: gst_tensor_converter_chain_def)
qed

text \<open>The theorem at a buffer without memory, for the element as constructed.\<close>

theorem chain_empty_buffer_witness:
  "concat (memories gst_buffer_new) = []
   \<and> gst_tensor_converter_chain example_env gst_tensor_converter_init gst_buffer_new
       = Inr (GST_FLOW_ERROR, gst_tensor_converter_init)"
proof -
  have e: "concat (memories gst_buffer_new) = []"
    by (simp add: gst_buffer_new_def)
  from chain_empty_buffer [OF e, of example_env gst_tensor_converter_init]
  show ?thesis by (intro conjI) (rule e)
qed

subsection \<open>C6: publishing the config is idempotent\<close>

text \<open>
  C6. \<open>gst_tensor_converter_update_caps\<close> sets the caps of the source pad only when the
  caps computed from the config differ from the current ones. When they are equal the
  element is unchanged; a second call right after a first never sets the caps again,
  so two calls in succession set the caps exactly once when the config was not yet
  published, and not at all when it was.
\<close>

theorem update_caps_idempotent:
  "gst_tensor_converter_update_caps env (gst_tensor_converter_update_caps env self)
     = gst_tensor_converter_update_caps env self
   \<and> (current_caps (srcpad self)
         = Some (gst_tensor_pad_caps_from_config env (tensors_config self)) \<longrightarrow>
        gst_tensor_converter_update_caps env self = self)
   \<and> caps_updates (gst_tensor_converter_update_caps env
         (gst_tensor_converter_update_caps env self))
       = caps_updates self
         + (if current_caps (srcpad self)
                = Some (gst_tensor_pad_caps_from_config env (tensors_config self))
            then 0 else 1)"
  by (simp add: gst_tensor_converter_update_caps_def gst_pad_set_caps_def caps_updates_def
      Let_def)

text \<open>
  The theorem for the element as constructed, whose source pad has no caps yet: two
  calls set the caps once.
\<close>

theorem update_caps_idempotent_witness:
  "caps_updates (gst_tensor_converter_update_caps example_env
      (gst_tensor_converter_update_caps example_env gst_tensor_converter_init)) = 1
   \<and> gst_tensor_converter_update_caps example_env
        (gst_tensor_converter_update_caps example_env gst_tensor_converter_init)
      = gst_tensor_converter_update_caps example_env gst_tensor_converter_init"
proof -
  have c: "current_caps (srcpad (gst_tensor_converter_init :: GstTensorsConfig GstTensorConverter))
             = None"
    by (simp add: gst_tensor_converter_init_def gst_tensor_converter_reset_def)
  have n: "caps_updates (gst_tensor_converter_init :: GstTensorsConfig GstTensorConverter) = 0"
    by (simp add: caps_updates_def gst_tensor_converter_init_def gst_tensor_converter_reset_def)
  note t = update_caps_idempotent [of example_env gst_tensor_converter_init]
  have a: "gst_tensor_converter_update_caps example_env
             (gst_tensor_converter_update_caps example_env gst_tensor_converter_init)
           = gst_tensor_converter_update_caps example_env gst_tensor_converter_init"
    by (rule conjunct1 [OF t])
  have b: "caps_updates (gst_tensor_converter_update_caps example_env
              (gst_tensor_converter_update_caps example_env gst_tensor_converter_init)) = 1"
    using conjunct2 [OF conjunct2 [OF t]] by (simp add: c n)
  show ?thesis by (intro conjI) (rule b, rule a)
qed

subsection \<open>Evaluating the example negotiation, continued\<close>

lemma example_rgb_switch:
  "4 dvd sint w \<Longrightarrow>
   parse_caps_switch example_env (example_self ti)
      (example_video_caps GST_VIDEO_FORMAT_RGB w h sz) NNS_VIDEO =
   (True, (example_self ti)\<lparr> frame_size := sz \<rparr>,
    (clear_info0_dims_from 4 (set_info0_dim 3 1 (set_info0_dim 2 h
       (set_info0_dim 1 w (set_info0_dim 0 3 (set_info0_type NNS_UINT8
          (set_num_tensors 1 gst_tensors_config_init)))))))\<lparr> rate_n := 30, rate_d := 1 \<rparr>,
    NNS_VIDEO, Some 3)"
  by (simp add: parse_caps_switch_def example_self_reads
      example_video_caps_reads example_env_reads gst_tensor_converter_parse_video_def
      gst_tensor_converter_video_stride_def parse_video_format_def example_video_info_def
      info0_simps info0_init gst_tensor_info_init_def Let_def)

lemma example_parse_caps_640:
  "gst_tensor_converter_parse_caps example_env (example_self (example_image_info 3 640 480))
     (example_video_caps GST_VIDEO_FORMAT_RGB 640 480 921600) =
   (True, (example_self (example_image_info 3 640 480))
      \<lparr> frame_size := 921600, in_media_type := NNS_VIDEO, tensors_configured := True,
        tensors_config := parse_caps_derived example_env
           (example_self (example_image_info 3 640 480))
           (example_video_caps GST_VIDEO_FORMAT_RGB 640 480 921600) \<rparr>)"
  using example_rgb_640_accept [of "example_image_info 3 640 480" 921600]
  by (simp add: gst_tensor_converter_parse_caps_def example_video_caps_reads example_self_reads
      example_rgb_switch example_rgb_derived)

lemma example_negotiated_eq:
  "example_negotiated =
     gst_tensor_converter_update_caps example_env
       ((example_self (example_image_info 3 640 480))
          \<lparr> frame_size := 921600, in_media_type := NNS_VIDEO, tensors_configured := True,
            tensors_config := parse_caps_derived example_env
               (example_self (example_image_info 3 640 480))
               (example_video_caps GST_VIDEO_FORMAT_RGB 640 480 921600) \<rparr>)"
  by (simp add: example_negotiated_def gst_tensor_converter_sink_event_caps_def
      example_parse_caps_640)

lemma example_negotiated_reads:
  "tensors_info example_negotiated = example_image_info 3 640 480"
  "frames_per_tensor example_negotiated = 1"
  "mode example_negotiated = CONVERTER_MODE_NONE"
  "remove_padding example_negotiated = False"
  "frame_size example_negotiated = 921600"
  "tensors_configured example_negotiated = True"
  "in_media_type example_negotiated = NNS_VIDEO"
  "tensors_config example_negotiated = parse_caps_derived example_env
      (example_self (example_image_info 3 640 480))
      (example_video_caps GST_VIDEO_FORMAT_RGB 640 480 921600)"
  by (simp_all add: example_negotiated_eq gst_tensor_converter_update_caps_def Let_def
      example_self_reads)

lemma example_parse_caps_rgbp:
  "gst_tensor_converter_parse_caps example_env example_negotiated
     (example_video_caps GST_VIDEO_FORMAT_RGBP 5 4 96) =
   (False, example_negotiated\<lparr> remove_padding := True \<rparr>)"
  by (simp add: gst_tensor_converter_parse_caps_def parse_caps_switch_def
      example_video_caps_reads example_negotiated_reads example_env_reads
      gst_tensor_converter_parse_video_def gst_tensor_converter_video_stride_def
      example_video_info_def Let_def)

lemma example_parse_caps_320:
  "gst_tensor_converter_parse_caps example_env example_negotiated
     (example_video_caps GST_VIDEO_FORMAT_RGB 320 240 230400) =
   (False, example_negotiated\<lparr> frame_size := 230400 \<rparr>)"
proof -
  have sw: "parse_caps_switch example_env example_negotiated
      (example_video_caps GST_VIDEO_FORMAT_RGB 320 240 230400) NNS_VIDEO =
    (True, example_negotiated\<lparr> frame_size := 230400 \<rparr>,
     (clear_info0_dims_from 4 (set_info0_dim 3 1 (set_info0_dim 2 240
       (set_info0_dim 1 320 (set_info0_dim 0 3 (set_info0_type NNS_UINT8
          (set_num_tensors 1 gst_tensors_config_init)))))))\<lparr> rate_n := 30, rate_d := 1 \<rparr>,
     NNS_VIDEO, Some 3)"
    by (simp add: parse_caps_switch_def example_negotiated_reads
      example_video_caps_reads example_env_reads gst_tensor_converter_parse_video_def
      gst_tensor_converter_video_stride_def parse_video_format_def example_video_info_def
      info0_simps info0_init gst_tensor_info_init_def Let_def)
  have ne: "\<not> ex_tensors_info_is_equal (example_image_info 3 640 480)
      (info (set_info0_dim 3 1
       ((clear_info0_dims_from 4 (set_info0_dim 3 1 (set_info0_dim 2 240
         (set_info0_dim 1 320 (set_info0_dim 0 3 (set_info0_type NNS_UINT8
          (set_num_tensors 1 gst_tensors_config_init)))))))\<lparr> rate_n := 30, rate_d := 1 \<rparr>)))"
    using example_rgb_640_accept(3) [of "example_image_info 3 640 480" 230400]
    by (simp add: example_rgb_derived example_env_reads)
  show ?thesis
    using ne example_image_info_valid
    by (simp add: gst_tensor_converter_parse_caps_def example_video_caps_reads
        example_negotiated_reads sw example_env_reads Let_def)
qed


lemma example_rgb_derived_dimension:
  "dimension (info0 (parse_caps_derived example_env (example_self ti)
      (example_video_caps GST_VIDEO_FORMAT_RGB w h sz))) 0 = 3"
  "dimension (info0 (parse_caps_derived example_env (example_self ti)
      (example_video_caps GST_VIDEO_FORMAT_RGB w h sz))) (Suc 0) = w"
  "dimension (info0 (parse_caps_derived example_env (example_self ti)
      (example_video_caps GST_VIDEO_FORMAT_RGB w h sz))) 2 = h"
  by (simp_all add: example_rgb_derived info0_simps)

lemma example_frame_reads:
  "gst_buffer_get_size (example_frame 921600) = 921600"
  "mappable (example_frame n) = True"
  by (simp_all add: example_frame_def gst_buffer_get_size_def gst_buffer_new_def)

lemma example_chain_after_rgbp:
  "gst_tensor_converter_chain example_env (example_negotiated\<lparr> remove_padding := True \<rparr>)
     (example_frame 921600) = Inl Assertion_Failed"
  by (simp add: gst_tensor_converter_chain_def chain_switch_def chain_case_video_def
      example_frame_reads example_negotiated_reads example_rgb_derived_dimension
      example_rgb_derived_reads Let_def)

lemma example_chain_after_320:
  "gst_tensor_converter_chain example_env (example_negotiated\<lparr> frame_size := 230400 \<rparr>)
     (example_frame 921600) = Inl Assertion_Failed"
  by (simp add: gst_tensor_converter_chain_def chain_switch_def chain_case_video_def
      example_frame_reads example_negotiated_reads example_rgb_derived_dimension
      example_rgb_derived_reads Let_def)


lemma example_negotiated_reads2:
  "need_segment example_negotiated = False"
  "set_timestamp example_negotiated = True"
  "do_not_append_header example_negotiated = False"
  "current_caps (srcpad example_negotiated) = Some (parse_caps_derived example_env
      (example_self (example_image_info 3 640 480))
      (example_video_caps GST_VIDEO_FORMAT_RGB 640 480 921600))"
  by (simp_all add: example_negotiated_eq gst_tensor_converter_update_caps_def Let_def
      example_self_reads example_env_reads gst_pad_set_caps_def example_self_def
      gst_tensor_converter_init_def gst_tensor_converter_reset_def)

lemma example_chain_negotiated:
  "chain_flow (gst_tensor_converter_chain example_env example_negotiated (example_frame 921600))
     = Some GST_FLOW_OK"
  by (simp add: gst_tensor_converter_chain_def chain_switch_def chain_case_video_def
      example_frame_reads example_negotiated_reads example_negotiated_reads2
      example_rgb_derived_dimension example_rgb_derived_reads Let_def chain_flow_def
      gst_tensor_converter_chain_segment_def gst_tensor_converter_chain_timestamp_def
      gst_tensor_converter_chain_push_def gst_tensor_pad_caps_is_flexible_def
      example_env_reads gst_tensors_config_is_flexible_def split: prod.splits)

subsection \<open>C4: a failed negotiation and the state of the element\<close>

text \<open>
  A failed negotiation keeps the negotiated config, the media type, the configured
  flag and the user-declared info.
\<close>

lemma parse_caps_failure_keeps:
  assumes "\<not> fst (gst_tensor_converter_parse_caps env self caps)"
  shows "negotiated_eq (snd (gst_tensor_converter_parse_caps env self caps)) self"
  using assms
  by (cases rule: parse_caps_cases [of caps env self]) (auto simp: negotiated_eq_refl)

text \<open>
  C4 fails on the code for the frame size and the depadding flag: the parsers write
  \<open>self->frame_size\<close> and \<open>self->remove_padding\<close> before the negotiation is known to
  succeed. The element has negotiated an \<open>RGB\<close> stream of 640 by 480 (no depadding,
  frames of 921600 bytes) and pushes a frame of it. A caps event for \<open>RGBP\<close> of width 5
  fails in the video parser and leaves the depadding flag set; a caps event for \<open>RGB\<close>
  of 320 by 240 fails at the comparison with the user-declared info and leaves the
  frame size 230400. After either failure the config is still that of the 640 by 480
  stream, and a frame of that stream stops at an assertion of the chain function
  (\<open>g_assert (offset % 4)\<close>, \<open>g_assert ((buf_size / self->frame_size) == 1)\<close>).
\<close>

theorem failed_negotiation_changes_element:
  "tensors_configured example_negotiated
   \<and> \<not> remove_padding example_negotiated
   \<and> frame_size example_negotiated = 921600
   \<and> chain_flow (gst_tensor_converter_chain example_env example_negotiated
        (example_frame 921600)) = Some GST_FLOW_OK
   \<and> gst_tensor_converter_parse_caps example_env example_negotiated
        (example_video_caps GST_VIDEO_FORMAT_RGBP 5 4 96)
      = (False, example_negotiated\<lparr> remove_padding := True \<rparr>)
   \<and> gst_tensor_converter_chain example_env
        (snd (gst_tensor_converter_parse_caps example_env example_negotiated
           (example_video_caps GST_VIDEO_FORMAT_RGBP 5 4 96)))
        (example_frame 921600) = Inl Assertion_Failed
   \<and> gst_tensor_converter_parse_caps example_env example_negotiated
        (example_video_caps GST_VIDEO_FORMAT_RGB 320 240 230400)
      = (False, example_negotiated\<lparr> frame_size := 230400 \<rparr>)
   \<and> gst_tensor_converter_chain example_env
        (snd (gst_tensor_converter_parse_caps example_env example_negotiated
           (example_video_caps GST_VIDEO_FORMAT_RGB 320 240 230400)))
        (example_frame 921600) = Inl Assertion_Failed"
  by (simp add: example_negotiated_reads example_chain_negotiated example_parse_caps_rgbp
      example_parse_caps_320 example_chain_after_rgbp example_chain_after_320)

subsection \<open>C5: octet streams and frames-per-tensor\<close>

text \<open>
  C5, as amended. With \<open>frames-per-tensor > 1\<close> the octet parser fails, and with it the
  negotiation of an octet capability, whenever the user-declared info validates and
  has more than one tensor (so for two tensors and two frames), and whenever the
  user-declared info does not validate and the peer of the source pad answers with a
  flexible config or with a valid config of more than one tensor. On this failure the
  element is unchanged.
\<close>

theorem parse_octet_frames_conflict:
  assumes "1 < frames_per_tensor self"
    and "(gst_tensors_info_validate env (tensors_info self) \<and> 1 < num_tensors (tensors_info self))
       \<or> (\<not> gst_tensors_info_validate env (tensors_info self)
          \<and> peer_ok (gst_tensors_config_from_peer env)
          \<and> (gst_tensors_config_is_flexible (peer_config (gst_tensors_config_from_peer env))
             \<or> (gst_tensors_info_validate env (info (peer_config (gst_tensors_config_from_peer env)))
                \<and> 1 < num_tensors (info (peer_config (gst_tensors_config_from_peer env))))))"
  shows "gst_tensor_converter_parse_octet env self caps = (False, self, gst_tensors_config_init)
     \<and> (mode self = CONVERTER_MODE_NONE \<and> gst_structure_get_media_type caps = NNS_OCTET \<longrightarrow>
          gst_tensor_converter_parse_caps env self caps = (False, self))"
proof -
  have oct: "gst_tensor_converter_parse_octet env self caps = (False, self, gst_tensors_config_init)"
    using assms
    by (auto simp: gst_tensor_converter_parse_octet_def octet_peer_info_def Let_def)
  then show ?thesis
    by (simp add: gst_tensor_converter_parse_caps_def parse_caps_switch_def)
qed


lemma example_bytes_info_valid:
  "n \<noteq> 0 \<Longrightarrow> ex_tensors_info_validate (example_bytes_info n)"
  "m \<noteq> 0 \<Longrightarrow> n \<noteq> 0 \<Longrightarrow> ex_tensors_info_validate (example_two_bytes_info m n)"
  by (simp_all add: example_bytes_info_def example_two_bytes_info_def
      ex_tensors_info_validate_def gst_tensors_info_init_def ex_tensor_info_validate_def
      ex_dimension_is_valid_def dims_list upt_rec)

lemma example_bytes_info_reads:
  "num_tensors (example_bytes_info n) = 1"
  "format (example_bytes_info n) = NNS_TENSOR_FORMAT_STATIC"
  "num_tensors (example_two_bytes_info m n) = 2"
  "format (example_two_bytes_info m n) = NNS_TENSOR_FORMAT_STATIC"
  by (simp_all add: example_bytes_info_def example_two_bytes_info_def gst_tensors_info_init_def)

text \<open>
  The theorem for two user-declared tensors of 3 and 5 bytes and two frames per
  tensor.
\<close>

theorem parse_octet_frames_conflict_witness:
  "1 < frames_per_tensor ((example_self (example_two_bytes_info 3 5))\<lparr> frames_per_tensor := 2 \<rparr>)
   \<and> gst_tensors_info_validate example_env
        (tensors_info ((example_self (example_two_bytes_info 3 5))\<lparr> frames_per_tensor := 2 \<rparr>))
   \<and> num_tensors (tensors_info
        ((example_self (example_two_bytes_info 3 5))\<lparr> frames_per_tensor := 2 \<rparr>)) = 2
   \<and> gst_tensor_converter_parse_octet example_env
        ((example_self (example_two_bytes_info 3 5))\<lparr> frames_per_tensor := 2 \<rparr>)
        example_octet_caps
      = (False, (example_self (example_two_bytes_info 3 5))\<lparr> frames_per_tensor := 2 \<rparr>,
         gst_tensors_config_init)
   \<and> gst_tensor_converter_parse_caps example_env
        ((example_self (example_two_bytes_info 3 5))\<lparr> frames_per_tensor := 2 \<rparr>)
        example_octet_caps
      = (False, (example_self (example_two_bytes_info 3 5))\<lparr> frames_per_tensor := 2 \<rparr>)"
proof -
  let ?self = "(example_self (example_two_bytes_info 3 5))\<lparr> frames_per_tensor := 2 \<rparr>"
  have f: "1 < frames_per_tensor ?self"
    by simp
  have v: "gst_tensors_info_validate example_env (tensors_info ?self)"
    by (simp add: example_env_reads example_self_reads example_bytes_info_valid)
  have n: "num_tensors (tensors_info ?self) = 2"
    by (simp add: example_self_reads example_bytes_info_reads)
  have m: "mode ?self = CONVERTER_MODE_NONE"
    "gst_structure_get_media_type example_octet_caps = NNS_OCTET"
    by (simp_all add: example_self_reads example_octet_caps_def)
  have c: "(gst_tensors_info_validate example_env (tensors_info ?self)
            \<and> 1 < num_tensors (tensors_info ?self))
       \<or> (\<not> gst_tensors_info_validate example_env (tensors_info ?self)
          \<and> peer_ok (gst_tensors_config_from_peer example_env)
          \<and> (gst_tensors_config_is_flexible (peer_config (gst_tensors_config_from_peer example_env))
             \<or> (gst_tensors_info_validate example_env
                   (info (peer_config (gst_tensors_config_from_peer example_env)))
                \<and> 1 < num_tensors (info (peer_config (gst_tensors_config_from_peer example_env))))))"
    using v n by simp
  from parse_octet_frames_conflict [OF f c, of example_octet_caps] m f v n
  show ?thesis by simp
qed

text \<open>
  C5 as stated fails for a flexible downstream descriptor next to a user-declared
  info: with two frames per tensor, a valid user-declared tensor of 30 bytes and a
  peer that accepts flexible tensors, the octet parser does not ask the peer, and the
  negotiation succeeds.
\<close>

theorem parse_octet_flexible_peer_counterexample:
  "1 < frames_per_tensor ((example_self (example_bytes_info 30))\<lparr> frames_per_tensor := 2 \<rparr>)
   \<and> peer_ok (gst_tensors_config_from_peer example_env_flexible)
   \<and> gst_tensors_config_is_flexible (peer_config (gst_tensors_config_from_peer example_env_flexible))
   \<and> gst_structure_get_media_type example_octet_caps = NNS_OCTET
   \<and> fst (gst_tensor_converter_parse_octet example_env_flexible
        ((example_self (example_bytes_info 30))\<lparr> frames_per_tensor := 2 \<rparr>) example_octet_caps)
   \<and> fst (gst_tensor_converter_parse_caps example_env_flexible
        ((example_self (example_bytes_info 30))\<lparr> frames_per_tensor := 2 \<rparr>) example_octet_caps)"
proof -
  let ?self = "(example_self (example_bytes_info 30))\<lparr> frames_per_tensor := 2 \<rparr>"
  have env: "gst_tensors_info_validate example_env_flexible = ex_tensors_info_validate"
    "gst_tensors_config_validate example_env_flexible = ex_tensors_config_validate"
    "gst_tensors_info_is_equal example_env_flexible = ex_tensors_info_is_equal"
    "gst_tensors_info_get_size example_env_flexible = ex_tensors_info_get_size"
    "gst_tensors_config_from_peer example_env_flexible = example_flexible_peer"
    by (simp_all add: example_env_flexible_def example_env_def)
  have v: "ex_tensors_info_validate (example_bytes_info 30)"
    by (simp add: example_bytes_info_valid)
  have eq: "ex_tensors_info_is_equal (example_bytes_info 30) (example_bytes_info 30)"
    using v by (simp add: ex_tensors_info_is_equal_def ex_tensor_info_is_equal_def
        example_bytes_info_reads)
  have oct: "gst_tensor_converter_parse_octet example_env_flexible ?self example_octet_caps =
      (True, ?self\<lparr> frame_size := ex_tensors_info_get_size (example_bytes_info 30) \<rparr>,
       gst_tensors_config_init\<lparr> rate_n := 0, rate_d := 1, info := example_bytes_info 30 \<rparr>)"
    using v
    by (simp add: gst_tensor_converter_parse_octet_def env example_self_reads Let_def
        set_framerate_from_structure_def example_octet_caps_def example_bytes_info_reads)
  have caps: "fst (gst_tensor_converter_parse_caps example_env_flexible ?self example_octet_caps)"
    using v eq
    by (simp add: gst_tensor_converter_parse_caps_def parse_caps_switch_def oct env
        example_self_reads ex_tensors_config_validate_def Let_def)
       (simp add: example_octet_caps_def)
  have o1: "fst (gst_tensor_converter_parse_octet example_env_flexible ?self example_octet_caps)"
    by (simp add: oct)
  have p: "peer_ok (gst_tensors_config_from_peer example_env_flexible)"
    "gst_tensors_config_is_flexible (peer_config (gst_tensors_config_from_peer example_env_flexible))"
    "gst_structure_get_media_type example_octet_caps = NNS_OCTET"
    "1 < frames_per_tensor ?self"
    by (simp_all add: env example_flexible_peer_def gst_tensors_config_is_flexible_def
        set_format_def example_octet_caps_def)
  show ?thesis
    by (intro conjI p o1 caps)
qed

subsection \<open>C3: a flexible buffer with a payload of the wrong size\<close>






subsection \<open>The config after the \<open>switch\<close> of the chain function\<close>

lemma config_eq_refl: "config_eq self self"
  by (simp add: config_eq_def)

lemma config_eq_trans: "config_eq a b \<Longrightarrow> config_eq b c \<Longrightarrow> config_eq a c"
  by (simp add: config_eq_def)

lemma chain_segment_keeps:
  "gst_tensor_converter_chain_segment self frame_sz = Inr self' \<Longrightarrow> config_eq self' self"
  by (auto simp: gst_tensor_converter_chain_segment_def config_eq_def Let_def split: if_splits)

lemma chain_timestamp_keeps:
  "config_eq (fst (gst_tensor_converter_chain_timestamp env self inbuf frames_in)) self"
  by (simp add: gst_tensor_converter_chain_timestamp_def config_eq_def Let_def)

lemma chain_push_keeps:
  "gst_tensor_converter_chain_push env self buf = Inr (ret, self') \<Longrightarrow> config_eq self' self"
  by (auto simp: gst_tensor_converter_chain_push_def config_eq_def split: sum.splits)

lemma adapter_flush_loop_size:
  "ad_size (fst (adapter_flush_loop a q fl)) = ad_size a"
  by (induction a q fl rule: adapter_flush_loop.induct)
     (auto simp: Let_def update_timestamps_and_offset_def split: list.splits)

lemma gst_adapter_flush_unchecked_size:
  "ad_size (gst_adapter_flush_unchecked a n) = ad_size a - n"
  using adapter_flush_loop_size [of "a\<lparr> ad_size := ad_size a - n,
                        ad_pts_distance := ad_pts_distance a - ad_skip a,
                        ad_dts_distance := ad_dts_distance a - ad_skip a \<rparr>" "ad_queue a"
                   "n + ad_skip a"]
  by (auto simp: gst_adapter_flush_unchecked_def Let_def split: prod.splits)

lemma gst_adapter_take_buffer_decreases:
  assumes "gst_adapter_take_buffer adapter out_size = (Some outbuf, adapter')"
  shows "unat (ad_size adapter') < unat (ad_size adapter)"
proof -
  from assms have pos: "0 < out_size" and le: "out_size \<le> ad_size adapter"
    and ad': "adapter' = gst_adapter_flush_unchecked adapter out_size"
    by (auto simp: gst_adapter_take_buffer_def gst_adapter_get_buffer_def
        split: if_splits option.splits list.splits)
  have "unat (ad_size adapter - out_size) < unat (ad_size adapter)"
    using pos le by (simp add: unat_sub word_less_nat_alt word_le_nat_alt)
  then show ?thesis by (simp add: ad' gst_adapter_flush_unchecked_size)
qed

declare chain_chunk_loop.simps [simp del]

lemma chain_chunk_loop_keeps:
  "chain_chunk_loop env self adapter frames_in frame_sz out_size dur ret = Inr (ret', self', adapter')
   \<Longrightarrow> config_eq self' self"
proof (induction "unat (ad_size adapter)" arbitrary: self adapter ret rule: less_induct)
  case less
  show ?case
  proof (cases "out_size \<le> gst_adapter_available adapter \<and> ret = GST_FLOW_OK")
    case False
    with less.prems show ?thesis
      by (simp add: chain_chunk_loop.simps [of env self adapter] config_eq_refl)
  next
    case True
    from less.prems True obtain outbuf adapter1 b ret1 self1
      where tk: "gst_adapter_take_buffer adapter out_size = (Some outbuf, adapter1)"
        and ps: "gst_tensor_converter_chain_push env self b = Inr (ret1, self1)"
        and rc: "chain_chunk_loop env self1 adapter1 frames_in frame_sz out_size dur ret1
                   = Inr (ret', self', adapter')"
      by (subst (asm) chain_chunk_loop.simps)
         (auto simp: Let_def split: prod.splits option.splits sum.splits)
    have "unat (ad_size adapter1) < unat (ad_size adapter)"
      by (rule gst_adapter_take_buffer_decreases [OF tk])
    from less.hyps [OF this rc] have "config_eq self' self1" .
    moreover have "config_eq self1 self"
      by (rule chain_push_keeps [OF ps])
    ultimately show ?thesis
      by (rule config_eq_trans)
  qed
qed

lemma chain_chunk_keeps:
  assumes "gst_tensor_converter_chain_chunk env self inbuf frames_in frames_out frame_sz
             = Inr (ret, self')"
  shows "config_eq self' self"
proof -
  from assms obtain adapter dur out_size self1 adapter1 key
    where "chain_chunk_loop env self adapter frames_in frame_sz out_size dur GST_FLOW_OK
             = Inr (ret, self1, adapter1)"
      and "self' = self1\<lparr> adapter_table := (adapter_table self1)(key \<mapsto> adapter1) \<rparr>"
    by (auto simp: gst_tensor_converter_chain_chunk_def Let_def
        split: prod.splits sum.splits)
  then show ?thesis
    using chain_chunk_loop_keeps [of env self adapter frames_in frame_sz out_size dur
        GST_FLOW_OK ret self1 adapter1]
    by (simp add: config_eq_def)
qed

text \<open>After the \<open>switch\<close>, a chain call that returns keeps the config of the element.\<close>

lemma chain_after_switch_keeps:
  assumes "chain_switch env self buf (gst_buffer_get_size buf)
             = Inr (Some (self1, inbuf, frame_sz, frames_in))"
    and "gst_tensor_converter_chain env self buf = Inr (ret, self')"
    and sz: "0 < gst_buffer_get_size buf" and cf: "tensors_configured self"
  shows "config_eq self' self1"
proof -
  from assms obtain self2
    where sg: "gst_tensor_converter_chain_segment self1 frame_sz = Inr self2"
    by (auto simp: gst_tensor_converter_chain_def Let_def split: sum.splits)
  let ?t = "gst_tensor_converter_chain_timestamp env self2 inbuf frames_in"
  have fin: "(if frames_in = frames_per_tensor self
              then gst_tensor_converter_chain_push env (fst ?t) (snd ?t)
              else gst_tensor_converter_chain_chunk env (fst ?t) (snd ?t) frames_in
                     (frames_per_tensor self) frame_sz) = Inr (ret, self')"
    using assms sg
    by (auto simp: gst_tensor_converter_chain_def Let_def case_prod_beta split: if_splits)
  have "config_eq self' (fst ?t)"
    using fin chain_push_keeps chain_chunk_keeps by (auto split: if_splits)
  then have "config_eq self' self2"
    using chain_timestamp_keeps [of env self2 inbuf frames_in] by (rule config_eq_trans)
  then show ?thesis
    using chain_segment_keeps [OF sg] by (rule config_eq_trans)
qed


subsection \<open>C9: the flexible config of an octet stream\<close>

lemma parse_caps_switch_octet:
  assumes "parse_caps_switch env self caps t = (ok, self1, config, NNS_OCTET, fd)"
  shows "fd = None \<and> gst_tensor_converter_parse_octet env self caps = (ok, self1, config)"
  using assms
  by (auto simp: parse_caps_switch_def split: if_splits prod.splits)

lemma parse_octet_flexible:
  assumes "gst_tensor_converter_parse_octet env self caps = (True, self1, config)"
    and "format (tensors_info self) = NNS_TENSOR_FORMAT_STATIC"
    and "gst_tensors_config_is_flexible config"
  shows "num_tensors (info config) = 1 \<and> dimension (info0 config) 0 = 1"
  using assms
  by (auto simp: gst_tensor_converter_parse_octet_def octet_peer_info_def Let_def
      gst_tensors_config_is_flexible_def config_keeps info0_simps
      split: if_splits prod.splits)

lemma parse_caps_flexible_octet:
  assumes "gst_tensor_converter_parse_caps env self caps = (True, self1)"
    and "format (tensors_info self) = NNS_TENSOR_FORMAT_STATIC"
    and "in_media_type self1 = NNS_OCTET"
    and "gst_tensors_config_is_flexible (tensors_config self1)"
  shows "num_tensors (info (tensors_config self1)) = 1
       \<and> dimension (info0 (tensors_config self1)) 0 = 1
       \<and> tensors_configured self1"
proof -
  let ?t = "if mode self \<noteq> CONVERTER_MODE_NONE then NNS_MEDIA_ANY
            else gst_structure_get_media_type caps"
  obtain ok self2 config in_type frames_dim
    where sw: "parse_caps_switch env self caps ?t = (ok, self2, config, in_type, frames_dim)"
    by (cases "parse_caps_switch env self caps ?t") auto
  from assms(1) have ok: "ok" and s1: "self1 = self2\<lparr> in_media_type := in_type,
      tensors_configured := True,
      tensors_config := (case frames_dim of
         Some k \<Rightarrow> set_info0_dim k (frames_per_tensor self2) config | None \<Rightarrow> config) \<rparr>"
    by (auto simp: gst_tensor_converter_parse_caps_def sw Let_def split: if_splits)
  from s1 assms(3) have "in_type = NNS_OCTET" by simp
  with sw ok have fd: "frames_dim = None"
    and oct: "gst_tensor_converter_parse_octet env self caps = (True, self2, config)"
    using parse_caps_switch_octet [of env self caps ?t ok self2 config frames_dim] by auto
  from s1 fd have "tensors_config self1 = config" "tensors_configured self1" by simp_all
  with parse_octet_flexible [OF oct assms(2)] assms(4) show ?thesis by simp
qed

lemma chain_switch_flexible_octet:
  assumes "in_media_type self = NNS_OCTET"
    and "gst_tensors_config_is_flexible (tensors_config self)"
  shows "chain_switch env self buf sz =
     Inr (Some (self\<lparr> tensors_config := set_info0_dim 0 (ucast sz) (tensors_config self) \<rparr>,
                buf, sz, 1))"
  using assms by (simp add: chain_switch_def chain_case_octet_def)

lemma unat_ucast_gsize_guint:
  fixes sz :: gsize
  assumes "sz < 2 ^ 32"
  shows "unat (ucast sz :: guint) = unat sz"
proof -
  from assms have "unat sz < 2 ^ 32"
    by (simp add: word_less_nat_alt)
  then show ?thesis
    by (simp add: unsigned_ucast_eq take_bit_nat_eq_self)
qed

lemma chain_flexible_octet_config:
  assumes "in_media_type self = NNS_OCTET"
    and "tensors_configured self"
    and "gst_tensors_config_is_flexible (tensors_config self)"
    and "0 < gst_buffer_get_size buf"
    and "gst_tensor_converter_chain env self buf = Inr (ret, self')"
  shows "tensors_config self'
           = set_info0_dim 0 (ucast (gst_buffer_get_size buf)) (tensors_config self)"
  using chain_after_switch_keeps [OF chain_switch_flexible_octet [OF assms(1,3)] assms(5,4,2)]
  by (simp add: config_eq_def)


lemma chain_timestamp_memories:
  "memories (snd (gst_tensor_converter_chain_timestamp env self inbuf frames_in)) = memories inbuf"
  by (simp add: gst_tensor_converter_chain_timestamp_def Let_def)

lemma chain_push_single_tensor_returns:
  assumes "in_media_type self = NNS_OCTET"
    and "num_tensors (info (tensors_config self)) = 1"
    and "frames_per_tensor self = 1"
    and "memories buf \<noteq> []"
  shows "\<exists>ret self'. gst_tensor_converter_chain_push env self buf = Inr (ret, self')"
proof -
  obtain buffer where oct: "gst_tensor_converter_chain_octet env self buf = Inr buffer"
    and mem: "memories buffer \<noteq> []"
    using assms
    by (cases "1 < gst_buffer_n_memory buf")
       (simp_all add: gst_tensor_converter_chain_octet_def Let_def gst_buffer_copy_metadata_def)
  have "\<exists>b. gst_tensor_converter_chain_flex_tensor env self buffer = Inr b"
    using mem assms(2)
    by (simp add: gst_tensor_converter_chain_flex_tensor_def Let_def)
  then show ?thesis
    using assms(1) oct
    by (auto simp: gst_tensor_converter_chain_push_def)
qed

lemma chain_flexible_octet_returns:
  assumes "in_media_type self = NNS_OCTET"
    and "tensors_configured self"
    and "gst_tensors_config_is_flexible (tensors_config self)"
    and "num_tensors (info (tensors_config self)) = 1"
    and "0 < gst_buffer_get_size buf"
    and "frames_per_tensor self = 1"
    and "\<not> need_segment self"
  shows "\<exists>ret self'. gst_tensor_converter_chain env self buf = Inr (ret, self')"
proof -
  let ?sz = "gst_buffer_get_size buf"
  let ?self1 = "self\<lparr> tensors_config := set_info0_dim 0 (ucast ?sz) (tensors_config self) \<rparr>"
  let ?t = "gst_tensor_converter_chain_timestamp env ?self1 buf 1"
  have sw: "chain_switch env self buf ?sz = Inr (Some (?self1, buf, ?sz, 1))"
    by (rule chain_switch_flexible_octet [OF assms(1,3)])
  have sg: "gst_tensor_converter_chain_segment ?self1 ?sz = Inr ?self1"
    using assms(7) by (simp add: gst_tensor_converter_chain_segment_def)
  have ch: "gst_tensor_converter_chain env self buf
              = gst_tensor_converter_chain_push env (fst ?t) (snd ?t)"
    using assms(2,5,6)
    by (simp add: gst_tensor_converter_chain_def sw sg Let_def case_prod_beta)
  have ce: "config_eq (fst ?t) ?self1"
    by (rule chain_timestamp_keeps)
  have m: "memories (snd ?t) \<noteq> []"
    using assms(5) by (auto simp: chain_timestamp_memories gst_buffer_get_size_def)
  show ?thesis
    unfolding ch
    by (rule chain_push_single_tensor_returns)
       (use ce assms m in \<open>simp_all add: config_eq_def config_keeps\<close>)
qed


lemma example_env_flexible_reads:
  "gst_tensors_info_validate example_env_flexible = ex_tensors_info_validate"
  "gst_tensors_config_validate example_env_flexible = ex_tensors_config_validate"
  "gst_tensors_info_is_equal example_env_flexible = ex_tensors_info_is_equal"
  "gst_tensors_info_get_size example_env_flexible = ex_tensors_info_get_size"
  "gst_tensors_config_from_peer example_env_flexible = example_flexible_peer"
  "gst_tensor_pad_caps_from_config example_env_flexible = (\<lambda>c. c)"
  "gst_tensor_caps_is_flexible example_env_flexible = gst_tensors_config_is_flexible"
  "gst_tensor_info_convert_to_meta example_env_flexible = ex_convert_to_meta"
  "gst_tensor_meta_info_append_header example_env_flexible = ex_meta_append_header"
  "gst_element_get_clock example_env_flexible = None"
  "gst_pad_push example_env_flexible = (\<lambda>b. GST_FLOW_OK)"
  by (simp_all add: example_env_flexible_def example_env_def)

lemma example_octet_parse_caps:
  "gst_tensor_converter_parse_caps example_env_flexible (example_self gst_tensors_info_init)
     example_octet_caps =
   (True, (example_self gst_tensors_info_init)
      \<lparr> in_media_type := NNS_OCTET, tensors_configured := True,
        tensors_config :=
          clear_info0_dims_from 1 (set_info0_dim 0 1 (set_info0_type NNS_UINT8
            (set_num_tensors 1 (set_format NNS_TENSOR_FORMAT_FLEXIBLE
               (gst_tensors_config_init\<lparr> rate_n := 0, rate_d := 1 \<rparr>))))) \<rparr>)"
proof -
  let ?c = "clear_info0_dims_from 1 (set_info0_dim 0 1 (set_info0_type NNS_UINT8
            (set_num_tensors 1 (set_format NNS_TENSOR_FORMAT_FLEXIBLE
               (gst_tensors_config_init\<lparr> rate_n := 0, rate_d := 1 \<rparr>)))))"
  have nv: "\<not> ex_tensors_info_validate gst_tensors_info_init"
    by (simp add: ex_tensors_info_validate_def gst_tensors_info_init_def)
  have pv: "ex_tensors_info_validate (info (peer_config example_flexible_peer))"
    "gst_tensors_config_is_flexible (peer_config example_flexible_peer)"
    "peer_ok example_flexible_peer"
    by (simp_all add: example_flexible_peer_def ex_tensors_info_validate_def set_format_def
        gst_tensors_config_is_flexible_def)
  have oct: "gst_tensor_converter_parse_octet example_env_flexible
      (example_self gst_tensors_info_init) example_octet_caps =
      (True, example_self gst_tensors_info_init, ?c)"
    using nv pv
    by (simp add: gst_tensor_converter_parse_octet_def octet_peer_info_def
        example_env_flexible_reads example_self_reads Let_def
        set_framerate_from_structure_def example_octet_caps_def)
  have n: "format (info ?c) = NNS_TENSOR_FORMAT_FLEXIBLE" "rate_n ?c = 0" "rate_d ?c = 1"
    by (simp_all add: config_keeps)
  have v: "ex_tensors_config_validate ?c"
    unfolding ex_tensors_config_validate_def ex_tensors_info_validate_def n by simp
  have fx: "gst_caps_is_fixed example_octet_caps"
    "gst_structure_get_media_type example_octet_caps = NNS_OCTET"
    by (simp_all add: example_octet_caps_def)
  have sw: "parse_caps_switch example_env_flexible (example_self gst_tensors_info_init)
      example_octet_caps NNS_OCTET =
      (True, example_self gst_tensors_info_init, ?c, NNS_OCTET, None)"
    by (simp add: parse_caps_switch_def oct)
  show ?thesis
    using nv v
    by (simp add: gst_tensor_converter_parse_caps_def fx example_self_reads sw
        example_env_flexible_reads)
qed

lemma example_octet_self_eq:
  "example_octet_self =
     gst_tensor_converter_update_caps example_env_flexible
       ((example_self gst_tensors_info_init)
          \<lparr> in_media_type := NNS_OCTET, tensors_configured := True,
            tensors_config :=
              clear_info0_dims_from 1 (set_info0_dim 0 1 (set_info0_type NNS_UINT8
                (set_num_tensors 1 (set_format NNS_TENSOR_FORMAT_FLEXIBLE
                   (gst_tensors_config_init\<lparr> rate_n := 0, rate_d := 1 \<rparr>))))) \<rparr>)"
  by (simp add: example_octet_self_def gst_tensor_converter_sink_event_caps_def
      example_octet_parse_caps)

lemma example_octet_self_reads:
  "in_media_type example_octet_self = NNS_OCTET"
  "tensors_configured example_octet_self = True"
  "frames_per_tensor example_octet_self = 1"
  "need_segment example_octet_self = False"
  "tensors_config example_octet_self =
     clear_info0_dims_from 1 (set_info0_dim 0 1 (set_info0_type NNS_UINT8
       (set_num_tensors 1 (set_format NNS_TENSOR_FORMAT_FLEXIBLE
          (gst_tensors_config_init\<lparr> rate_n := 0, rate_d := 1 \<rparr>)))))"
  by (simp_all add: example_octet_self_eq gst_tensor_converter_update_caps_def Let_def
      example_self_reads example_self_def gst_tensor_converter_init_def
      gst_tensor_converter_reset_def)

lemma example_octet_self_flexible: "flexible_octet example_octet_self"
  by (simp add: flexible_octet_def example_octet_self_reads config_keeps
      gst_tensors_config_is_flexible_def)

lemma example_octet_buffer_size:
  "gst_buffer_get_size example_octet_buffer = 7"
  by (simp add: example_octet_buffer_def gst_buffer_get_size_def gst_buffer_new_def)

subsection \<open>C8: row depadding\<close>

lemma unat_index_step:
  fixes i :: guint and d :: gsize
  assumes "unat i + unat d < 2 ^ 32"
  shows "unat (ucast (ucast i + d :: gsize) :: guint) = unat i + unat d"
proof -
  have up: "unat (ucast i :: gsize) = unat i"
    by (simp add: unsigned_ucast_eq take_bit_nat_eq_self unsigned_less [of i, simplified]
        order_less_trans [OF unsigned_less [of i, simplified]])
  have "unat i + unat d < 2 ^ 64"
    using assms by simp
  then have "unat (ucast i + d :: gsize) = unat i + unat d"
    by (simp add: unat_word_ariths up)
  then show ?thesis
    using assms by (simp add: unsigned_ucast_eq take_bit_nat_eq_self)
qed

text \<open>
  The row loop, for a source that holds \<open>n\<close> rows of \<open>offset\<close> bytes and a destination
  that has room for \<open>n\<close> rows of \<open>sz\<close> bytes, while the indices stay below \<open>2^32\<close>: row
  \<open>r\<close> of the destination is the first \<open>sz\<close> bytes of row \<open>r\<close> of the source.
\<close>

lemma video_depad_loop_rows:
  assumes "unat sz \<le> unat offset"
    and "unat src_idx + n * unat offset \<le> length src"
    and "unat dest_idx + n * unat sz \<le> length dest"
    and "unat src_idx + n * unat offset < 2 ^ 32"
    and "unat dest_idx + n * unat sz < 2 ^ 32"
  shows "video_depad_loop n src dest sz offset src_idx dest_idx =
     Some (take (unat dest_idx) dest
           @ concat (map (\<lambda>r. take (unat sz) (drop (unat src_idx + r * unat offset) src)) [0 ..< n])
           @ drop (unat dest_idx + n * unat sz) dest)"
  using assms
proof (induction n arbitrary: dest src_idx dest_idx)
  case 0
  then show ?case by simp
next
  case (Suc n)
  let ?row = "take (unat sz) (drop (unat src_idx) src)"
  let ?dest = "take (unat dest_idx) dest @ ?row @ drop (unat dest_idx + unat sz) dest"
  let ?si = "ucast (ucast src_idx + offset :: gsize) :: guint"
  let ?di = "ucast (ucast dest_idx + sz :: gsize) :: guint"
  from Suc.prems have si: "unat ?si = unat src_idx + unat offset"
    by (intro unat_index_step) simp
  from Suc.prems have di: "unat ?di = unat dest_idx + unat sz"
    by (intro unat_index_step) simp
  from Suc.prems have fits: "unat src_idx + unat sz \<le> length src"
    "unat dest_idx + unat sz \<le> length dest"
    by simp_all
  then have lrow: "length ?row = unat sz" and ldest: "length ?dest = length dest"
    by simp_all
  have ih: "video_depad_loop n src ?dest sz offset ?si ?di =
     Some (take (unat ?di) ?dest
           @ concat (map (\<lambda>r. take (unat sz) (drop (unat ?si + r * unat offset) src)) [0 ..< n])
           @ drop (unat ?di + n * unat sz) ?dest)"
    using Suc.prems by (intro Suc.IH) (simp_all add: si di ldest)
  have tk: "take (unat ?di) ?dest = take (unat dest_idx) dest @ ?row"
    using fits lrow by (simp add: di)
  have dr: "drop (unat ?di + n * unat sz) ?dest = drop (unat dest_idx + Suc n * unat sz) dest"
  proof -
    have "drop (unat dest_idx + unat sz + n * unat sz) ?dest
        = drop (unat dest_idx + Suc n * unat sz) dest"
      using fits lrow by (simp add: ac_simps)
    then show ?thesis
      unfolding di .
  qed
  have rows: "concat (map (\<lambda>r. take (unat sz) (drop (unat src_idx + r * unat offset) src))
                 [0 ..< Suc n])
      = ?row @ concat (map (\<lambda>r. take (unat sz) (drop (unat ?si + r * unat offset) src)) [0 ..< n])"
  proof -
    have "[0 ..< Suc n] = 0 # [Suc 0 ..< Suc n]"
      by (rule upt_conv_Cons) simp
    then have "[0 ..< Suc n] = 0 # map Suc [0 ..< n]"
      by (simp only: map_Suc_upt)
    then show ?thesis
      by (simp add: si comp_def add.assoc del: upt_Suc)
  qed
  have "video_depad_loop (Suc n) src dest sz offset src_idx dest_idx
      = video_depad_loop n src ?dest sz offset ?si ?di"
    using fits by (simp only: video_depad_loop.simps if_True simp_thms)
  also note ih
  finally show ?case
    by (simp only: tk dr rows append_assoc)
qed


lemma concat_rows_length:
  assumes "\<forall>r<n. length (f r) = k"
  shows "length (concat (map f [0 ..< n])) = k * n"
  using assms by (induction n) simp_all

lemma concat_rows_row:
  assumes "\<forall>r<n. length (f r) = k" and "r < n"
  shows "take k (drop (k * r) (concat (map f [0 ..< n]))) = f r"
  using assms
proof (induction n)
  case 0
  then show ?case by simp
next
  case (Suc n)
  have len: "length (concat (map f [0 ..< n])) = k * n"
    using Suc.prems(1) by (intro concat_rows_length) simp
  show ?case
  proof (cases "r < n")
    case True
    then have "Suc r \<le> n"
      by simp
    then have "k * Suc r \<le> k * n"
      by (rule mult_le_mono2)
    then have "k * r + k \<le> k * n"
      by (simp add: add.commute)
    moreover have "take k (drop (k * r) (concat (map f [0 ..< n]))) = f r"
      using Suc.prems True by (intro Suc.IH) simp_all
    ultimately show ?thesis
      by (simp add: len)
  next
    case False
    with Suc.prems have "r = n" by simp
    then show ?thesis
      using Suc.prems(1) by (simp add: len)
  qed
qed

lemma unat_ucast_guint_gsize: "unat (ucast (h :: guint) :: gsize) = unat h"
  by (simp add: unsigned_ucast_eq take_bit_nat_eq_self
      order_less_trans [OF unsigned_less [of h, simplified]])

lemma unat_rows_gsize:
  fixes h :: guint
  assumes "k \<le> 8"
  shows "unat (of_nat k * ucast h :: gsize) = k * unat h"
proof -
  have "unat h < 4294967296"
    using unsigned_less [of h] by simp
  moreover have "k * unat h \<le> 8 * unat h"
    using assms by (rule mult_le_mono1)
  ultimately have "k * unat h < 18446744073709551616"
    by linarith
  then have lt: "k * unat h < 2 ^ 64"
    by simp
  have k: "unat (of_nat k :: gsize) = k"
    using assms by (simp add: unat_of_nat)
  show ?thesis
    using lt by (simp add: unat_word_ariths unat_ucast_guint_gsize k)
qed


lemma pushed_buffers_push:
  "pushed_buffers (self\<lparr> srcpad := gst_pad_push_buffer (srcpad self) b \<rparr>)
     = pushed_buffers self @ [b]"
  by (simp add: pushed_buffers_def gst_pad_push_buffer_def List.map_filter_def)

lemma chain_timestamp_srcpad:
  "srcpad (fst (gst_tensor_converter_chain_timestamp env self inbuf frames_in)) = srcpad self"
  "in_media_type (fst (gst_tensor_converter_chain_timestamp env self inbuf frames_in))
     = in_media_type self"
  "do_not_append_header (fst (gst_tensor_converter_chain_timestamp env self inbuf frames_in))
     = do_not_append_header self"
  by (simp_all add: gst_tensor_converter_chain_timestamp_def Let_def)

text \<open>
  A frame that the \<open>switch\<close> hands on as one tensor is pushed as it is, when the element
  emits one frame for each tensor, no segment event is due, the input is not an octet
  stream and no header is added.
\<close>

lemma chain_pushes_frame:
  assumes "chain_switch env self buf (gst_buffer_get_size buf) = Inr (Some (self, out, frame_sz, 1))"
    and "0 < gst_buffer_get_size buf"
    and "tensors_configured self"
    and "frames_per_tensor self = 1"
    and "\<not> need_segment self"
    and "in_media_type self \<noteq> NNS_OCTET"
    and "do_not_append_header self \<or> \<not> gst_tensor_pad_caps_is_flexible env (srcpad self)"
  shows "case gst_tensor_converter_chain env self buf of
           Inl f \<Rightarrow> False
         | Inr (ret, self') \<Rightarrow>
             map memories (pushed_buffers self') = map memories (pushed_buffers self) @ [memories out]"
proof -
  let ?t = "gst_tensor_converter_chain_timestamp env self out 1"
  have seg: "gst_tensor_converter_chain_segment self frame_sz = Inr self"
    using assms(5) by (simp add: gst_tensor_converter_chain_segment_def)
  have push: "gst_tensor_converter_chain_push env (fst ?t) (snd ?t)
      = Inr (gst_pad_push env (snd ?t),
             (fst ?t)\<lparr> srcpad := gst_pad_push_buffer (srcpad (fst ?t)) (snd ?t) \<rparr>)"
    using assms(6,7)
    by (auto simp: gst_tensor_converter_chain_push_def chain_timestamp_srcpad)
  have ch: "gst_tensor_converter_chain env self buf
      = Inr (gst_pad_push env (snd ?t),
             (fst ?t)\<lparr> srcpad := gst_pad_push_buffer (srcpad (fst ?t)) (snd ?t) \<rparr>)"
    using assms(2,3,4)
    by (simp add: gst_tensor_converter_chain_def assms(1) seg case_prod_beta push Let_def)
  have pb: "pushed_buffers (fst ?t) = pushed_buffers self"
    by (simp add: pushed_buffers_def chain_timestamp_srcpad)
  show ?thesis
    by (simp add: ch pushed_buffers_push pb chain_timestamp_memories)
qed

subsection \<open>C8: a \<open>GRAY8\<close> frame of width 5\<close>

text \<open>
  C8. The element has negotiated \<open>GRAY8\<close> video of width 5 and height \<open>h\<close> with the
  depadding flag set: the tensor is \<open>1:5:h\<close> of bytes and a frame of the stream has
  \<open>h\<close> rows of 8 bytes. For a mappable frame the \<open>switch\<close> of the chain function hands
  on a new buffer of one memory, with the timestamps of the frame. The memory has
  \<open>5 * h\<close> bytes, and its row \<open>r\<close> (bytes \<open>5 * r\<close> to \<open>5 * r + 4\<close>) is the first 5 bytes
  of row \<open>r\<close> of the frame (bytes \<open>8 * r\<close> to \<open>8 * r + 4\<close>); no byte of the padding
  (bytes \<open>8 * r + 5\<close> to \<open>8 * r + 7\<close>) is in it. When the element emits one frame for
  each tensor, without a segment event or a header due, the chain function pushes a
  buffer with exactly that memory. The row indices of the source are \<open>unsigned int\<close>:
  the statement is for frames below \<open>2^32\<close> bytes.
\<close>

theorem video_depadding_gray8_width5:
  fixes h :: guint
  assumes "in_media_type self = NNS_VIDEO"
    and "remove_padding self"
    and "mappable buf"
    and "type (info0 (tensors_config self)) = NNS_UINT8"
    and "dimension (info0 (tensors_config self)) 0 = 1"
    and "dimension (info0 (tensors_config self)) 1 = 5"
    and "dimension (info0 (tensors_config self)) 2 = h"
    and "frame_size self = 8 * ucast h"
    and "length (concat (memories buf)) = 8 * unat h"
    and "0 < unat h"
    and "unat h < 2 ^ 29"
  shows "let src = concat (memories buf);
             dest = concat (map (\<lambda>r. take 5 (drop (8 * r) src)) [0 ..< unat h])
         in chain_switch env self buf (gst_buffer_get_size buf)
              = Inr (Some (self,
                  gst_buffer_copy_metadata (gst_buffer_new\<lparr> memories := [dest] \<rparr>) buf,
                  5 * ucast h, 1))
          \<and> length dest = 5 * unat h
          \<and> (\<forall>r < unat h. take 5 (drop (5 * r) dest) = take 5 (drop (8 * r) src))
          \<and> (tensors_configured self \<and> frames_per_tensor self = 1 \<and> \<not> need_segment self
               \<and> (do_not_append_header self
                    \<or> \<not> gst_tensor_pad_caps_is_flexible env (srcpad self)) \<longrightarrow>
              (case gst_tensor_converter_chain env self buf of
                 Inl f \<Rightarrow> False
               | Inr (ret, self') \<Rightarrow>
                   map memories (pushed_buffers self')
                     = map memories (pushed_buffers self) @ [[dest]]))"
proof -
  define src where "src = concat (memories buf)"
  define dest where "dest = concat (map (\<lambda>r. take 5 (drop (8 * r) src)) [0 ..< unat h])"
  let ?out = "gst_buffer_copy_metadata (gst_buffer_new\<lparr> memories := [dest] \<rparr>) buf"
  have len: "length src = 8 * unat h"
    using assms(9) by (simp add: src_def)
  have u8: "unat (8 * ucast h :: gsize) = 8 * unat h"
    using unat_rows_gsize [of 8 h] by simp
  have u5: "unat (5 * ucast h :: gsize) = 5 * unat h"
    using unat_rows_gsize [of 5 h] by simp
  have sz: "gst_buffer_get_size buf = 8 * ucast h"
    by (simp add: gst_buffer_get_size_def assms(9))
  have nz: "(8 * ucast h :: gsize) \<noteq> 0"
    using u8 assms(10) by (metis mult_is_0 unat_0 zero_neq_numeral less_numeral_extra(3))
  have one: "(8 * ucast h :: gsize) div (8 * ucast h) = 1"
    using nz by (simp add: word_eq_iff_unsigned [where ?'a = nat] unat_div u8)
  have rows: "\<forall>r < unat h. length (take 5 (drop (8 * r) src)) = 5"
    using len by auto
  have loop: "video_depad_loop (unat h) src (replicate (5 * unat h) 0) 5 8 0 0 = Some dest"
    using video_depad_loop_rows [where sz = 5 and offset = 8 and src_idx = 0 and dest_idx = 0
        and n = "unat h" and src = src and dest = "replicate (5 * unat h) 0"] len assms(11)
    by (simp add: dest_def mult.commute)
  have d1: "dimension (info0 (tensors_config self)) (Suc 0) = 5"
    using assms(6) by simp
  have sw: "chain_switch env self buf (gst_buffer_get_size buf)
      = Inr (Some (self, ?out, 5 * ucast h, 1))"
    using nz one loop
    by (simp add: chain_switch_def chain_case_video_def assms(1-5,7,8) d1 sz Let_def u5
        src_def [symmetric])
  have l: "length dest = 5 * unat h"
    unfolding dest_def using rows by (rule concat_rows_length)
  have r: "\<forall>r < unat h. take 5 (drop (5 * r) dest) = take 5 (drop (8 * r) src)"
    unfolding dest_def using rows by (auto intro: concat_rows_row)
  have pos: "0 < gst_buffer_get_size buf"
    using nz by (simp add: sz word_neq_0_conv)
  have ch: "case gst_tensor_converter_chain env self buf of
              Inl f \<Rightarrow> False
            | Inr (ret, self') \<Rightarrow>
                map memories (pushed_buffers self') = map memories (pushed_buffers self) @ [[dest]]"
    if "tensors_configured self" "frames_per_tensor self = 1" "\<not> need_segment self"
       "do_not_append_header self \<or> \<not> gst_tensor_pad_caps_is_flexible env (srcpad self)"
  proof -
    have mem: "memories ?out = [dest]"
      by (simp add: gst_buffer_copy_metadata_def)
    have "in_media_type self \<noteq> NNS_OCTET"
      by (simp add: assms(1))
    from chain_pushes_frame [OF sw pos that(1,2,3) this that(4)] show ?thesis
      unfolding mem .
  qed
  from sw l r ch show ?thesis
    unfolding Let_def src_def [symmetric] dest_def [symmetric] by blast
qed


lemma example_gray_config_reads:
  "num_tensors (info example_gray_config) = 1"
  "format (info example_gray_config) = NNS_TENSOR_FORMAT_STATIC"
  "rate_n example_gray_config = 30"
  "rate_d example_gray_config = 1"
  "type (info0 example_gray_config) = NNS_UINT8"
  "dimension (info0 example_gray_config) 0 = 1"
  "dimension (info0 example_gray_config) 1 = 5"
  "dimension (info0 example_gray_config) (Suc 0) = 5"
  "dimension (info0 example_gray_config) 2 = 2"
  "dims (dimension (info0 example_gray_config)) = [1, 5, 2, 1] @ replicate 12 0"
  by (simp_all add: example_gray_config_def config_keeps info0_simps info0_init
      gst_tensors_config_init_def gst_tensors_info_init_def gst_tensor_info_init_def
      dims_list replicate_12 NNS_TENSOR_RANK_LIMIT_def)

lemma example_gray_parse_caps:
  "gst_tensor_converter_parse_caps example_env (example_self gst_tensors_info_init)
     (example_video_caps GST_VIDEO_FORMAT_GRAY8 5 2 16) =
   (True, (example_self gst_tensors_info_init)
      \<lparr> remove_padding := True, frame_size := 16, in_media_type := NNS_VIDEO,
        tensors_configured := True, tensors_config := example_gray_config \<rparr>)"
proof -
  have nv: "\<not> ex_tensors_info_validate gst_tensors_info_init"
    by (simp add: ex_tensors_info_validate_def gst_tensors_info_init_def)
  have sw: "parse_caps_switch example_env (example_self gst_tensors_info_init)
      (example_video_caps GST_VIDEO_FORMAT_GRAY8 5 2 16) NNS_VIDEO =
    (True, (example_self gst_tensors_info_init)\<lparr> remove_padding := True, frame_size := 16 \<rparr>,
     (clear_info0_dims_from 4 (set_info0_dim 3 1 (set_info0_dim 2 2
       (set_info0_dim 1 5 (set_info0_dim 0 1 (set_info0_type NNS_UINT8
          (set_num_tensors 1 gst_tensors_config_init)))))))\<lparr> rate_n := 30, rate_d := 1 \<rparr>,
     NNS_VIDEO, Some 3)"
    by (simp add: parse_caps_switch_def example_self_reads
      example_video_caps_reads example_env_reads gst_tensor_converter_parse_video_def
      gst_tensor_converter_video_stride_def parse_video_format_def example_video_info_def
      info0_simps info0_init gst_tensor_info_init_def Let_def)
  have v: "ex_tensors_config_validate example_gray_config"
    by (simp add: ex_tensors_config_validate_def ex_tensors_info_validate_def
        ex_tensor_info_validate_def ex_dimension_is_valid_def example_gray_config_reads
        info0_def [symmetric] replicate_12)
  show ?thesis
    using nv v
    by (simp add: gst_tensor_converter_parse_caps_def example_video_caps_reads
        example_self_reads sw example_env_reads example_gray_config_def)
qed

lemma example_gray_self_eq:
  "example_gray_self =
     gst_tensor_converter_update_caps example_env
       ((example_self gst_tensors_info_init)
          \<lparr> remove_padding := True, frame_size := 16, in_media_type := NNS_VIDEO,
            tensors_configured := True, tensors_config := example_gray_config \<rparr>)"
  by (simp add: example_gray_self_def gst_tensor_converter_sink_event_caps_def
      example_gray_parse_caps)

lemma example_gray_self_reads:
  "in_media_type example_gray_self = NNS_VIDEO"
  "remove_padding example_gray_self = True"
  "frame_size example_gray_self = 16"
  "tensors_configured example_gray_self = True"
  "frames_per_tensor example_gray_self = 1"
  "need_segment example_gray_self = False"
  "tensors_config example_gray_self = example_gray_config"
  "current_caps (srcpad example_gray_self) = Some example_gray_config"
  "pushed_buffers example_gray_self = []"
  by (simp_all add: example_gray_self_eq gst_tensor_converter_update_caps_def Let_def
      example_self_reads example_env_reads gst_pad_set_caps_def example_self_def
      gst_tensor_converter_init_def gst_tensor_converter_reset_def pushed_buffers_def
      List.map_filter_def)

text \<open>
  The theorem at the negotiated \<open>GRAY8\<close> stream of 5 by 2: of the 16 bytes of the frame
  the 10 bytes of the two rows are handed on and pushed.
\<close>

theorem video_depadding_gray8_width5_witness:
  "in_media_type example_gray_self = NNS_VIDEO
   \<and> remove_padding example_gray_self
   \<and> frame_size example_gray_self = 16
   \<and> dims (dimension (info0 (tensors_config example_gray_self))) = [1, 5, 2, 1] @ replicate 12 0
   \<and> chain_switch example_env example_gray_self example_gray_frame
        (gst_buffer_get_size example_gray_frame)
      = Inr (Some (example_gray_self,
          gst_buffer_copy_metadata
            (gst_buffer_new\<lparr> memories := [[1, 2, 3, 4, 5, 6, 7, 8, 9, 10]] \<rparr>) example_gray_frame,
          10, 1))
   \<and> (case gst_tensor_converter_chain example_env example_gray_self example_gray_frame of
         Inl f \<Rightarrow> False
       | Inr (ret, self') \<Rightarrow>
           map memories (pushed_buffers self') = [[[1, 2, 3, 4, 5, 6, 7, 8, 9, 10]]])"
proof -
  have src: "concat (memories example_gray_frame)
      = [1, 2, 3, 4, 5, 255, 255, 255, 6, 7, 8, 9, 10, 255, 255, 255]"
    "mappable example_gray_frame"
    by (simp_all add: example_gray_frame_def gst_buffer_new_def)
  have dest: "concat (map (\<lambda>r. take 5 (drop (8 * r) (concat (memories example_gray_frame))))
      [0 ..< unat (2 :: guint)]) = [1, 2, 3, 4, 5, 6, 7, 8, 9, 10]"
    by (simp add: src upt_rec)
  have nf: "\<not> gst_tensor_pad_caps_is_flexible example_env (srcpad example_gray_self)"
    by (simp add: gst_tensor_pad_caps_is_flexible_def example_gray_self_reads example_env_reads
        gst_tensors_config_is_flexible_def example_gray_config_reads)
  note t = video_depadding_gray8_width5 [where self = example_gray_self
      and buf = example_gray_frame and h = 2 and env = example_env,
      unfolded Let_def dest]
  have t': "chain_switch example_env example_gray_self example_gray_frame
        (gst_buffer_get_size example_gray_frame)
      = Inr (Some (example_gray_self,
          gst_buffer_copy_metadata
            (gst_buffer_new\<lparr> memories := [[1, 2, 3, 4, 5, 6, 7, 8, 9, 10]] \<rparr>) example_gray_frame,
          2 * 5, 1))
     \<and> (case gst_tensor_converter_chain example_env example_gray_self example_gray_frame of
         Inl f \<Rightarrow> False
       | Inr (ret, self') \<Rightarrow>
           map memories (pushed_buffers self') = map memories (pushed_buffers example_gray_self)
              @ [[[1, 2, 3, 4, 5, 6, 7, 8, 9, 10]]])"
    using t nf by (simp add: example_gray_self_reads example_gray_config_reads src)
  have a: "in_media_type example_gray_self = NNS_VIDEO \<and> remove_padding example_gray_self
     \<and> frame_size example_gray_self = 16
     \<and> dims (dimension (info0 (tensors_config example_gray_self))) = [1, 5, 2, 1] @ replicate 12 0"
    by (simp add: example_gray_self_reads example_gray_config_reads)
  from t' have b: "chain_switch example_env example_gray_self example_gray_frame
        (gst_buffer_get_size example_gray_frame)
      = Inr (Some (example_gray_self,
          gst_buffer_copy_metadata
            (gst_buffer_new\<lparr> memories := [[1, 2, 3, 4, 5, 6, 7, 8, 9, 10]] \<rparr>) example_gray_frame,
          10, 1))"
    by simp
  from t' have c: "case gst_tensor_converter_chain example_env example_gray_self example_gray_frame of
         Inl f \<Rightarrow> False
       | Inr (ret, self') \<Rightarrow>
           map memories (pushed_buffers self') = [[[1, 2, 3, 4, 5, 6, 7, 8, 9, 10]]]"
    unfolding example_gray_self_reads(9) list.map(1) append_Nil by (rule conjunct2)
  from a b c show ?thesis by (intro conjI) simp_all
qed

subsection \<open>C2: the windowing of an audio stream\<close>

lemma mem_region_concat:
  "concat (mem_region ms off n) = take n (drop off (concat ms))"
  by (induction ms off n rule: mem_region.induct) auto

lemma audio_window_offset:
  "gst_util_uint64_scale_int (0 * scast (1 :: gint)) (ucast GST_SECOND)
     (ucast (scast (1000 :: gint) * (2 :: gsize))) = 0"
  "gst_util_uint64_scale_int (4 * scast (1 :: gint)) (ucast GST_SECOND)
     (ucast (scast (1000 :: gint) * (2 :: gsize))) = 2000000"
  "gst_util_uint64_scale_int 0 (ucast GST_SECOND) 2000 = 0"
  "gst_util_uint64_scale_int 4 (ucast GST_SECOND) 2000 = 2000000"
  by (simp_all add: gst_util_uint64_scale_int_def GST_SECOND_def)

lemma audio_have_framerate:
  "rate_n c = 1000 \<Longrightarrow> rate_d c = 1 \<Longrightarrow> have_framerate c"
  by (simp add: have_framerate_def)


text \<open>An empty adapter after a buffer of 8 bytes with a valid timestamp is pushed.\<close>

lemma adapter_push_empty:
  assumes "ad_queue a = []" and "ad_size a = 0" and "ad_skip a = 0"
    and "GST_CLOCK_TIME_IS_VALID (pts b)"
  shows "ad_queue (gst_adapter_push a b) = [b]"
    and "ad_size (gst_adapter_push a b) = gst_buffer_get_size b"
    and "ad_skip (gst_adapter_push a b) = 0"
    and "ad_pts (gst_adapter_push a b) = pts b"
    and "ad_pts_distance (gst_adapter_push a b) = 0"
  using assms
  by (simp_all add: gst_adapter_push_def update_timestamps_and_offset_def Let_def)

text \<open>Taking the first and the second half of the only buffer of an adapter.\<close>

lemma adapter_take_first_half:
  assumes "ad_queue a = [b]" and "ad_size a = 8" and "ad_skip a = 0"
    and "gst_buffer_get_size b = 8"
  shows "fst (gst_adapter_take_buffer a 4)
           = Some (b\<lparr> memories := mem_region (memories b) 0 4 \<rparr>)"
    and "ad_queue (snd (gst_adapter_take_buffer a 4)) = [b]"
    and "ad_size (snd (gst_adapter_take_buffer a 4)) = 4"
    and "ad_skip (snd (gst_adapter_take_buffer a 4)) = 4"
    and "ad_pts (snd (gst_adapter_take_buffer a 4)) = ad_pts a"
    and "ad_pts_distance (snd (gst_adapter_take_buffer a 4)) = ad_pts_distance a + 4"
  using assms
  by (simp_all add: gst_adapter_take_buffer_def gst_adapter_get_buffer_def
      gst_adapter_flush_unchecked_def Let_def)

lemma adapter_take_second_half:
  assumes "ad_queue a = [b]" and "ad_size a = 4" and "ad_skip a = 4"
    and "gst_buffer_get_size b = 8"
  shows "fst (gst_adapter_take_buffer a 4)
           = Some (b\<lparr> memories := mem_region (memories b) 4 4 \<rparr>)"
    and "ad_size (snd (gst_adapter_take_buffer a 4)) = 0"
  using assms
  by (simp_all add: gst_adapter_take_buffer_def gst_adapter_get_buffer_def
      gst_adapter_flush_unchecked_def Let_def)


lemma chain_push_plain:
  assumes "in_media_type self \<noteq> NNS_OCTET"
    and "do_not_append_header self \<or> \<not> gst_tensor_pad_caps_is_flexible env (srcpad self)"
  shows "gst_tensor_converter_chain_push env self b
     = Inr (gst_pad_push env b, self\<lparr> srcpad := gst_pad_push_buffer (srcpad self) b \<rparr>)"
  using assms by (auto simp: gst_tensor_converter_chain_push_def)

lemma pad_push_buffer_flexible:
  "gst_tensor_pad_caps_is_flexible env (gst_pad_push_buffer pad b)
     = gst_tensor_pad_caps_is_flexible env pad"
  by (simp add: gst_tensor_pad_caps_is_flexible_def gst_pad_push_buffer_def)

text \<open>One turn of the loop of \<open>_gst_tensor_converter_chain_chunk\<close>, and its end.\<close>

lemma chain_chunk_loop_step:
  assumes "out_size \<le> ad_size adapter"
    and "fst (gst_adapter_take_buffer adapter out_size) = Some outbuf"
    and "in_media_type self \<noteq> NNS_OCTET"
    and "do_not_append_header self \<or> \<not> gst_tensor_pad_caps_is_flexible env (srcpad self)"
    and "1 < frames_in" and "have_framerate (tensors_config self)"
    and "GST_CLOCK_TIME_IS_VALID (ad_pts adapter)"
    and "out = outbuf\<lparr> pts := ad_pts adapter
              + gst_util_uint64_scale_int
                  (ad_pts_distance adapter * scast (rate_d (tensors_config self)))
                  (ucast GST_SECOND) (ucast (scast (rate_n (tensors_config self)) * frame_sz)),
            dts := (if GST_CLOCK_TIME_IS_VALID (ad_dts adapter)
                    then ad_dts adapter + gst_util_uint64_scale_int
                           (ad_dts_distance adapter * scast (rate_d (tensors_config self)))
                           (ucast GST_SECOND)
                           (ucast (scast (rate_n (tensors_config self)) * frame_sz))
                    else ad_dts adapter),
            duration := dur \<rparr>"
  shows "chain_chunk_loop env self adapter frames_in frame_sz out_size dur GST_FLOW_OK
     = chain_chunk_loop env (self\<lparr> srcpad := gst_pad_push_buffer (srcpad self) out \<rparr>)
         (snd (gst_adapter_take_buffer adapter out_size)) frames_in frame_sz out_size dur
         (gst_pad_push env out)"
proof -
  have tk: "gst_adapter_take_buffer adapter out_size
      = (Some outbuf, snd (gst_adapter_take_buffer adapter out_size))"
    using assms(2) by (simp add: prod_eq_iff)
  show ?thesis
    apply (subst chain_chunk_loop.simps)
    apply (subst tk)
    using assms(1,5,6,7)
    apply (simp add: gst_adapter_available_def gst_adapter_prev_pts_def gst_adapter_prev_dts_def
        Let_def chain_push_plain [OF assms(3,4)] assms(8))
    done
qed

lemma chain_chunk_loop_end:
  assumes "ad_size adapter < out_size"
  shows "chain_chunk_loop env self adapter frames_in frame_sz out_size dur ret
     = Inr (ret, self, adapter)"
  using assms
  by (subst chain_chunk_loop.simps) (simp add: gst_adapter_available_def not_le [symmetric])


text \<open>
  The windowing of one chunk of four frames of two bytes, two frames for each tensor,
  at a rate of 1000/1, into an empty adapter.
\<close>

lemma chain_chunk_audio_window:
  assumes rn: "rate_n (tensors_config self) = 1000"
    and rd: "rate_d (tensors_config self) = 1"
    and media: "in_media_type self \<noteq> NNS_OCTET"
    and plain: "do_not_append_header self \<or> \<not> gst_tensor_pad_caps_is_flexible env (srcpad self)"
    and down: "\<forall>b. gst_pad_push env b = GST_FLOW_OK"
    and empty: "ad_queue (snd (gst_tensor_converter_get_adapter self buf)) = []"
      "ad_size (snd (gst_tensor_converter_get_adapter self buf)) = 0"
      "ad_skip (snd (gst_tensor_converter_get_adapter self buf)) = 0"
    and len: "length (concat (memories buf)) = 8"
    and valid: "GST_CLOCK_TIME_IS_VALID (pts buf)"
  shows "case gst_tensor_converter_chain_chunk env self buf 4 2 2 of
           Inl f \<Rightarrow> False
         | Inr (ret, self') \<Rightarrow>
             ret = GST_FLOW_OK
             \<and> map (\<lambda>b. (concat (memories b), gst_buffer_get_size b, pts b)) (pushed_buffers self')
               = map (\<lambda>b. (concat (memories b), gst_buffer_get_size b, pts b)) (pushed_buffers self)
                 @ [(take 4 (concat (memories buf)), 4, pts buf),
                    (drop 4 (concat (memories buf)), 4, pts buf + 2000000)]"
proof -
  let ?view = "\<lambda>b. (concat (memories b), gst_buffer_get_size b, pts b)"
  define key where "key = fst (gst_tensor_converter_get_adapter self buf)"
  define a0 where "a0 = snd (gst_tensor_converter_get_adapter self buf)"
  define a1 where "a1 = gst_adapter_push a0 buf"
  define a2 where "a2 = snd (gst_adapter_take_buffer a1 4)"
  define a3 where "a3 = snd (gst_adapter_take_buffer a2 4)"
  define dur where "dur = (if GST_CLOCK_TIME_IS_VALID (duration buf)
                 then gst_util_uint64_scale_int (duration buf) 2 4
                 else duration buf)"
  have sz: "gst_buffer_get_size buf = 8"
    by (simp add: gst_buffer_get_size_def len)
  have hf: "have_framerate (tensors_config self)"
    using rn rd by (rule audio_have_framerate)
  note p1 = adapter_push_empty [OF empty [folded a0_def] valid, folded a1_def, unfolded sz]
  note t1 = adapter_take_first_half [OF p1(1,2,3) sz, folded a2_def]
  note t2 = adapter_take_second_half [OF t1(2,3,4) sz, folded a3_def]
  define o1 where "o1 = buf\<lparr> memories := mem_region (memories buf) 0 4,
       pts := ad_pts a1 + gst_util_uint64_scale_int
                  (ad_pts_distance a1 * scast (rate_d (tensors_config self)))
                  (ucast GST_SECOND) (ucast (scast (rate_n (tensors_config self)) * (2 :: gsize))),
       dts := (if GST_CLOCK_TIME_IS_VALID (ad_dts a1)
               then ad_dts a1 + gst_util_uint64_scale_int
                      (ad_dts_distance a1 * scast (rate_d (tensors_config self)))
                      (ucast GST_SECOND) (ucast (scast (rate_n (tensors_config self)) * (2 :: gsize)))
               else ad_dts a1),
       duration := dur \<rparr>"
  define s1 where "s1 = self\<lparr> srcpad := gst_pad_push_buffer (srcpad self) o1 \<rparr>"
  define o2 where "o2 = buf\<lparr> memories := mem_region (memories buf) 4 4,
       pts := ad_pts a2 + gst_util_uint64_scale_int
                  (ad_pts_distance a2 * scast (rate_d (tensors_config s1)))
                  (ucast GST_SECOND) (ucast (scast (rate_n (tensors_config s1)) * (2 :: gsize))),
       dts := (if GST_CLOCK_TIME_IS_VALID (ad_dts a2)
               then ad_dts a2 + gst_util_uint64_scale_int
                      (ad_dts_distance a2 * scast (rate_d (tensors_config s1)))
                      (ucast GST_SECOND) (ucast (scast (rate_n (tensors_config s1)) * (2 :: gsize)))
               else ad_dts a2),
       duration := dur \<rparr>"
  define s2 where "s2 = s1\<lparr> srcpad := gst_pad_push_buffer (srcpad s1) o2 \<rparr>"
  have s1: "tensors_config s1 = tensors_config self" "in_media_type s1 \<noteq> NNS_OCTET"
    "do_not_append_header s1 \<or> \<not> gst_tensor_pad_caps_is_flexible env (srcpad s1)"
    using media plain by (simp_all add: s1_def pad_push_buffer_flexible)
  have one: "(1 :: guint) < 4"
    by simp
  have l1: "chain_chunk_loop env self a1 4 2 4 dur GST_FLOW_OK
      = chain_chunk_loop env s1 a2 4 2 4 dur GST_FLOW_OK"
  proof -
    have le: "(4 :: gsize) \<le> ad_size a1"
      by (simp add: p1)
    have v: "GST_CLOCK_TIME_IS_VALID (ad_pts a1)"
      by (simp add: p1 valid)
    from chain_chunk_loop_step [OF le t1(1) media plain one hf v o1_def]
    show ?thesis
      by (simp only: s1_def [symmetric] a2_def [symmetric] down [rule_format])
  qed
  have l2: "chain_chunk_loop env s1 a2 4 2 4 dur GST_FLOW_OK
      = chain_chunk_loop env s2 a3 4 2 4 dur GST_FLOW_OK"
  proof -
    have le: "(4 :: gsize) \<le> ad_size a2"
      by (simp add: t1)
    have v: "GST_CLOCK_TIME_IS_VALID (ad_pts a2)"
      by (simp add: t1 p1 valid)
    have hf1: "have_framerate (tensors_config s1)"
      by (simp add: s1(1) hf)
    from chain_chunk_loop_step [OF le t2(1) s1(2,3) one hf1 v o2_def]
    show ?thesis
      by (simp only: s2_def [symmetric] a3_def [symmetric] down [rule_format])
  qed
  have l3: "chain_chunk_loop env s2 a3 4 2 4 dur GST_FLOW_OK = Inr (GST_FLOW_OK, s2, a3)"
    by (rule chain_chunk_loop_end) (simp add: t2)
  have ch: "gst_tensor_converter_chain_chunk env self buf 4 2 2
      = Inr (GST_FLOW_OK, s2\<lparr> adapter_table := (adapter_table s2)(key \<mapsto> a3) \<rparr>)"
    by (simp add: gst_tensor_converter_chain_chunk_def case_prod_beta Let_def
        a0_def [symmetric] a1_def [symmetric] key_def [symmetric] dur_def [symmetric] l1 l2 l3)
  have pb: "pushed_buffers (s2\<lparr> adapter_table := (adapter_table s2)(key \<mapsto> a3) \<rparr>)
      = pushed_buffers self @ [o1, o2]"
    by (simp add: pushed_buffers_def s2_def s1_def gst_pad_push_buffer_def List.map_filter_def)
  have v1: "?view o1 = (take 4 (concat (memories buf)), 4, pts buf)"
    using len
    by (simp add: o1_def mem_region_concat gst_buffer_get_size_def p1 rn rd audio_window_offset)
  have v2: "?view o2 = (drop 4 (concat (memories buf)), 4, pts buf + 2000000)"
    using len
    by (simp add: o2_def mem_region_concat gst_buffer_get_size_def t1 p1 s1(1) rn rd
        audio_window_offset)
  show ?thesis
    by (simp only: ch pb sum.case prod.case map_append list.map v1 v2 simp_thms)
qed


text \<open>
  What the segment and the timestamp routines of the chain function leave alone, for a
  buffer with a valid timestamp.
\<close>

lemma chain_segment_returns:
  assumes "need_segment self \<longrightarrow> have_segment self"
  obtains s1 where "gst_tensor_converter_chain_segment self frame_sz = Inr s1"
    and "tensors_config s1 = tensors_config self"
    and "in_media_type s1 = in_media_type self"
    and "do_not_append_header s1 = do_not_append_header self"
    and "adapter_table s1 = adapter_table self"
    and "current_caps (srcpad s1) = current_caps (srcpad self)"
    and "pushed_buffers s1 = pushed_buffers self"
  using assms
  by (cases "need_segment self")
     (simp_all add: gst_tensor_converter_chain_segment_def Let_def pushed_buffers_def
        gst_pad_push_segment_def List.map_filter_def)

lemma chain_timestamp_element:
  "tensors_config (fst (gst_tensor_converter_chain_timestamp env self inbuf frames_in))
     = tensors_config self"
  "adapter_table (fst (gst_tensor_converter_chain_timestamp env self inbuf frames_in))
     = adapter_table self"
  by (simp_all add: gst_tensor_converter_chain_timestamp_def Let_def)

lemma chain_timestamp_valid_pts:
  assumes "GST_CLOCK_TIME_IS_VALID (pts inbuf)"
  shows "pts (snd (gst_tensor_converter_chain_timestamp env self inbuf frames_in)) = pts inbuf"
    and "meta_query_client_id (snd (gst_tensor_converter_chain_timestamp env self inbuf frames_in))
           = meta_query_client_id inbuf"
  using assms by (simp_all add: gst_tensor_converter_chain_timestamp_def Let_def)

subsection \<open>C2: four audio frames, two for each tensor\<close>

text \<open>
  C2. The element has negotiated an audio stream with frames of 2 bytes at the rate
  1000/1 and emits 2 frames for each tensor. Its adapter for the stream is empty, no
  header is added to the tensors, and the downstream element accepts the buffers. Then
  for a chunk of 8 bytes (4 frames) with a valid timestamp \<open>T\<close> the chain function
  returns \<open>GST_FLOW_OK\<close> and has pushed exactly two buffers: the first 4 bytes of the
  chunk with the timestamp \<open>T\<close>, then its last 4 bytes with the timestamp
  \<open>T + 2000000\<close> (nanoseconds: 2 milliseconds).
\<close>

theorem audio_window_two_tensors:
  assumes "in_media_type self = NNS_AUDIO"
    and "tensors_configured self"
    and "frame_size self = 2"
    and "frames_per_tensor self = 2"
    and "rate_n (tensors_config self) = 1000"
    and "rate_d (tensors_config self) = 1"
    and "need_segment self \<longrightarrow> have_segment self"
    and "do_not_append_header self \<or> \<not> gst_tensor_pad_caps_is_flexible env (srcpad self)"
    and "\<forall>b. gst_pad_push env b = GST_FLOW_OK"
    and "ad_queue (snd (gst_tensor_converter_get_adapter self buf)) = []"
    and "ad_size (snd (gst_tensor_converter_get_adapter self buf)) = 0"
    and "ad_skip (snd (gst_tensor_converter_get_adapter self buf)) = 0"
    and "length (concat (memories buf)) = 8"
    and "GST_CLOCK_TIME_IS_VALID (pts buf)"
  shows "case gst_tensor_converter_chain env self buf of
           Inl f \<Rightarrow> False
         | Inr (ret, self') \<Rightarrow>
             ret = GST_FLOW_OK
             \<and> map (\<lambda>b. (concat (memories b), gst_buffer_get_size b, pts b)) (pushed_buffers self')
               = map (\<lambda>b. (concat (memories b), gst_buffer_get_size b, pts b)) (pushed_buffers self)
                 @ [(take 4 (concat (memories buf)), 4, pts buf),
                    (drop 4 (concat (memories buf)), 4, pts buf + 2000000)]"
proof -
  have sz: "gst_buffer_get_size buf = 8"
    by (simp add: gst_buffer_get_size_def assms(13))
  have sw: "chain_switch env self buf 8 = Inr (Some (self, buf, 2, 4))"
    by (simp add: chain_switch_def chain_case_audio_def assms(1,3))
  obtain s1 where seg: "gst_tensor_converter_chain_segment self 2 = Inr s1"
    and s1: "tensors_config s1 = tensors_config self" "in_media_type s1 = in_media_type self"
      "do_not_append_header s1 = do_not_append_header self"
      "adapter_table s1 = adapter_table self"
      "current_caps (srcpad s1) = current_caps (srcpad self)"
      "pushed_buffers s1 = pushed_buffers self"
    using assms(7) by (rule chain_segment_returns)
  define s2 where "s2 = fst (gst_tensor_converter_chain_timestamp env s1 buf 4)"
  define b2 where "b2 = snd (gst_tensor_converter_chain_timestamp env s1 buf 4)"
  have ch: "gst_tensor_converter_chain env self buf
      = gst_tensor_converter_chain_chunk env s2 b2 4 2 2"
    by (simp add: gst_tensor_converter_chain_def sz sw seg assms(2,4) case_prod_beta
        s2_def b2_def)
  have b2: "memories b2 = memories buf" "pts b2 = pts buf"
    "meta_query_client_id b2 = meta_query_client_id buf"
    by (simp_all add: b2_def chain_timestamp_memories chain_timestamp_valid_pts [OF assms(14)])
  have "pushed_buffers s2 = pushed_buffers s1"
    by (simp add: s2_def pushed_buffers_def chain_timestamp_srcpad)
  then have s2: "tensors_config s2 = tensors_config self" "in_media_type s2 = NNS_AUDIO"
    "do_not_append_header s2 = do_not_append_header self"
    "adapter_table s2 = adapter_table self"
    "current_caps (srcpad s2) = current_caps (srcpad self)"
    "pushed_buffers s2 = pushed_buffers self"
    by (simp_all add: s2_def chain_timestamp_element chain_timestamp_srcpad s1 assms(1))
  have ad: "gst_tensor_converter_get_adapter s2 b2 = gst_tensor_converter_get_adapter self buf"
    by (simp add: gst_tensor_converter_get_adapter_def s2 b2)
  have plain: "do_not_append_header s2 \<or> \<not> gst_tensor_pad_caps_is_flexible env (srcpad s2)"
    using assms(8) by (simp add: gst_tensor_pad_caps_is_flexible_def s2)
  have media: "in_media_type s2 \<noteq> NNS_OCTET"
    by (simp add: s2)
  have r: "rate_n (tensors_config s2) = 1000" "rate_d (tensors_config s2) = 1"
    by (simp_all add: s2 assms(5,6))
  have e: "ad_queue (snd (gst_tensor_converter_get_adapter s2 b2)) = []"
    "ad_size (snd (gst_tensor_converter_get_adapter s2 b2)) = 0"
    "ad_skip (snd (gst_tensor_converter_get_adapter s2 b2)) = 0"
    by (simp_all add: ad assms(10,11,12))
  have l: "length (concat (memories b2)) = 8" "GST_CLOCK_TIME_IS_VALID (pts b2)"
    by (simp_all add: b2 assms(13,14))
  from chain_chunk_audio_window [OF r media plain assms(9) e l]
  show ?thesis
    unfolding ch b2 s2(6) .
qed


lemma example_audio_config_reads:
  "num_tensors (info example_audio_config) = 1"
  "format (info example_audio_config) = NNS_TENSOR_FORMAT_STATIC"
  "rate_n example_audio_config = 1000"
  "rate_d example_audio_config = 1"
  "type (info0 example_audio_config) = NNS_INT16"
  "dims (dimension (info0 example_audio_config)) = [1, 2] @ replicate 14 0"
  by (simp_all add: example_audio_config_def config_keeps info0_simps info0_init
      gst_tensors_config_init_def gst_tensors_info_init_def gst_tensor_info_init_def
      dims_list NNS_TENSOR_RANK_LIMIT_def numeral_eq_Suc)

lemma example_audio_parse_caps:
  "gst_tensor_converter_parse_caps example_env
     ((example_self gst_tensors_info_init)\<lparr> frames_per_tensor := 2 \<rparr>) example_audio_caps =
   (True, (example_self gst_tensors_info_init)
      \<lparr> frames_per_tensor := 2, frame_size := 2, in_media_type := NNS_AUDIO,
        tensors_configured := True, tensors_config := example_audio_config \<rparr>)"
proof -
  have nv: "\<not> ex_tensors_info_validate gst_tensors_info_init"
    by (simp add: ex_tensors_info_validate_def gst_tensors_info_init_def)
  have sw: "parse_caps_switch example_env
      ((example_self gst_tensors_info_init)\<lparr> frames_per_tensor := 2 \<rparr>)
      example_audio_caps NNS_AUDIO =
    (True, (example_self gst_tensors_info_init)\<lparr> frames_per_tensor := 2, frame_size := 2 \<rparr>,
     (clear_info0_dims_from 2 (set_info0_dim 1 1 (set_info0_dim 0 1
       (set_info0_type NNS_INT16 (set_num_tensors 1 gst_tensors_config_init)))))
          \<lparr> rate_n := 1000, rate_d := 1 \<rparr>,
     NNS_AUDIO, Some 1)"
    by (simp add: parse_caps_switch_def example_env_reads gst_tensor_converter_parse_audio_def
        example_audio_caps_def info0_simps info0_init gst_tensor_info_init_def Let_def)
  have v: "ex_tensors_config_validate example_audio_config"
    by (simp add: ex_tensors_config_validate_def ex_tensors_info_validate_def
        ex_tensor_info_validate_def ex_dimension_is_valid_def example_audio_config_reads
        info0_def [symmetric] list_all_iff)
  have fx: "gst_caps_is_fixed example_audio_caps"
    "gst_structure_get_media_type example_audio_caps = NNS_AUDIO"
    by (simp_all add: example_audio_caps_def)
  show ?thesis
    using nv v
    by (simp add: gst_tensor_converter_parse_caps_def fx example_self_reads sw
        example_env_reads example_audio_config_def)
qed

lemma example_audio_self_eq:
  "example_audio_self =
     gst_tensor_converter_update_caps example_env
       ((example_self gst_tensors_info_init)
          \<lparr> frames_per_tensor := 2, frame_size := 2, in_media_type := NNS_AUDIO,
            tensors_configured := True, tensors_config := example_audio_config \<rparr>)"
  by (simp add: example_audio_self_def gst_tensor_converter_sink_event_caps_def
      example_audio_parse_caps)

lemma example_audio_self_reads:
  "in_media_type example_audio_self = NNS_AUDIO"
  "frame_size example_audio_self = 2"
  "tensors_configured example_audio_self = True"
  "frames_per_tensor example_audio_self = 2"
  "need_segment example_audio_self = False"
  "tensors_config example_audio_self = example_audio_config"
  "current_caps (srcpad example_audio_self) = Some example_audio_config"
  "pushed_buffers example_audio_self = []"
  "adapter_table example_audio_self = (\<lambda>k. None)"
  by (simp_all add: example_audio_self_eq gst_tensor_converter_update_caps_def Let_def
      example_self_reads example_env_reads gst_pad_set_caps_def example_self_def
      gst_tensor_converter_init_def gst_tensor_converter_reset_def pushed_buffers_def
      List.map_filter_def)

text \<open>
  The theorem at the negotiated stream: the chunk \<open>1 ... 8\<close> with the timestamp 5 ms
  leaves the element as the buffers \<open>1 ... 4\<close> at 5 ms and \<open>5 ... 8\<close> at 7 ms.
\<close>

theorem audio_window_two_tensors_witness:
  "in_media_type example_audio_self = NNS_AUDIO
   \<and> frame_size example_audio_self = 2
   \<and> frames_per_tensor example_audio_self = 2
   \<and> rate_n (tensors_config example_audio_self) = 1000
   \<and> rate_d (tensors_config example_audio_self) = 1
   \<and> (case gst_tensor_converter_chain example_env example_audio_self example_audio_chunk of
         Inl f \<Rightarrow> False
       | Inr (ret, self') \<Rightarrow>
           ret = GST_FLOW_OK
           \<and> map (\<lambda>b. (concat (memories b), gst_buffer_get_size b, pts b)) (pushed_buffers self')
             = [([1, 2, 3, 4], 4, 5000000), ([5, 6, 7, 8], 4, 7000000)])"
proof -
  have a: "in_media_type example_audio_self = NNS_AUDIO"
    "tensors_configured example_audio_self"
    "frame_size example_audio_self = 2"
    "frames_per_tensor example_audio_self = 2"
    "rate_n (tensors_config example_audio_self) = 1000"
    "rate_d (tensors_config example_audio_self) = 1"
    "need_segment example_audio_self \<longrightarrow> have_segment example_audio_self"
    by (simp_all add: example_audio_self_reads example_audio_config_reads)
  have nf: "do_not_append_header example_audio_self
      \<or> \<not> gst_tensor_pad_caps_is_flexible example_env (srcpad example_audio_self)"
    by (simp add: gst_tensor_pad_caps_is_flexible_def example_audio_self_reads example_env_reads
        gst_tensors_config_is_flexible_def example_audio_config_reads)
  have down: "\<forall>b. gst_pad_push example_env b = GST_FLOW_OK"
    by (simp add: example_env_reads)
  have ad: "ad_queue (snd (gst_tensor_converter_get_adapter example_audio_self
                              example_audio_chunk)) = []"
    "ad_size (snd (gst_tensor_converter_get_adapter example_audio_self example_audio_chunk)) = 0"
    "ad_skip (snd (gst_tensor_converter_get_adapter example_audio_self example_audio_chunk)) = 0"
    by (simp_all add: gst_tensor_converter_get_adapter_def example_audio_self_reads
        gst_adapter_new_def)
  have b: "concat (memories example_audio_chunk) = [1, 2, 3, 4, 5, 6, 7, 8]"
    "pts example_audio_chunk = 5000000"
    by (simp_all add: example_audio_chunk_def gst_buffer_new_def)
  have len: "length (concat (memories example_audio_chunk)) = 8"
    by (simp add: b)
  have valid: "GST_CLOCK_TIME_IS_VALID (pts example_audio_chunk)"
    by (simp add: b GST_CLOCK_TIME_IS_VALID_def GST_CLOCK_TIME_NONE_def)
  note t = audio_window_two_tensors [OF a nf down ad len valid,
      unfolded b example_audio_self_reads(8) list.map(1) append_Nil]
  have t': "case gst_tensor_converter_chain example_env example_audio_self example_audio_chunk of
         Inl f \<Rightarrow> False
       | Inr (ret, self') \<Rightarrow>
           ret = GST_FLOW_OK
           \<and> map (\<lambda>b. (concat (memories b), gst_buffer_get_size b, pts b)) (pushed_buffers self')
             = [([1, 2, 3, 4], 4, 5000000), ([5, 6, 7, 8], 4, 7000000)]"
    using t by (auto split: sum.splits)
  from a(1,3,4,5,6) t' show ?thesis
    by (intro conjI)
qed

subsection \<open>C9: what a flexible octet stream emits\<close>

text \<open>
  The buffer that \<open>_gst_tensor_converter_chain_push\<close> sends for an octet stream of one
  tensor: the bytes of the buffer in one memory, behind the header made from the
  descriptor of the element at that moment when the source pad has flexible caps.
\<close>

lemma chain_push_octet_single:
  assumes "in_media_type self = NNS_OCTET"
    and "num_tensors (info (tensors_config self)) = 1"
    and "frames_per_tensor self = 1"
    and "memories buf \<noteq> []"
  shows "\<exists>out. gst_tensor_converter_chain_push env self buf
            = Inr (gst_pad_push env out,
                   self\<lparr> srcpad := gst_pad_push_buffer (srcpad self) out \<rparr>)
          \<and> memories out =
              [if \<not> do_not_append_header self
                    \<and> gst_tensor_pad_caps_is_flexible env (srcpad self)
               then gst_tensor_meta_info_append_header env
                      ((gst_tensor_info_convert_to_meta env (info0 (tensors_config self)))
                         \<lparr> meta_media_type := NNS_OCTET \<rparr>)
                      (concat (memories buf))
               else concat (memories buf)]"
proof -
  obtain buffer where oct: "gst_tensor_converter_chain_octet env self buf = Inr buffer"
    and mem: "memories buffer = [concat (memories buf)]"
  proof (cases "1 < gst_buffer_n_memory buf")
    case True
    with assms that show ?thesis
      by (simp add: gst_tensor_converter_chain_octet_def Let_def gst_buffer_copy_metadata_def)
  next
    case False
    with assms(4) obtain m where "memories buf = [m]"
      by (cases "memories buf") (auto simp: gst_buffer_n_memory_def)
    with assms False that show ?thesis
      by (simp add: gst_tensor_converter_chain_octet_def Let_def gst_buffer_n_memory_def)
  qed
  show ?thesis
  proof (cases "\<not> do_not_append_header self \<and> gst_tensor_pad_caps_is_flexible env (srcpad self)")
    case True
    then show ?thesis
      using assms(1,2) oct mem
      apply (simp add: gst_tensor_converter_chain_push_def
          gst_tensor_converter_chain_flex_tensor_def Let_def flex_media_type_def info0_def
          gst_buffer_copy_metadata_def)
      apply (intro exI conjI)
        apply (rule refl)
       apply (rule refl)
      apply simp
      done
  next
    case False
    then show ?thesis
      using assms(1) oct mem
      by (auto simp: gst_tensor_converter_chain_push_def)
  qed
qed


lemma pad_caps_is_flexible_cong:
  "current_caps pad = current_caps pad' \<Longrightarrow>
   gst_tensor_pad_caps_is_flexible env pad = gst_tensor_pad_caps_is_flexible env pad'"
  by (simp add: gst_tensor_pad_caps_is_flexible_def)

text \<open>
  A chain call on a non-empty buffer of a flexible octet stream, with one frame for
  each tensor: the call returns, the descriptor has the size of the buffer in its
  leading dimension, and exactly one buffer has been pushed, made with the descriptor
  as it is after the call.
\<close>

lemma chain_flexible_octet_emits:
  assumes "in_media_type self = NNS_OCTET"
    and "tensors_configured self"
    and "gst_tensors_config_is_flexible (tensors_config self)"
    and "num_tensors (info (tensors_config self)) = 1"
    and "0 < gst_buffer_get_size buf"
    and "frames_per_tensor self = 1"
    and "need_segment self \<longrightarrow> have_segment self"
  shows "\<exists>ret self'. gst_tensor_converter_chain env self buf = Inr (ret, self')
     \<and> tensors_config self'
          = set_info0_dim 0 (ucast (gst_buffer_get_size buf)) (tensors_config self)
     \<and> map memories (pushed_buffers self') = map memories (pushed_buffers self) @
          [[if \<not> do_not_append_header self \<and> gst_tensor_pad_caps_is_flexible env (srcpad self)
            then gst_tensor_meta_info_append_header env
                   ((gst_tensor_info_convert_to_meta env (info0 (tensors_config self')))
                      \<lparr> meta_media_type := NNS_OCTET \<rparr>)
                   (concat (memories buf))
            else concat (memories buf)]]"
proof -
  let ?sz = "gst_buffer_get_size buf"
  let ?cfg = "set_info0_dim 0 (ucast ?sz) (tensors_config self)"
  let ?self1 = "self\<lparr> tensors_config := ?cfg \<rparr>"
  have sw: "chain_switch env self buf ?sz = Inr (Some (?self1, buf, ?sz, 1))"
    by (rule chain_switch_flexible_octet [OF assms(1,3)])
  have "need_segment ?self1 \<longrightarrow> have_segment ?self1"
    using assms(7) by simp
  then obtain s2 where sg: "gst_tensor_converter_chain_segment ?self1 ?sz = Inr s2"
    and s2: "current_caps (srcpad s2) = current_caps (srcpad ?self1)"
      "pushed_buffers s2 = pushed_buffers ?self1"
    by (rule chain_segment_returns)
  have c2: "config_eq s2 ?self1"
    by (rule chain_segment_keeps [OF sg])
  let ?t = "gst_tensor_converter_chain_timestamp env s2 buf 1"
  have ch: "gst_tensor_converter_chain env self buf
              = gst_tensor_converter_chain_push env (fst ?t) (snd ?t)"
    using assms(2,5,6)
    by (simp add: gst_tensor_converter_chain_def sw sg Let_def case_prod_beta)
  have ct: "config_eq (fst ?t) ?self1"
    using chain_timestamp_keeps c2 by (rule config_eq_trans)
  have m: "memories (snd ?t) = memories buf" "memories buf \<noteq> []"
    using assms(5) by (auto simp: chain_timestamp_memories gst_buffer_get_size_def)
  have t: "in_media_type (fst ?t) = NNS_OCTET" "tensors_config (fst ?t) = ?cfg"
    "frames_per_tensor (fst ?t) = 1" "do_not_append_header (fst ?t) = do_not_append_header self"
    using ct assms(1,6) by (simp_all add: config_eq_def)
  have n: "num_tensors (info (tensors_config (fst ?t))) = 1"
    using assms(4) by (simp add: t config_keeps)
  have fl: "gst_tensor_pad_caps_is_flexible env (srcpad (fst ?t))
      = gst_tensor_pad_caps_is_flexible env (srcpad self)"
    by (rule pad_caps_is_flexible_cong) (simp add: chain_timestamp_srcpad s2)
  have pb: "pushed_buffers (fst ?t) = pushed_buffers self"
    using s2(2) by (simp add: pushed_buffers_def chain_timestamp_srcpad)
  from chain_push_octet_single [of "fst ?t" "snd ?t" env, OF t(1) n t(3)] m
  obtain out where ps: "gst_tensor_converter_chain_push env (fst ?t) (snd ?t)
            = Inr (gst_pad_push env out,
                   (fst ?t)\<lparr> srcpad := gst_pad_push_buffer (srcpad (fst ?t)) out \<rparr>)"
    and out: "memories out =
              [if \<not> do_not_append_header self
                    \<and> gst_tensor_pad_caps_is_flexible env (srcpad self)
               then gst_tensor_meta_info_append_header env
                      ((gst_tensor_info_convert_to_meta env (info0 ?cfg))
                         \<lparr> meta_media_type := NNS_OCTET \<rparr>)
                      (concat (memories buf))
               else concat (memories buf)]"
    unfolding m(1) t fl by auto
  show ?thesis
    unfolding ch ps
    by (intro exI conjI, rule refl) (simp_all add: t pushed_buffers_push pb out)
qed


text \<open>
  C9, as amended. When the negotiation of an octet stream yields a flexible config,
  the config has exactly one tensor. From then on, for every non-empty buffer, a chain
  call that returns leaves the config flexible with one tensor whose leading dimension
  is the size of the buffer, as the 32-bit slot holds it: the size itself below
  \<open>2^32\<close> bytes. With one frame for each tensor and no segment event missing, the call
  does return and has pushed exactly one buffer, of one memory: the bytes of the
  buffer, behind the header of the descriptor with the new leading dimension when the
  source pad has flexible caps. So the dimension is written before anything is
  emitted.
\<close>

theorem flexible_octet_invariant:
  "(gst_tensor_converter_parse_caps env self0 caps = (True, self)
      \<and> format (tensors_info self0) = NNS_TENSOR_FORMAT_STATIC
      \<and> in_media_type self = NNS_OCTET
      \<and> gst_tensors_config_is_flexible (tensors_config self) \<longrightarrow>
    flexible_octet self)
   \<and> (flexible_octet self \<and> 0 < gst_buffer_get_size buf
      \<and> gst_tensor_converter_chain env self buf = Inr (ret, self') \<longrightarrow>
    flexible_octet self'
    \<and> dimension (info0 (tensors_config self')) 0 = ucast (gst_buffer_get_size buf)
    \<and> (gst_buffer_get_size buf < 2 ^ 32 \<longrightarrow>
         unat (dimension (info0 (tensors_config self')) 0) = unat (gst_buffer_get_size buf)))
   \<and> (flexible_octet self \<and> 0 < gst_buffer_get_size buf
      \<and> frames_per_tensor self = 1 \<and> (need_segment self \<longrightarrow> have_segment self) \<longrightarrow>
    (case gst_tensor_converter_chain env self buf of
       Inl f \<Rightarrow> False
     | Inr (ret, self') \<Rightarrow>
         flexible_octet self'
         \<and> dimension (info0 (tensors_config self')) 0 = ucast (gst_buffer_get_size buf)
         \<and> map memories (pushed_buffers self') = map memories (pushed_buffers self) @
              [[if \<not> do_not_append_header self
                    \<and> gst_tensor_pad_caps_is_flexible env (srcpad self)
                then gst_tensor_meta_info_append_header env
                       ((gst_tensor_info_convert_to_meta env (info0 (tensors_config self')))
                          \<lparr> meta_media_type := NNS_OCTET \<rparr>)
                       (concat (memories buf))
                else concat (memories buf)]]))"
proof (intro conjI impI)
  assume "gst_tensor_converter_parse_caps env self0 caps = (True, self)
      \<and> format (tensors_info self0) = NNS_TENSOR_FORMAT_STATIC
      \<and> in_media_type self = NNS_OCTET
      \<and> gst_tensors_config_is_flexible (tensors_config self)"
  then show "flexible_octet self"
    using parse_caps_flexible_octet [of env self0 caps self]
    by (simp add: flexible_octet_def)
next
  assume a: "flexible_octet self \<and> 0 < gst_buffer_get_size buf
      \<and> gst_tensor_converter_chain env self buf = Inr (ret, self')"
  then have sw: "chain_switch env self buf (gst_buffer_get_size buf) =
     Inr (Some (self\<lparr> tensors_config :=
                   set_info0_dim 0 (ucast (gst_buffer_get_size buf)) (tensors_config self) \<rparr>,
                buf, gst_buffer_get_size buf, 1))"
    by (simp add: flexible_octet_def chain_switch_flexible_octet)
  from a have ce: "config_eq self' (self\<lparr> tensors_config :=
                   set_info0_dim 0 (ucast (gst_buffer_get_size buf)) (tensors_config self) \<rparr>)"
    using chain_after_switch_keeps [OF sw, of ret self']
    by (simp add: flexible_octet_def)
  from a ce show "flexible_octet self'"
    by (simp add: flexible_octet_def config_eq_def gst_tensors_config_is_flexible_def
        config_keeps)
  from ce show d: "dimension (info0 (tensors_config self')) 0 = ucast (gst_buffer_get_size buf)"
    by (simp add: config_eq_def info0_simps)
  assume "gst_buffer_get_size buf < 2 ^ 32"
  then show "unat (dimension (info0 (tensors_config self')) 0) = unat (gst_buffer_get_size buf)"
    unfolding d by (rule unat_ucast_gsize_guint)
next
  assume a: "flexible_octet self \<and> 0 < gst_buffer_get_size buf
      \<and> frames_per_tensor self = 1 \<and> (need_segment self \<longrightarrow> have_segment self)"
  then have f: "in_media_type self = NNS_OCTET" "tensors_configured self"
    "gst_tensors_config_is_flexible (tensors_config self)"
    "num_tensors (info (tensors_config self)) = 1"
    by (simp_all add: flexible_octet_def)
  from a have b: "0 < gst_buffer_get_size buf" "frames_per_tensor self = 1"
    "need_segment self \<longrightarrow> have_segment self"
    by simp_all
  from chain_flexible_octet_emits [OF f b, of env] obtain ret self'
    where ch: "gst_tensor_converter_chain env self buf = Inr (ret, self')"
      and cfg: "tensors_config self'
          = set_info0_dim 0 (ucast (gst_buffer_get_size buf)) (tensors_config self)"
      and pb: "map memories (pushed_buffers self') = map memories (pushed_buffers self) @
          [[if \<not> do_not_append_header self \<and> gst_tensor_pad_caps_is_flexible env (srcpad self)
            then gst_tensor_meta_info_append_header env
                   ((gst_tensor_info_convert_to_meta env (info0 (tensors_config self')))
                      \<lparr> meta_media_type := NNS_OCTET \<rparr>)
                   (concat (memories buf))
            else concat (memories buf)]]"
    by blast
  have ce: "config_eq self' (self\<lparr> tensors_config :=
                   set_info0_dim 0 (ucast (gst_buffer_get_size buf)) (tensors_config self) \<rparr>)"
    using chain_after_switch_keeps [OF chain_switch_flexible_octet [OF f(1,3)] ch b(1) f(2)] .
  have fo: "flexible_octet self'"
    using f ce
    by (simp add: flexible_octet_def config_eq_def gst_tensors_config_is_flexible_def
        config_keeps)
  have d: "dimension (info0 (tensors_config self')) 0 = ucast (gst_buffer_get_size buf)"
    by (simp add: cfg info0_simps)
  from fo d pb show "case gst_tensor_converter_chain env self buf of
       Inl f \<Rightarrow> False
     | Inr (ret, self') \<Rightarrow>
         flexible_octet self'
         \<and> dimension (info0 (tensors_config self')) 0 = ucast (gst_buffer_get_size buf)
         \<and> map memories (pushed_buffers self') = map memories (pushed_buffers self) @
              [[if \<not> do_not_append_header self
                    \<and> gst_tensor_pad_caps_is_flexible env (srcpad self)
                then gst_tensor_meta_info_append_header env
                       ((gst_tensor_info_convert_to_meta env (info0 (tensors_config self')))
                          \<lparr> meta_media_type := NNS_OCTET \<rparr>)
                       (concat (memories buf))
                else concat (memories buf)]]"
    unfolding ch by simp
qed


lemma example_octet_self_pad:
  "do_not_append_header example_octet_self = False"
  "gst_tensor_pad_caps_is_flexible example_env_flexible (srcpad example_octet_self)"
  "pushed_buffers example_octet_self = []"
  "have_segment example_octet_self = False"
  by (simp_all add: example_octet_self_eq gst_tensor_converter_update_caps_def Let_def
      example_self_reads example_self_def gst_tensor_converter_init_def
      gst_tensor_converter_reset_def gst_pad_set_caps_def pushed_buffers_def
      List.map_filter_def gst_tensor_pad_caps_is_flexible_def example_env_flexible_reads
      gst_tensors_config_is_flexible_def config_keeps)

text \<open>
  The theorem for the example negotiation and a buffer of 7 bytes: the negotiated
  element satisfies the invariant, the call returns, the leading dimension is 7 after
  it, and the one buffer pushed is the header with the dimension 7 (the bytes 5 and 7
  in the example environment) and the 7 bytes.
\<close>

theorem flexible_octet_invariant_witness:
  "fst (gst_tensor_converter_parse_caps example_env_flexible
          (example_self gst_tensors_info_init) example_octet_caps)
   \<and> flexible_octet (snd (gst_tensor_converter_parse_caps example_env_flexible
          (example_self gst_tensors_info_init) example_octet_caps))
   \<and> flexible_octet example_octet_self
   \<and> gst_buffer_get_size example_octet_buffer = 7
   \<and> (case gst_tensor_converter_chain example_env_flexible example_octet_self
              example_octet_buffer of
         Inl f \<Rightarrow> False
       | Inr (ret, self') \<Rightarrow>
           flexible_octet self' \<and> dimension (info0 (tensors_config self')) 0 = 7
           \<and> unat (dimension (info0 (tensors_config self')) 0) = 7
           \<and> map memories (pushed_buffers self') = [[[5, 7, 1, 2, 3, 4, 5, 6, 7]]])"
proof -
  let ?neg = "gst_tensor_converter_parse_caps example_env_flexible
          (example_self gst_tensors_info_init) example_octet_caps"
  have neg: "?neg = (True, snd ?neg)" "fst ?neg"
    by (simp_all add: example_octet_parse_caps)
  have fm: "format (tensors_info (example_self gst_tensors_info_init)) = NNS_TENSOR_FORMAT_STATIC"
    unfolding example_self_reads by (simp add: gst_tensors_info_init_def)
  have "in_media_type (snd ?neg) = NNS_OCTET
      \<and> gst_tensors_config_is_flexible (tensors_config (snd ?neg))"
    by (simp add: example_octet_parse_caps gst_tensors_config_is_flexible_def config_keeps)
  with neg(1) fm have p1: "flexible_octet (snd ?neg)"
    using flexible_octet_invariant [of example_env_flexible "example_self gst_tensors_info_init"
        example_octet_caps "snd ?neg"]
    by blast
  have pre: "flexible_octet example_octet_self \<and> 0 < gst_buffer_get_size example_octet_buffer
      \<and> frames_per_tensor example_octet_self = 1
      \<and> (need_segment example_octet_self \<longrightarrow> have_segment example_octet_self)"
    by (simp add: example_octet_self_flexible example_octet_buffer_size example_octet_self_reads)
  have p3: "case gst_tensor_converter_chain example_env_flexible example_octet_self
              example_octet_buffer of
         Inl f \<Rightarrow> False
       | Inr (ret, self') \<Rightarrow>
         flexible_octet self'
         \<and> dimension (info0 (tensors_config self')) 0
             = ucast (gst_buffer_get_size example_octet_buffer)
         \<and> map memories (pushed_buffers self') = map memories (pushed_buffers example_octet_self) @
              [[if \<not> do_not_append_header example_octet_self
                    \<and> gst_tensor_pad_caps_is_flexible example_env_flexible
                         (srcpad example_octet_self)
                then gst_tensor_meta_info_append_header example_env_flexible
                       ((gst_tensor_info_convert_to_meta example_env_flexible
                           (info0 (tensors_config self')))
                          \<lparr> meta_media_type := NNS_OCTET \<rparr>)
                       (concat (memories example_octet_buffer))
                else concat (memories example_octet_buffer)]]"
    using flexible_octet_invariant [of example_env_flexible example_octet_self example_octet_caps
        example_octet_self example_octet_buffer] pre
    by blast
  then obtain ret self'
    where ch: "gst_tensor_converter_chain example_env_flexible example_octet_self
                 example_octet_buffer = Inr (ret, self')"
    by (auto split: sum.splits)
  from flexible_octet_invariant [of example_env_flexible example_octet_self example_octet_caps
      example_octet_self example_octet_buffer ret self'] ch pre
  have p2: "unat (dimension (info0 (tensors_config self')) 0) = 7"
    "type (info0 (tensors_config self')) = NNS_UINT8"
    using chain_flexible_octet_config [OF _ _ _ _ ch]
    by (simp_all add: example_octet_buffer_size example_octet_self_reads info0_simps
        info0_init gst_tensor_info_init_def flexible_octet_def)
  have bytes: "concat (memories example_octet_buffer) = [1, 2, 3, 4, 5, 6, 7]"
    by (simp add: example_octet_buffer_def gst_buffer_new_def)
  note p3' = p3 [unfolded ch sum.case prod.case example_octet_buffer_size bytes]
  from p3' have q: "flexible_octet self'" "dimension (info0 (tensors_config self')) 0 = 7"
    "map memories (pushed_buffers self') = [[[5, 7, 1, 2, 3, 4, 5, 6, 7]]]"
    by (simp_all add: example_octet_self_pad
        example_env_flexible_reads ex_meta_append_header_def ex_convert_to_meta_def p2(2))
  show ?thesis
    using neg(2) p1 pre q p2(1)
    by (simp add: ch example_octet_buffer_size)
qed

text \<open>
  C9 as stated fails for an empty buffer: the chain function returns at its first
  check, and after the call the leading dimension is still the placeholder 1, not the
  size 0 of the buffer. It also fails for a buffer of \<open>2^32\<close> bytes: the call returns,
  and the leading dimension, a 32-bit slot, is 0 after it.
\<close>

theorem flexible_octet_empty_buffer_counterexample:
  "flexible_octet example_octet_self
   \<and> gst_buffer_get_size gst_buffer_new = 0
   \<and> gst_tensor_converter_chain example_env_flexible example_octet_self gst_buffer_new
       = Inr (GST_FLOW_ERROR, example_octet_self)
   \<and> dimension (info0 (tensors_config example_octet_self)) 0 = 1
   \<and> gst_buffer_get_size example_octet_large_buffer = 4294967296
   \<and> (case gst_tensor_converter_chain example_env_flexible example_octet_self
              example_octet_large_buffer of
         Inl f \<Rightarrow> False
       | Inr (ret, self') \<Rightarrow> dimension (info0 (tensors_config self')) 0 = 0)"
proof -
  have a: "flexible_octet example_octet_self
   \<and> gst_buffer_get_size gst_buffer_new = 0
   \<and> gst_tensor_converter_chain example_env_flexible example_octet_self gst_buffer_new
       = Inr (GST_FLOW_ERROR, example_octet_self)
   \<and> dimension (info0 (tensors_config example_octet_self)) 0 = 1"
    by (simp add: example_octet_self_flexible gst_tensor_converter_chain_def
      gst_buffer_get_size_def gst_buffer_new_def example_octet_self_reads info0_simps)
  have sz: "gst_buffer_get_size example_octet_large_buffer = 4294967296"
    by (simp add: example_octet_large_buffer_def gst_buffer_get_size_def gst_buffer_new_def)
  have f: "in_media_type example_octet_self = NNS_OCTET" "tensors_configured example_octet_self"
    "gst_tensors_config_is_flexible (tensors_config example_octet_self)"
    "num_tensors (info (tensors_config example_octet_self)) = 1"
    using example_octet_self_flexible by (simp_all add: flexible_octet_def)
  have b: "0 < gst_buffer_get_size example_octet_large_buffer"
    "frames_per_tensor example_octet_self = 1"
    "need_segment example_octet_self \<longrightarrow> have_segment example_octet_self"
    by (simp_all add: sz example_octet_self_reads)
  from chain_flexible_octet_emits [OF f b, of example_env_flexible] obtain ret self'
    where ch: "gst_tensor_converter_chain example_env_flexible example_octet_self
                 example_octet_large_buffer = Inr (ret, self')"
      and cfg: "tensors_config self'
          = set_info0_dim 0 (ucast (gst_buffer_get_size example_octet_large_buffer))
              (tensors_config example_octet_self)"
    by blast
  have "dimension (info0 (tensors_config self')) 0 = 0"
    by (simp add: cfg sz info0_simps)
  with a sz show ?thesis
    by (simp add: ch)
qed

subsection \<open>C3: the descriptor recovered from a flexible buffer\<close>























end
